theory Spec2Isabelle
  imports Complex_Main
begin

section \<open>Results that may be an exception\<close>

text \<open>
  A call of the source either returns or raises.  A raising call is \<open>Inl e\<close>,
  a returning one \<open>Inr v\<close>; \<open>ebind\<close> runs the next statement only after a return.
\<close>

definition ebind :: "'e + 'a \<Rightarrow> ('a \<Rightarrow> 'e + 'b) \<Rightarrow> 'e + 'b" where
  "ebind m f = (case m of Inl e \<Rightarrow> Inl e | Inr x \<Rightarrow> f x)"

fun emap :: "('a \<Rightarrow> 'e + 'b) \<Rightarrow> 'a list \<Rightarrow> 'e + 'b list" where
  "emap f [] = Inr []"
| "emap f (x # xs) = ebind (f x) (\<lambda>y. ebind (emap f xs) (\<lambda>ys. Inr (y # ys)))"

section \<open>research/ssd_pytorch/models/model.py\<close>

subsection \<open>Parameters and the store they live in\<close>

text \<open>
  A parameter is a tensor object on the heap.  Its numbers are floating point and are
  not modelled; what is kept is its shape, the initialiser that wrote its current data,
  and the tensor's version counter, which every in-place write increments.  The store is
  the heap of parameter tensors; an address is an index into it, and a module refers to
  its parameters by address, so that two modules holding the same address share the
  tensor.
\<close>

datatype init = DefaultInit | Pretrained | XavierUniform

record parameter =
  pshape :: "nat list"
  pinit :: init
  pversion :: nat

type_synonym addr = nat
type_synonym store = "parameter list"

definition new_parameter :: "nat list \<Rightarrow> parameter" where
  "new_parameter s = \<lparr>pshape = s, pinit = DefaultInit, pversion = 0\<rparr>"

definition alloc :: "nat list \<Rightarrow> store \<Rightarrow> addr \<times> store" where
  "alloc s st = (length st, st @ [new_parameter s])"

definition inplace :: "(parameter \<Rightarrow> parameter) \<Rightarrow> addr \<Rightarrow> store \<Rightarrow> store" where
  "inplace f a st = st[a := f (st ! a)]"

definition dim_param :: "parameter \<Rightarrow> nat" where
  "dim_param p = length (pshape p)"

definition xavier_uniform :: "parameter \<Rightarrow> parameter" where
  "xavier_uniform p = p\<lparr>pinit := XavierUniform, pversion := Suc (pversion p)\<rparr>"

definition load_pretrained :: "parameter \<Rightarrow> parameter" where
  "load_pretrained p = p\<lparr>pinit := Pretrained, pversion := Suc (pversion p)\<rparr>"

subsection \<open>The framework's modules\<close>

text \<open>
  The layers of \<open>torch.nn\<close> and \<open>torchvision\<close> that the source instantiates, with the
  hyper-parameters the source passes and the addresses of their parameters:
  \<open>Conv2d in_channels out_channels kernel_size stride padding groups weight bias\<close>,
  \<open>BatchNorm2d num_features training weight bias\<close>, and
  \<open>InvertedResidual use_res_connect conv\<close>.
  \<open>BatchNorm2d\<close> carries the module's \<open>training\<close> flag, which \<open>nn.Module.__init__\<close>
  sets to \<open>True\<close>; it is the only layer here whose shape check reads the flag.
\<close>

datatype layer =
    Conv2d nat nat nat nat nat nat addr "addr option"
  | BatchNorm2d nat bool addr addr
  | ReLU
  | ReLU6
  | Sequential "layer list"
  | InvertedResidual bool layer

definition nn_Conv2d ::
  "nat \<Rightarrow> nat \<Rightarrow> nat \<Rightarrow> nat \<Rightarrow> nat \<Rightarrow> nat \<Rightarrow> bool \<Rightarrow> store \<Rightarrow> layer \<times> store" where
  "nn_Conv2d ci co k s p g has_bias st =
     (let (w, st1) = alloc [co, ci div g, k, k] st;
          (b, st2) = (if has_bias then (let (b, st2) = alloc [co] st1 in (Some b, st2))
                      else (None, st1))
      in (Conv2d ci co k s p g w b, st2))"

definition nn_BatchNorm2d :: "nat \<Rightarrow> store \<Rightarrow> layer \<times> store" where
  "nn_BatchNorm2d n st =
     (let (w, st1) = alloc [n] st;
          (b, st2) = alloc [n] st1
      in (BatchNorm2d n True w b, st2))"

text \<open>\<open>nn.Module.parameters()\<close>: the module's own parameters, then its children's, each
  tensor once (the first time it is met).\<close>

fun params_raw :: "layer \<Rightarrow> addr list" and params_list :: "layer list \<Rightarrow> addr list" where
  "params_raw (Conv2d ci co k s p g w b) = w # (case b of None \<Rightarrow> [] | Some a \<Rightarrow> [a])"
| "params_raw (BatchNorm2d n t w b) = [w, b]"
| "params_raw ReLU = []"
| "params_raw ReLU6 = []"
| "params_raw (Sequential ls) = params_list ls"
| "params_raw (InvertedResidual r c) = params_raw c"
| "params_list [] = []"
| "params_list (l # ls) = params_raw l @ params_list ls"

definition first_occurrences :: "'a list \<Rightarrow> 'a list" where
  "first_occurrences xs = rev (remdups (rev xs))"

definition parameters :: "layer \<Rightarrow> addr list" where
  "parameters l = first_occurrences (params_raw l)"

subsection \<open>Tensor shapes\<close>

text \<open>
  The exceptions the framework raises on a shape it does not accept.
\<close>

datatype torch_error =
    NotFourD
  | ChannelMismatch
  | KernelTooLarge
  | OneValuePerChannel
  | BroadcastError
  | IndexError
  | ViewError
  | CatError
  | UnpackError

text \<open>
  The shape a module returns on an input of a given shape, as the framework documents
  it.  A convolution wants a batched input \<open>(N, C, H, W)\<close> with \<open>C = in_channels\<close> and a padded
  extent of at least the kernel, and returns
  \<open>(N, out_channels, (H + 2p - k) div s + 1, (W + 2p - k) div s + 1)\<close>.  Batch normalisation
  keeps the shape; in training mode it refuses an input with one value per channel
  (\<open>N * H * W = 1\<close>), and that check comes before the one on the channel count.
\<close>

fun layer_shape :: "layer \<Rightarrow> nat list \<Rightarrow> torch_error + nat list"
  and seq_shape :: "layer list \<Rightarrow> nat list \<Rightarrow> torch_error + nat list" where
  "layer_shape (Conv2d ci co k s p g w b) x =
     (case x of
        [n, c, h, wd] \<Rightarrow>
          if c \<noteq> ci then Inl ChannelMismatch
          else if h + 2 * p < k \<or> wd + 2 * p < k then Inl KernelTooLarge
          else Inr [n, co, (h + 2 * p - k) div s + 1, (wd + 2 * p - k) div s + 1]
      | _ \<Rightarrow> Inl NotFourD)"
| "layer_shape (BatchNorm2d nf t w b) x =
     (case x of
        [n, c, h, wd] \<Rightarrow>
          if t \<and> n * h * wd = 1 then Inl OneValuePerChannel
          else if c \<noteq> nf then Inl ChannelMismatch
          else Inr x
      | _ \<Rightarrow> Inl NotFourD)"
| "layer_shape ReLU x = Inr x"
| "layer_shape ReLU6 x = Inr x"
| "layer_shape (Sequential ls) x = seq_shape ls x"
| "layer_shape (InvertedResidual r c) x =
     (if r then ebind (layer_shape c x) (\<lambda>y. if y = x then Inr x else Inl BroadcastError)
      else layer_shape c x)"
| "seq_shape [] x = Inr x"
| "seq_shape (l # ls) x = ebind (layer_shape l x) (seq_shape ls)"

text \<open>
  The operations of the framework that \<open>forward\<close> calls, for an arbitrary representation
  \<open>'t\<close> of tensors: applying a module, \<open>t.shape[0]\<close>, \<open>t.view(a, b, -1)\<close>,
  \<open>torch.cat(ts, d)\<close> and \<open>t.contiguous()\<close>.
\<close>

record 't torch =
  call :: "layer \<Rightarrow> 't \<Rightarrow> torch_error + 't"
  shape0 :: "'t \<Rightarrow> torch_error + nat"
  view :: "'t \<Rightarrow> nat \<Rightarrow> nat \<Rightarrow> torch_error + 't"
  cat :: "'t list \<Rightarrow> nat \<Rightarrow> torch_error + 't"
  contiguous :: "'t \<Rightarrow> 't"

text \<open>The same operations on shapes alone.\<close>

definition shape_first :: "nat list \<Rightarrow> torch_error + nat" where
  "shape_first x = (case x of [] \<Rightarrow> Inl IndexError | n # _ \<Rightarrow> Inr n)"

definition view_shape :: "nat list \<Rightarrow> nat \<Rightarrow> nat \<Rightarrow> torch_error + nat list" where
  "view_shape x a b =
     (if a * b = 0 \<or> prod_list x mod (a * b) \<noteq> 0 then Inl ViewError
      else Inr [a, b, prod_list x div (a * b)])"

definition cat_shape :: "nat list list \<Rightarrow> nat \<Rightarrow> torch_error + nat list" where
  "cat_shape xs d =
     (case xs of
        [] \<Rightarrow> Inl CatError
      | x # _ \<Rightarrow>
          if d < length x \<and> (\<forall>y \<in> set xs. length y = length x \<and> y[d := 0] = x[d := 0])
          then Inr (x[d := sum_list (map (\<lambda>y. y ! d) xs)])
          else Inl CatError)"

definition shapes :: "nat list torch" where
  "shapes = \<lparr>call = layer_shape, shape0 = shape_first, view = view_shape,
             cat = cat_shape, contiguous = (\<lambda>x. x)\<rparr>"

subsection \<open>The pretrained backbone\<close>

text \<open>
  \<open>torchvision.models.mobilenet_v2\<close>, as far as the source uses it: the children of
  \<open>backbone.features\<close>.  \<open>ConvBNReLU\<close> is a convolution without bias (padding
  \<open>(kernel_size - 1) div 2\<close>), batch normalisation and \<open>ReLU6\<close>; \<open>InvertedResidual\<close> is
  an optional 1x1 expansion, a depthwise 3x3 convolution of the given stride, a linear 1x1
  projection and batch normalisation, added to its input when the stride is 1 and the
  channel counts agree.  The classifier of the network is never referenced by the source
  and is left out.
\<close>

definition ConvBNReLU :: "nat \<Rightarrow> nat \<Rightarrow> nat \<Rightarrow> nat \<Rightarrow> nat \<Rightarrow> store \<Rightarrow> layer \<times> store" where
  "ConvBNReLU in_planes out_planes k s g st =
     (let (c, st1) = nn_Conv2d in_planes out_planes k s ((k - 1) div 2) g False st;
          (b, st2) = nn_BatchNorm2d out_planes st1
      in (Sequential [c, b, ReLU6], st2))"

definition new_InvertedResidual :: "nat \<Rightarrow> nat \<Rightarrow> nat \<Rightarrow> nat \<Rightarrow> store \<Rightarrow> layer \<times> store" where
  "new_InvertedResidual inp oup s expand_ratio st =
     (let hidden_dim = inp * expand_ratio;
          (ex, st1) = (if expand_ratio \<noteq> 1
                       then (let (e, st1) = ConvBNReLU inp hidden_dim 1 1 1 st in ([e], st1))
                       else ([], st));
          (dw, st2) = ConvBNReLU hidden_dim hidden_dim 3 s hidden_dim st1;
          (pw, st3) = nn_Conv2d hidden_dim oup 1 1 0 1 False st2;
          (bn, st4) = nn_BatchNorm2d oup st3
      in (InvertedResidual (s = 1 \<and> inp = oup) (Sequential (ex @ [dw, pw, bn])), st4))"

fun stage :: "nat \<Rightarrow> nat \<Rightarrow> nat \<Rightarrow> nat \<Rightarrow> nat \<Rightarrow> store \<Rightarrow> layer list \<times> store" where
  "stage inp oup t s 0 st = ([], st)"
| "stage inp oup t s (Suc n) st =
     (let (b, st1) = new_InvertedResidual inp oup s t st;
          (bs, st2) = stage oup oup t 1 n st1
      in (b # bs, st2))"

fun stages :: "nat \<Rightarrow> (nat \<times> nat \<times> nat \<times> nat) list \<Rightarrow> store \<Rightarrow> layer list \<times> store" where
  "stages inp [] st = ([], st)"
| "stages inp ((t, c, n, s) # rest) st =
     (let (bs, st1) = stage inp c t s n st;
          (cs, st2) = stages (if n = 0 then inp else c) rest st1
      in (bs @ cs, st2))"

definition inverted_residual_setting :: "(nat \<times> nat \<times> nat \<times> nat) list" where
  "inverted_residual_setting =
     [(1, 16, 1, 1), (6, 24, 2, 2), (6, 32, 3, 2), (6, 64, 4, 2),
      (6, 96, 3, 1), (6, 160, 3, 2), (6, 320, 1, 1)]"

text \<open>\<open>load_state_dict\<close> copies the downloaded weights into the parameters in place.\<close>

definition load_state_dict :: "addr list \<Rightarrow> store \<Rightarrow> store" where
  "load_state_dict ps st = fold (inplace load_pretrained) ps st"

definition mobilenet_v2 :: "bool \<Rightarrow> store \<Rightarrow> layer list \<times> store" where
  "mobilenet_v2 pretrained st =
     (let (first, st1) = ConvBNReLU 3 32 3 2 1 st;
          (blocks, st2) = stages 32 inverted_residual_setting st1;
          (final, st3) = ConvBNReLU 320 1280 1 1 1 st2;
          features = first # blocks @ [final]
      in (features,
          if pretrained then load_state_dict (parameters (Sequential features)) st3 else st3))"

subsection \<open>SSDMobileNetV2FeatureExtractor\<close>

record extractor =
  is_training :: bool
  num_layers :: int
  feature_extractor :: layer
  out_channels :: "nat list"

definition SSDMobileNetV2FeatureExtractor :: "bool \<Rightarrow> int \<Rightarrow> store \<Rightarrow> extractor \<times> store" where
  "SSDMobileNetV2FeatureExtractor is_training_arg num_layers_arg st =
     (let (features, st1) = mobilenet_v2 True st
      in (\<lparr>is_training = is_training_arg,
           num_layers = num_layers_arg,
           feature_extractor = Sequential (take 7 features),
           out_channels = [32, 512, 512, 256, 256, 256]\<rparr>, st1))"

definition extractor_forward :: "'t torch \<Rightarrow> extractor \<Rightarrow> 't \<Rightarrow> torch_error + 't" where
  "extractor_forward fw e x = call fw (feature_extractor e) x"

subsection \<open>SSD300\<close>

text \<open>
  The attributes of an \<open>SSD300\<close> object.  Its attribute \<open>feature_extractor\<close>, which holds
  the backbone, is the field \<open>ssd_feature_extractor\<close>, the name \<open>feature_extractor\<close> being
  taken by the attribute of the extractor.
\<close>

record ssd300 =
  input_shape :: "nat list"
  num_classes :: nat
  ssd_feature_extractor :: extractor
  feature_blocks :: "layer list"
  num_defaults :: "nat list"
  loc :: "layer list"
  conf :: "layer list"

text \<open>The two branches of the loop body of \<open>_build_feature_layers\<close>.\<close>

definition strided_block :: "nat \<Rightarrow> nat \<Rightarrow> nat \<Rightarrow> store \<Rightarrow> layer \<times> store" where
  "strided_block input_size channels output_size st =
     (let (c1, st1) = nn_Conv2d input_size channels 1 1 0 1 False st;
          (b1, st2) = nn_BatchNorm2d channels st1;
          (c2, st3) = nn_Conv2d channels output_size 3 2 1 1 False st2;
          (b2, st4) = nn_BatchNorm2d output_size st3
      in (Sequential [c1, b1, ReLU, c2, b2, ReLU], st4))"

definition unpadded_block :: "nat \<Rightarrow> nat \<Rightarrow> nat \<Rightarrow> store \<Rightarrow> layer \<times> store" where
  "unpadded_block input_size channels output_size st =
     (let (c1, st1) = nn_Conv2d input_size channels 1 1 0 1 False st;
          (b1, st2) = nn_BatchNorm2d channels st1;
          (c2, st3) = nn_Conv2d channels output_size 3 1 0 1 False st2;
          (b2, st4) = nn_BatchNorm2d output_size st3
      in (Sequential [c1, b1, ReLU, c2, b2, ReLU], st4))"

fun feature_loop :: "(nat \<times> nat \<times> nat \<times> nat) list \<Rightarrow> store \<Rightarrow> layer list \<times> store" where
  "feature_loop [] st = ([], st)"
| "feature_loop ((i, input_size, output_size, channels) # rest) st =
     (let (layer, st1) = (if i < 3 then strided_block input_size channels output_size st
                          else unpadded_block input_size channels output_size st);
          (ls, st2) = feature_loop rest st1
      in (layer # ls, st2))"

definition build_feature_layers :: "nat list \<Rightarrow> store \<Rightarrow> layer list \<times> store" where
  "build_feature_layers input_size st =
     feature_loop
       (enumerate 0 (zip (butlast input_size) (zip (tl input_size) [256, 256, 128, 128, 128])))
       st"

fun head_loop :: "nat \<Rightarrow> (nat \<times> nat) list \<Rightarrow> store \<Rightarrow> (layer list \<times> layer list) \<times> store" where
  "head_loop nc [] st = (([], []), st)"
| "head_loop nc ((nd, oc) # rest) st =
     (let (l, st1) = nn_Conv2d oc (nd * 4) 3 1 1 1 True st;
          (c, st2) = nn_Conv2d oc (nd * nc) 3 1 1 1 True st1;
          ((ls, cs), st3) = head_loop nc rest st2
      in ((l # ls, c # cs), st3))"

definition init_weights :: "ssd300 \<Rightarrow> store \<Rightarrow> store" where
  "init_weights m st =
     fold (\<lambda>layer st.
             fold (\<lambda>param st. if dim_param (st ! param) > 1 then inplace xavier_uniform param st else st)
               (parameters layer) st)
       (feature_blocks m @ loc m @ conf m) st"

text \<open>
  \<open>SSD300.__init__\<close>.  The default value of \<open>backbone\<close> is evaluated once, when
  the class statement runs: \<open>SSD300_class\<close> is that evaluation, and the constructor
  receives its result as \<open>default_backbone\<close> and uses it when no backbone is passed.
  The argument \<open>weights\<close> of the source is never read and is left out.
\<close>

definition SSD300_class :: "store \<Rightarrow> extractor \<times> store" where
  "SSD300_class st = SSDMobileNetV2FeatureExtractor False 6 st"

definition SSD300 :: "extractor \<Rightarrow> extractor option \<Rightarrow> nat \<Rightarrow> store \<Rightarrow> ssd300 \<times> store" where
  "SSD300 default_backbone backbone_arg num_classes_arg st =
     (let backbone = (case backbone_arg of None \<Rightarrow> default_backbone | Some b \<Rightarrow> b);
          (blocks, st1) = build_feature_layers (out_channels backbone) st;
          nds = [4, 6, 6, 6, 4, 4];
          ((ls, cs), st2) = head_loop num_classes_arg (zip nds (out_channels backbone)) st1;
          m = \<lparr>input_shape = [3, 300, 300],
               num_classes = num_classes_arg,
               ssd_feature_extractor = backbone,
               feature_blocks = blocks,
               num_defaults = nds,
               loc = ls,
               conf = cs\<rparr>
      in (m, init_weights m st2))"

definition bbox_item ::
  "'t torch \<Rightarrow> nat \<Rightarrow> 't \<times> layer \<times> layer \<Rightarrow> torch_error + ('t \<times> 't)" where
  "bbox_item fw nc = (\<lambda>(s, l, c).
     ebind (call fw l s) (\<lambda>ls.
     ebind (shape0 fw s) (\<lambda>n.
     ebind (view fw ls n 4) (\<lambda>lv.
     ebind (call fw c s) (\<lambda>cs.
     ebind (shape0 fw s) (\<lambda>n'.
     ebind (view fw cs n' nc) (\<lambda>cv.
     Inr (lv, cv))))))))"

definition bbox_view ::
  "'t torch \<Rightarrow> ssd300 \<Rightarrow> 't list \<Rightarrow> layer list \<Rightarrow> layer list \<Rightarrow> torch_error + ('t \<times> 't)" where
  "bbox_view fw m src loc_arg conf_arg =
     ebind (emap (bbox_item fw (num_classes m)) (zip src (zip loc_arg conf_arg))) (\<lambda>ret.
     if ret = [] then Inl UnpackError
     else
       ebind (cat fw (map fst ret) 2) (\<lambda>locs.
       ebind (cat fw (map snd ret) 2) (\<lambda>confs.
       Inr (contiguous fw locs, contiguous fw confs))))"

fun feed_loop :: "'t torch \<Rightarrow> layer list \<Rightarrow> 't \<Rightarrow> torch_error + 't list" where
  "feed_loop fw [] x = Inr []"
| "feed_loop fw (layer # rest) x =
     ebind (call fw layer x) (\<lambda>y. ebind (feed_loop fw rest y) (\<lambda>ys. Inr (y # ys)))"

definition detection_feed :: "'t torch \<Rightarrow> ssd300 \<Rightarrow> 't \<Rightarrow> torch_error + 't list" where
  "detection_feed fw m x =
     ebind (extractor_forward fw (ssd_feature_extractor m) x) (\<lambda>x1.
     ebind (feed_loop fw (feature_blocks m) x1) (\<lambda>ys. Inr (x1 # ys)))"

definition forward :: "'t torch \<Rightarrow> ssd300 \<Rightarrow> 't \<Rightarrow> torch_error + ('t \<times> 't)" where
  "forward fw m x =
     ebind (detection_feed fw m x) (\<lambda>feed. bbox_view fw m feed (loc m) (conf m))"

text \<open>
  \<open>nn.Module.eval()\<close> clears the \<open>training\<close> flag of a module and of every module
  below it.
\<close>

fun eval_layer :: "layer \<Rightarrow> layer" and eval_layers :: "layer list \<Rightarrow> layer list" where
  "eval_layer (Conv2d ci co k s p g w b) = Conv2d ci co k s p g w b"
| "eval_layer (BatchNorm2d n t w b) = BatchNorm2d n False w b"
| "eval_layer ReLU = ReLU"
| "eval_layer ReLU6 = ReLU6"
| "eval_layer (Sequential ls) = Sequential (eval_layers ls)"
| "eval_layer (InvertedResidual r c) = InvertedResidual r (eval_layer c)"
| "eval_layers [] = []"
| "eval_layers (l # ls) = eval_layer l # eval_layers ls"

definition ssd300_eval :: "ssd300 \<Rightarrow> ssd300" where
  "ssd300_eval m =
     m\<lparr>ssd_feature_extractor :=
         (ssd_feature_extractor m)
           \<lparr>feature_extractor := eval_layer (feature_extractor (ssd_feature_extractor m))\<rparr>,
       feature_blocks := eval_layers (feature_blocks m),
       loc := eval_layers (loc m),
       conf := eval_layers (conf m)\<rparr>"

text \<open>What a module sees of the store: the current tensors of its parameters.\<close>

definition state_dict :: "layer \<Rightarrow> store \<Rightarrow> parameter list" where
  "state_dict l st = map (\<lambda>a. st ! a) (parameters l)"

text \<open>
  A second reading of the framework's operations, which computes nothing and records
  which operation was applied to what: the data-flow graph of a forward pass.  The batch
  size, which \<open>t.shape[0]\<close> returns, is a parameter.
\<close>

datatype graph =
    Input
  | Call layer graph
  | View graph nat nat
  | Cat "graph list" nat
  | Contiguous graph

definition dataflow :: "nat \<Rightarrow> graph torch" where
  "dataflow n = \<lparr>call = (\<lambda>l x. Inr (Call l x)), shape0 = (\<lambda>x. Inr n),
                  view = (\<lambda>x a b. Inr (View x a b)), cat = (\<lambda>xs d. Inr (Cat xs d)),
                  contiguous = Contiguous\<rparr>"

text \<open>
  A module maps \<open>ci\<close> channels to \<open>co\<close> channels when it never refuses a four-dimensional
  input with \<open>ci\<close> channels for its channel count, and every output it returns on such an
  input has \<open>co\<close> channels and the same batch size.
\<close>

definition maps_channels :: "layer \<Rightarrow> nat \<Rightarrow> nat \<Rightarrow> bool" where
  "maps_channels l ci co \<longleftrightarrow>
     (\<forall>n h w. layer_shape l [n, ci, h, w] \<noteq> Inl ChannelMismatch \<and>
        (\<forall>y. layer_shape l [n, ci, h, w] = Inr y \<longrightarrow> (\<exists>h' w'. y = [n, co, h', w'])))"

section \<open>research/action_recognition/models/lrcnn.py\<close>

subsection \<open>The framework's layers\<close>

text \<open>
  The layers of \<open>tensorflow.keras\<close> that the source instantiates, with the arguments it
  passes: \<open>MobileNetV2 input_shape include_top pooling\<close>,
  \<open>TimeDistributed layer input_shape\<close>, \<open>LSTM units return_sequences\<close>,
  \<open>GRU units return_sequences\<close>, \<open>Dropout rate\<close> and \<open>Dense units activation name\<close>.
  The rate of a \<open>Dropout\<close> is only stored.
\<close>

datatype klayer =
    MobileNetV2 "nat list" bool "string option"
  | TimeDistributed klayer "nat list option"
  | LSTM nat bool
  | GRU nat bool
  | Dropout real
  | Dense nat string string

datatype keras_error =
    TupleIndexError
  | InputShapeError
  | IncompatibleInput
  | LoadFailed "string option"

text \<open>
  The constructor of the application model checks the input shape it is given (the
  weights being the default, \<open>'imagenet'\<close>): it reads \<open>input_shape[0]\<close> and
  \<open>input_shape[1]\<close>; with the top it wants the default shape; without it, three
  dimensions, three channels last, and at least 32 rows and columns.
\<close>

definition new_MobileNetV2 :: "nat list \<Rightarrow> bool \<Rightarrow> string option \<Rightarrow> keras_error + klayer" where
  "new_MobileNetV2 shape include_top pooling =
     (if length shape < 2 then Inl TupleIndexError
      else
        let rows = shape ! 0; cols = shape ! 1;
            default_size = (if rows = cols \<and> rows \<in> set [96, 128, 160, 192, 224]
                            then rows else 224)
        in if include_top
           then (if shape = [default_size, default_size, 3]
                 then Inr (MobileNetV2 shape include_top pooling) else Inl InputShapeError)
           else (if length shape \<noteq> 3 \<or> shape ! 2 \<noteq> 3 \<or> rows < 32 \<or> cols < 32
                 then Inl InputShapeError
                 else Inr (MobileNetV2 shape include_top pooling)))"

text \<open>
  The shape of a layer's output for one sample (the batch dimension, which every layer
  here passes through, is left off), from the shape of its input for one sample.
\<close>

fun kshape :: "klayer \<Rightarrow> nat list \<Rightarrow> keras_error + nat list" where
  "kshape (MobileNetV2 shape include_top pooling) s =
     (if s \<noteq> shape then Inl IncompatibleInput
      else if include_top then Inr [1000]
      else (case pooling of
              None \<Rightarrow> Inr (map (\<lambda>d. (d + 31) div 32) (butlast s) @ [1280])
            | Some _ \<Rightarrow> Inr [1280]))"
| "kshape (TimeDistributed l i) s =
     (case s of
        t # r # rest \<Rightarrow> ebind (kshape l (r # rest)) (\<lambda>out. Inr (t # out))
      | _ \<Rightarrow> Inl IncompatibleInput)"
| "kshape (LSTM units return_sequences) s =
     (case s of
        [t, f] \<Rightarrow> Inr (if return_sequences then [t, units] else [units])
      | _ \<Rightarrow> Inl IncompatibleInput)"
| "kshape (GRU units return_sequences) s =
     (case s of
        [t, f] \<Rightarrow> Inr (if return_sequences then [t, units] else [units])
      | _ \<Rightarrow> Inl IncompatibleInput)"
| "kshape (Dropout rate) s = Inr s"
| "kshape (Dense units activation name) s =
     (if s = [] then Inl IncompatibleInput else Inr (butlast s @ [units]))"

subsection \<open>keras.Sequential\<close>

text \<open>
  A sequential model: its layers in the order they were added, the shape of one input
  sample and of one output sample once they are known, and the file its weights were last
  loaded from.
\<close>

record sequential =
  layers :: "klayer list"
  sample_input :: "nat list option"
  sample_output :: "nat list option"
  loaded_from :: "string option"

definition Sequential_new :: sequential where
  "Sequential_new = \<lparr>layers = [], sample_input = None, sample_output = None, loaded_from = None\<rparr>"

fun input_shape_kwarg :: "klayer \<Rightarrow> nat list option" where
  "input_shape_kwarg (TimeDistributed l i) = i"
| "input_shape_kwarg _ = None"

text \<open>
  \<open>model.add(layer)\<close>.  The first layer fixes the input of the model when it
  carries \<open>input_shape\<close>; from then on each added layer is applied to the output so far
  and is refused when it does not accept that shape.
\<close>

definition add :: "klayer \<Rightarrow> sequential \<Rightarrow> keras_error + sequential" where
  "add l m =
     (case sample_output m of
        Some s \<Rightarrow>
          ebind (kshape l s) (\<lambda>out. Inr (m\<lparr>layers := layers m @ [l], sample_output := Some out\<rparr>))
      | None \<Rightarrow>
          (case (layers m, input_shape_kwarg l) of
             ([], Some s) \<Rightarrow>
               ebind (kshape l s) (\<lambda>out.
                 Inr (m\<lparr>layers := [l], sample_input := Some s, sample_output := Some out\<rparr>))
           | _ \<Rightarrow> Inr (m\<lparr>layers := layers m @ [l]\<rparr>)))"

text \<open>
  \<open>model.load_weights(filepath)\<close>.  Whether the file at a path can be read into the
  model is a fact of the environment, the parameter \<open>loadable\<close>; \<open>None\<close> is not a path
  and the call raises.
\<close>

definition load_weights ::
  "(string \<Rightarrow> bool) \<Rightarrow> string option \<Rightarrow> sequential \<Rightarrow> keras_error + sequential" where
  "load_weights loadable filepath m =
     (case filepath of
        None \<Rightarrow> Inl (LoadFailed None)
      | Some p \<Rightarrow> if loadable p then Inr (m\<lparr>loaded_from := Some p\<rparr>) else Inl (LoadFailed (Some p)))"

text \<open>The shape of the model's output on a batch, from the shape of the batch.\<close>

definition predict_shape :: "sequential \<Rightarrow> nat list \<Rightarrow> keras_error + nat list" where
  "predict_shape m x =
     (case x of
        [] \<Rightarrow> Inl IncompatibleInput
      | batch # s \<Rightarrow>
          if sample_input m \<noteq> Some s then Inl IncompatibleInput
          else ebind (fold (\<lambda>l r. ebind r (kshape l)) (layers m) (Inr s))
                 (\<lambda>out. Inr (batch # out)))"

subsection \<open>LRMobileNetV2\<close>

text \<open>
  The argument \<open>weights\<close> is \<open>None\<close> or a string.
\<close>

definition LRMobileNetV2 ::
  "(string \<Rightarrow> bool) \<Rightarrow> nat \<Rightarrow> nat list \<Rightarrow> nat \<Rightarrow> string option \<Rightarrow> real
     \<Rightarrow> keras_error + sequential" where
  "LRMobileNetV2 loadable seq_length frame_shape classes weights dropout =
     ebind (new_MobileNetV2 frame_shape False (Some ''avg'')) (\<lambda>base.
     ebind (add (TimeDistributed base (Some (seq_length # frame_shape))) Sequential_new) (\<lambda>m.
     ebind (add (LSTM 1024 True) m) (\<lambda>m.
     ebind (add (Dropout dropout) m) (\<lambda>m.
     ebind (add (GRU 512 True) m) (\<lambda>m.
     ebind (add (Dropout dropout) m) (\<lambda>m.
     ebind (add (GRU 256 True) m) (\<lambda>m.
     ebind (add (Dropout dropout) m) (\<lambda>m.
     ebind (add (GRU 128 False) m) (\<lambda>m.
     ebind (add (Dropout dropout) m) (\<lambda>m.
     ebind (add (Dense classes ''softmax'' ''predictions'') m) (\<lambda>m.
     if weights \<noteq> Some ''imagenet'' then load_weights loadable weights m
     else Inr m)))))))))))"

section \<open>Properties\<close>

subsection \<open>Exceptions\<close>

lemma ebind_simps [simp]: "ebind (Inl e) f = Inl e" "ebind (Inr x) f = f x"
  by (simp_all add: ebind_def)

lemma ebind_Inr_iff: "ebind m f = Inr y \<longleftrightarrow> (\<exists>x. m = Inr x \<and> f x = Inr y)"
  by (cases m) simp_all

subsection \<open>LRMobileNetV2\<close>

lemma new_MobileNetV2_headless:
  "new_MobileNetV2 fs False p = Inr l \<longleftrightarrow>
     (length fs = 3 \<and> fs ! 2 = 3 \<and> 32 \<le> fs ! 0 \<and> 32 \<le> fs ! 1 \<and> l = MobileNetV2 fs False p)"
  by (auto simp add: new_MobileNetV2_def Let_def)

lemma LRMobileNetV2_adds:
  assumes "length fs = 3"
  shows "ebind (add (TimeDistributed (MobileNetV2 fs False (Some ''avg'')) (Some (seq # fs)))
                  Sequential_new) (\<lambda>m.
     ebind (add (LSTM 1024 True) m) (\<lambda>m.
     ebind (add (Dropout d) m) (\<lambda>m.
     ebind (add (GRU 512 True) m) (\<lambda>m.
     ebind (add (Dropout d) m) (\<lambda>m.
     ebind (add (GRU 256 True) m) (\<lambda>m.
     ebind (add (Dropout d) m) (\<lambda>m.
     ebind (add (GRU 128 False) m) (\<lambda>m.
     ebind (add (Dropout d) m) (\<lambda>m.
     ebind (add (Dense classes ''softmax'' ''predictions'') m) k)))))))))
   = k \<lparr>layers =
           [TimeDistributed (MobileNetV2 fs False (Some ''avg'')) (Some (seq # fs)),
            LSTM 1024 True, Dropout d, GRU 512 True, Dropout d, GRU 256 True,
            Dropout d, GRU 128 False, Dropout d, Dense classes ''softmax'' ''predictions''],
         sample_input = Some (seq # fs), sample_output = Some [classes], loaded_from = None\<rparr>"
proof -
  from assms obtain r rest where fs: "fs = r # rest" by (cases fs) auto
  show ?thesis
    by (simp add: add_def Sequential_new_def fs)
qed

lemma LRMobileNetV2_Inr_iff:
  "LRMobileNetV2 ld seq fs classes w d = Inr m \<longleftrightarrow>
     length fs = 3 \<and> fs ! 2 = 3 \<and> 32 \<le> fs ! 0 \<and> 32 \<le> fs ! 1 \<and>
     (w = Some ''imagenet'' \<or> (\<exists>p. w = Some p \<and> ld p)) \<and>
     m = \<lparr>layers =
            [TimeDistributed (MobileNetV2 fs False (Some ''avg'')) (Some (seq # fs)),
             LSTM 1024 True, Dropout d, GRU 512 True, Dropout d, GRU 256 True,
             Dropout d, GRU 128 False, Dropout d, Dense classes ''softmax'' ''predictions''],
          sample_input = Some (seq # fs), sample_output = Some [classes],
          loaded_from = (if w = Some ''imagenet'' then None else w)\<rparr>"
proof (cases "\<exists>l. new_MobileNetV2 fs False (Some ''avg'') = Inr l")
  case True
  then have ok: "length fs = 3" "fs ! 2 = 3" "32 \<le> fs ! 0" "32 \<le> fs ! 1"
    and l: "new_MobileNetV2 fs False (Some ''avg'') = Inr (MobileNetV2 fs False (Some ''avg''))"
    by (auto simp add: new_MobileNetV2_headless)
  show ?thesis
    unfolding LRMobileNetV2_def l ebind_simps LRMobileNetV2_adds [OF ok(1)]
    using ok by (auto simp add: load_weights_def split: option.splits)
next
  case False
  then obtain e where e: "new_MobileNetV2 fs False (Some ''avg'') = Inl e"
    by (cases "new_MobileNetV2 fs False (Some ''avg'')") auto
  from False have "\<not> (length fs = 3 \<and> fs ! 2 = 3 \<and> 32 \<le> fs ! 0 \<and> 32 \<le> fs ! 1)"
    by (simp add: new_MobileNetV2_headless)
  then show ?thesis
    unfolding LRMobileNetV2_def e by auto
qed

lemma predict_shape_recurrent:
  assumes "length fs = 3"
  shows "predict_shape
           \<lparr>layers =
              [TimeDistributed (MobileNetV2 fs False (Some ''avg'')) (Some (seq # fs)),
               LSTM 1024 True, Dropout d, GRU 512 True, Dropout d, GRU 256 True,
               Dropout d, GRU 128 False, Dropout d, Dense classes ''softmax'' ''predictions''],
            sample_input = Some (seq # fs), sample_output = so, loaded_from = lf\<rparr>
           (batch # seq # fs) = Inr [batch, classes]"
proof -
  from assms obtain r rest where fs: "fs = r # rest" by (cases fs) auto
  show ?thesis
    by (simp add: predict_shape_def fs)
qed

text \<open>
  C2.  Whenever \<open>LRMobileNetV2\<close> returns a model, for any sequence length, frame
  shape, class count, weights and dropout rate, the model takes samples of shape
  \<open>(seq_length,) + frame_shape\<close>, its output for one sample has shape \<open>(classes,)\<close>, and on a
  batch of shape \<open>(batch, seq_length) + frame_shape\<close> it returns shape \<open>(batch, classes)\<close>.
\<close>

theorem LRMobileNetV2_output_shape:
  assumes "LRMobileNetV2 loadable seq_length frame_shape classes weights dropout = Inr m"
  shows "sample_input m = Some (seq_length # frame_shape) \<and>
         sample_output m = Some [classes] \<and>
         predict_shape m (batch # seq_length # frame_shape) = Inr [batch, classes]"
  using assms unfolding LRMobileNetV2_Inr_iff by (simp add: predict_shape_recurrent)

theorem LRMobileNetV2_output_shape_witness:
  "(\<exists>m. LRMobileNetV2 (\<lambda>p. False) 16 [224, 224, 3] 1000 (Some ''imagenet'') (1 / 2) = Inr m \<and>
        sample_input m = Some [16, 224, 224, 3] \<and>
        sample_output m = Some [1000] \<and>
        predict_shape m [8, 16, 224, 224, 3] = Inr [8, 1000])"
proof -
  obtain m where r: "LRMobileNetV2 (\<lambda>p. False) 16 [224, 224, 3] 1000 (Some ''imagenet'') (1 / 2) = Inr m"
    by (simp add: LRMobileNetV2_Inr_iff)
  from LRMobileNetV2_output_shape [OF r, of 8] r show ?thesis by blast
qed

text \<open>
  C3, at the documented value \<open>weights = None\<close>: the test \<open>weights != 'imagenet'\<close> holds
  for \<open>None\<close>, so the source calls \<open>model.load_weights(None)\<close>, which raises, and no model is
  returned.
\<close>

theorem LRMobileNetV2_weights_None:
  "LRMobileNetV2 loadable 16 [224, 224, 3] 1000 None (1 / 2) = Inl (LoadFailed None)"
  by (simp add: LRMobileNetV2_def new_MobileNetV2_def LRMobileNetV2_adds load_weights_def)

text \<open>
  C4.  Whenever \<open>LRMobileNetV2\<close> returns a model, its layers are, in this order, the
  time-distributed MobileNetV2 without top and with average pooling, \<open>LSTM(1024)\<close>,
  \<open>Dropout\<close>, \<open>GRU(512)\<close>, \<open>Dropout\<close>, \<open>GRU(256)\<close>, \<open>Dropout\<close>, \<open>GRU(128)\<close>, \<open>Dropout\<close> and
  \<open>Dense(classes)\<close> with softmax: ten layers, whose number and order depend on no
  argument, and whose parameters are \<open>seq_length\<close>, \<open>frame_shape\<close>, \<open>classes\<close> and
  \<open>dropout\<close> only.
\<close>

theorem LRMobileNetV2_layers:
  assumes "LRMobileNetV2 loadable seq_length frame_shape classes weights dropout = Inr m"
  shows "layers m =
           [TimeDistributed (MobileNetV2 frame_shape False (Some ''avg''))
              (Some (seq_length # frame_shape)),
            LSTM 1024 True, Dropout dropout,
            GRU 512 True, Dropout dropout,
            GRU 256 True, Dropout dropout,
            GRU 128 False, Dropout dropout,
            Dense classes ''softmax'' ''predictions'']"
  using assms unfolding LRMobileNetV2_Inr_iff by simp

theorem LRMobileNetV2_layers_witness:
  "(\<exists>m. LRMobileNetV2 (\<lambda>p. p = ''lrcnn.h5'') 8 [96, 128, 3] 5 (Some ''lrcnn.h5'') (1 / 4) = Inr m \<and>
        layers m =
           [TimeDistributed (MobileNetV2 [96, 128, 3] False (Some ''avg'')) (Some [8, 96, 128, 3]),
            LSTM 1024 True, Dropout (1 / 4),
            GRU 512 True, Dropout (1 / 4),
            GRU 256 True, Dropout (1 / 4),
            GRU 128 False, Dropout (1 / 4),
            Dense 5 ''softmax'' ''predictions''])"
proof -
  obtain m where r:
    "LRMobileNetV2 (\<lambda>p. p = ''lrcnn.h5'') 8 [96, 128, 3] 5 (Some ''lrcnn.h5'') (1 / 4) = Inr m"
    by (simp add: LRMobileNetV2_Inr_iff)
  from LRMobileNetV2_layers [OF r] r show ?thesis by blast
qed

subsection \<open>What the constructors build\<close>

lemma nn_Conv2d_eq:
  "nn_Conv2d ci co k s p g hb st =
     (Conv2d ci co k s p g (length st) (if hb then Some (Suc (length st)) else None),
      st @ new_parameter [co, ci div g, k, k] # (if hb then [new_parameter [co]] else []))"
  by (simp add: nn_Conv2d_def alloc_def)

lemma nn_BatchNorm2d_eq:
  "nn_BatchNorm2d n st =
     (BatchNorm2d n True (length st) (Suc (length st)),
      st @ [new_parameter [n], new_parameter [n]])"
  by (simp add: nn_BatchNorm2d_def alloc_def)

lemma ConvBNReLU_fst:
  "fst (ConvBNReLU ci co k s g st) =
     Sequential [Conv2d ci co k s ((k - 1) div 2) g (length st) None,
                 BatchNorm2d co True (Suc (length st)) (Suc (Suc (length st))), ReLU6]"
  by (simp add: ConvBNReLU_def nn_Conv2d_eq nn_BatchNorm2d_eq)

lemma IR_fst:
  "fst (new_InvertedResidual inp oup s t st) =
     InvertedResidual (s = 1 \<and> inp = oup)
       (Sequential
          ((if t \<noteq> 1 then [fst (ConvBNReLU inp (inp * t) 1 1 1 st)] else []) @
           [fst (ConvBNReLU (inp * t) (inp * t) 3 s (inp * t)
                   (if t \<noteq> 1 then snd (ConvBNReLU inp (inp * t) 1 1 1 st) else st)),
            Conv2d (inp * t) oup 1 1 0 1 (length st + (if t \<noteq> 1 then 6 else 3)) None,
            BatchNorm2d oup True (length st + (if t \<noteq> 1 then 7 else 4))
              (length st + (if t \<noteq> 1 then 8 else 5))]))"
  by (simp add: new_InvertedResidual_def nn_Conv2d_eq nn_BatchNorm2d_eq split_beta Let_def ConvBNReLU_def)

lemma irs_Suc:
  "inverted_residual_setting =
     [(1, 16, Suc 0, 1), (6, 24, Suc (Suc 0), 2), (6, 32, Suc (Suc (Suc 0)), 2),
      (6, 64, Suc (Suc (Suc (Suc 0))), 2), (6, 96, Suc (Suc (Suc 0)), 1),
      (6, 160, Suc (Suc (Suc 0)), 2), (6, 320, Suc 0, 1)]"
  by (simp add: inverted_residual_setting_def numeral_eq_Suc)

lemma backbone_shape:
  "layer_shape (feature_extractor (fst (SSDMobileNetV2FeatureExtractor t n st))) [N, 3, 300, 300]
     = Inr [N, 32, 38, 38]"
  by (simp add: SSDMobileNetV2FeatureExtractor_def mobilenet_v2_def split_beta Let_def irs_Suc
     IR_fst ConvBNReLU_fst)

lemma backbone_eval_shape:
  "layer_shape (eval_layer (feature_extractor (fst (SSDMobileNetV2FeatureExtractor t n st)))) [N, 3, 300, 300]
     = Inr [N, 32, 38, 38]"
  by (simp add: SSDMobileNetV2FeatureExtractor_def mobilenet_v2_def split_beta Let_def irs_Suc
     IR_fst ConvBNReLU_fst)

lemma extractor_out_channels:
  "out_channels (fst (SSDMobileNetV2FeatureExtractor t n st)) = [32, 512, 512, 256, 256, 256]"
  by (simp add: SSDMobileNetV2FeatureExtractor_def split_beta)

lemma strided_block_eq:
  "strided_block i c co st =
     (Sequential [Conv2d i c 1 1 0 1 (length st) None,
                  BatchNorm2d c True (length st + 1) (length st + 2), ReLU,
                  Conv2d c co 3 2 1 1 (length st + 3) None,
                  BatchNorm2d co True (length st + 4) (length st + 5), ReLU],
      st @ [new_parameter [c, i, 1, 1], new_parameter [c], new_parameter [c],
            new_parameter [co, c, 3, 3], new_parameter [co], new_parameter [co]])"
  by (simp add: strided_block_def nn_Conv2d_eq nn_BatchNorm2d_eq)

lemma unpadded_block_eq:
  "unpadded_block i c co st =
     (Sequential [Conv2d i c 1 1 0 1 (length st) None,
                  BatchNorm2d c True (length st + 1) (length st + 2), ReLU,
                  Conv2d c co 3 1 0 1 (length st + 3) None,
                  BatchNorm2d co True (length st + 4) (length st + 5), ReLU],
      st @ [new_parameter [c, i, 1, 1], new_parameter [c], new_parameter [c],
            new_parameter [co, c, 3, 3], new_parameter [co], new_parameter [co]])"
  by (simp add: unpadded_block_def nn_Conv2d_eq nn_BatchNorm2d_eq)

lemma SSD300_fields:
  "ssd_feature_extractor (fst (SSD300 d b nc st)) = (case b of None \<Rightarrow> d | Some x \<Rightarrow> x)"
  "num_classes (fst (SSD300 d b nc st)) = nc"
  "num_defaults (fst (SSD300 d b nc st)) = [4, 6, 6, 6, 4, 4]"
  "input_shape (fst (SSD300 d b nc st)) = [3, 300, 300]"
  "feature_blocks (fst (SSD300 d b nc st)) =
     fst (build_feature_layers (out_channels (case b of None \<Rightarrow> d | Some x \<Rightarrow> x)) st)"
  "loc (fst (SSD300 d b nc st)) =
     fst (fst (head_loop nc (zip [4, 6, 6, 6, 4, 4] (out_channels (case b of None \<Rightarrow> d | Some x \<Rightarrow> x)))
       (snd (build_feature_layers (out_channels (case b of None \<Rightarrow> d | Some x \<Rightarrow> x)) st))))"
  "conf (fst (SSD300 d b nc st)) =
     snd (fst (head_loop nc (zip [4, 6, 6, 6, 4, 4] (out_channels (case b of None \<Rightarrow> d | Some x \<Rightarrow> x)))
       (snd (build_feature_layers (out_channels (case b of None \<Rightarrow> d | Some x \<Rightarrow> x)) st))))"
  by (simp_all add: SSD300_def split_beta Let_def)

lemma SSD300_default_channels:
  "out_channels (fst (SSD300_class st0)) = [32, 512, 512, 256, 256, 256]"
  by (simp add: SSD300_class_def extractor_out_channels)

lemma enum5: "enumerate 0 [a, b, c, d, e] = [(0, a), (Suc 0, b), (2, c), (3, d), (4, e)]"
  by (simp add: enumerate_eq_zip upt_rec numeral_eq_Suc)


lemma shapes_simps [simp]:
  "call shapes = layer_shape" "shape0 shapes = shape_first" "view shapes = view_shape"
  "cat shapes = cat_shape" "contiguous shapes = (\<lambda>x. x)"
  by (simp_all add: shapes_def)


subsection \<open>The shapes of the forward pass\<close>

lemma view_loc: "1 \<le> N \<Longrightarrow> 1 \<le> k \<Longrightarrow> view_shape [N, nd * k, h, w] N k = Inr [N, k, nd * h * w]"
  by (simp add: view_shape_def ac_simps)

lemma view_num:
  assumes "1 \<le> N" "1 \<le> k"
  shows "view_shape [N, c, h, w] N k =
     (if (c * h * w) mod k \<noteq> 0 then Inl ViewError else Inr [N, k, (c * h * w) div k])"
proof -
  have p: "prod_list [N, c, h, w] = N * (c * h * w)" by (simp add: ac_simps)
  have m: "(N * (c * h * w)) mod (N * k) = N * ((c * h * w) mod k)"
    by (rule mult_mod_right [symmetric])
  have d: "(N * (c * h * w)) div (N * k) = (c * h * w) div k"
    using assms by simp
  show ?thesis
    unfolding view_shape_def p m d using assms by auto
qed

lemma default_feed:
  assumes "2 \<le> N"
  shows "detection_feed shapes (fst (SSD300 (fst (SSD300_class st0)) None nc st)) [N, 3, 300, 300] =
    Inr [[N, 32, 38, 38], [N, 512, 19, 19], [N, 512, 10, 10], [N, 256, 5, 5], [N, 256, 3, 3], [N, 256, 1, 1]]"
  using assms
  by (simp add: detection_feed_def extractor_forward_def SSD300_fields SSD300_class_def backbone_shape
      extractor_out_channels build_feature_layers_def enum5 strided_block_eq unpadded_block_eq)

lemma default_feed_one:
  "detection_feed shapes (fst (SSD300 (fst (SSD300_class st0)) None nc st)) [1, 3, 300, 300] =
    Inl OneValuePerChannel"
  by (simp add: detection_feed_def extractor_forward_def SSD300_fields SSD300_class_def backbone_shape
      extractor_out_channels build_feature_layers_def enum5 strided_block_eq unpadded_block_eq)

lemma default_eval_feed:
  "detection_feed shapes (ssd300_eval (fst (SSD300 (fst (SSD300_class st0)) None nc st))) [N, 3, 300, 300] =
    Inr [[N, 32, 38, 38], [N, 512, 19, 19], [N, 512, 10, 10], [N, 256, 5, 5], [N, 256, 3, 3], [N, 256, 1, 1]]"
  by (simp add: detection_feed_def extractor_forward_def ssd300_eval_def SSD300_fields SSD300_class_def backbone_eval_shape
      extractor_out_channels build_feature_layers_def enum5 strided_block_eq unpadded_block_eq)

lemma default_bbox:
  assumes "1 \<le> N" "1 \<le> nc"
  shows "bbox_view shapes (fst (SSD300 (fst (SSD300_class st0)) None nc st))
     [[N, 32, 38, 38], [N, 512, 19, 19], [N, 512, 10, 10], [N, 256, 5, 5], [N, 256, 3, 3], [N, 256, 1, 1]]
     (loc (fst (SSD300 (fst (SSD300_class st0)) None nc st)))
     (conf (fst (SSD300 (fst (SSD300_class st0)) None nc st))) = Inr ([N, 4, 8732], [N, nc, 8732])"
  using assms
  by (simp add: bbox_view_def bbox_item_def SSD300_fields SSD300_class_def 
      extractor_out_channels nn_Conv2d_eq split_beta shape_first_def view_loc view_num cat_shape_def)

lemma default_eval_bbox:
  assumes "1 \<le> N" "1 \<le> nc"
  shows "bbox_view shapes (ssd300_eval (fst (SSD300 (fst (SSD300_class st0)) None nc st)))
     [[N, 32, 38, 38], [N, 512, 19, 19], [N, 512, 10, 10], [N, 256, 5, 5], [N, 256, 3, 3], [N, 256, 1, 1]]
     (loc (ssd300_eval (fst (SSD300 (fst (SSD300_class st0)) None nc st))))
     (conf (ssd300_eval (fst (SSD300 (fst (SSD300_class st0)) None nc st)))) = Inr ([N, 4, 8732], [N, nc, 8732])"
  using assms
  by (simp add: bbox_view_def bbox_item_def ssd300_eval_def SSD300_fields SSD300_class_def 
      extractor_out_channels nn_Conv2d_eq split_beta shape_first_def view_loc view_num cat_shape_def)

lemma default_forward:
  assumes "2 \<le> N" "1 \<le> nc"
  shows "forward shapes (fst (SSD300 (fst (SSD300_class st0)) None nc st)) [N, 3, 300, 300] =
     Inr ([N, 4, 8732], [N, nc, 8732])"
proof -
  from assms have n: "1 \<le> N" by simp
  show ?thesis
    unfolding forward_def default_feed [OF assms(1)] ebind_simps
    by (rule default_bbox [OF n assms(2)])
qed

lemma default_eval_forward:
  assumes "1 \<le> N" "1 \<le> nc"
  shows "forward shapes (ssd300_eval (fst (SSD300 (fst (SSD300_class st0)) None nc st)))
     [N, 3, 300, 300] = Inr ([N, 4, 8732], [N, nc, 8732])"
  unfolding forward_def default_eval_feed ebind_simps
  by (rule default_eval_bbox [OF assms])

text \<open>
  C1, as stated, fails for a batch of one: a freshly constructed \<open>SSD300\<close> is in training
  mode, the last feature block reduces the map to 1x1, and batch normalisation in training
  mode refuses an input of shape \<open>(1, 256, 1, 1)\<close>, so \<open>forward\<close> raises instead of
  returning.
\<close>

theorem SSD300_forward_batch_of_one:
  "forward shapes (fst (SSD300 (fst (SSD300_class [])) None 81 (snd (SSD300_class []))))
     [1, 3, 300, 300] = Inl OneValuePerChannel"
  unfolding forward_def default_feed_one ebind_simps by (rule refl)

text \<open>
  C1, amended.  For every \<open>num_classes \<ge> 1\<close>, \<open>SSD300(num_classes=num_classes).forward\<close> on an
  input of shape \<open>(N, 3, 300, 300)\<close> returns \<open>locs\<close> of shape \<open>(N, 4, 8732)\<close> and \<open>confs\<close> of
  shape \<open>(N, num_classes, 8732)\<close> for every batch size \<open>N \<ge> 2\<close>, and for every \<open>N \<ge> 1\<close> once
  the model has been put in evaluation mode; 8732 is the sum over the six scales
  38, 19, 10, 5, 3, 1 of \<open>num_defaults[i] * H_i * W_i\<close>.
\<close>

theorem SSD300_forward_shape:
  assumes "1 \<le> num_classes_arg"
  shows "(2 \<le> N \<longrightarrow>
            forward shapes (fst (SSD300 (fst (SSD300_class st0)) None num_classes_arg st))
              [N, 3, 300, 300] = Inr ([N, 4, 8732], [N, num_classes_arg, 8732])) \<and>
         (1 \<le> N \<longrightarrow>
            forward shapes
              (ssd300_eval (fst (SSD300 (fst (SSD300_class st0)) None num_classes_arg st)))
              [N, 3, 300, 300] = Inr ([N, 4, 8732], [N, num_classes_arg, 8732])) \<and>
         sum_list (map (\<lambda>(nd, h). nd * h * h)
           (zip (num_defaults (fst (SSD300 (fst (SSD300_class st0)) None num_classes_arg st)))
              [38, 19, 10, 5, 3, 1])) = 8732"
proof (intro conjI impI)
  assume "2 \<le> N"
  then show "forward shapes (fst (SSD300 (fst (SSD300_class st0)) None num_classes_arg st))
              [N, 3, 300, 300] = Inr ([N, 4, 8732], [N, num_classes_arg, 8732])"
    using assms by (rule default_forward)
next
  assume "1 \<le> N"
  then show "forward shapes
              (ssd300_eval (fst (SSD300 (fst (SSD300_class st0)) None num_classes_arg st)))
              [N, 3, 300, 300] = Inr ([N, 4, 8732], [N, num_classes_arg, 8732])"
    using assms by (rule default_eval_forward)
next
  show "sum_list (map (\<lambda>(nd, h). nd * h * h)
           (zip (num_defaults (fst (SSD300 (fst (SSD300_class st0)) None num_classes_arg st)))
              [38, 19, 10, 5, 3, 1])) = 8732"
    by (simp add: SSD300_fields)
qed

theorem SSD300_forward_shape_witness:
  "(1::nat) \<le> 81 \<and> (2::nat) \<le> 2 \<and>
   forward shapes (fst (SSD300 (fst (SSD300_class [])) None 81 (snd (SSD300_class []))))
     [2, 3, 300, 300] = Inr ([2, 4, 8732], [2, 81, 8732]) \<and>
   forward shapes
     (ssd300_eval (fst (SSD300 (fst (SSD300_class [])) None 81 (snd (SSD300_class [])))))
     [1, 3, 300, 300] = Inr ([1, 4, 8732], [1, 81, 8732])"
  using SSD300_forward_shape [of 81 2 "[]" "snd (SSD300_class [])"]
        SSD300_forward_shape [of 81 1 "[]" "snd (SSD300_class [])"]
  by simp

subsection \<open>The loops of the constructor\<close>

lemma feature_loop_Cons:
  "feature_loop ((j, a, b, c) # rest) st =
     (Sequential [Conv2d a c 1 1 0 1 (length st) None,
                  BatchNorm2d c True (length st + 1) (length st + 2), ReLU,
                  Conv2d c b 3 (if j < 3 then 2 else 1) (if j < 3 then 1 else 0) 1
                    (length st + 3) None,
                  BatchNorm2d b True (length st + 4) (length st + 5), ReLU]
        # fst (feature_loop rest
                 (st @ [new_parameter [c, a, 1, 1], new_parameter [c], new_parameter [c],
                        new_parameter [b, c, 3, 3], new_parameter [b], new_parameter [b]])),
      snd (feature_loop rest
             (st @ [new_parameter [c, a, 1, 1], new_parameter [c], new_parameter [c],
                    new_parameter [b, c, 3, 3], new_parameter [b], new_parameter [b]])))"
  by (simp add: split_beta strided_block_eq unpadded_block_eq)

lemma feature_loop_length: "length (fst (feature_loop xs st)) = length xs"
proof (induction xs arbitrary: st)
  case Nil
  show ?case by simp
next
  case (Cons x xs)
  obtain j a b c where x: "x = (j, a, b, c)" by (cases x) auto
  show ?case unfolding x feature_loop_Cons by (simp add: Cons.IH)
qed

lemma feature_loop_store:
  "snd (feature_loop xs st) =
     st @ concat (map (\<lambda>(j, a, b, c).
            [new_parameter [c, a, 1, 1], new_parameter [c], new_parameter [c],
             new_parameter [b, c, 3, 3], new_parameter [b], new_parameter [b]]) xs)"
proof (induction xs arbitrary: st)
  case Nil
  show ?case by simp
next
  case (Cons x xs)
  obtain j a b c where x: "x = (j, a, b, c)" by (cases x) auto
  show ?case unfolding x feature_loop_Cons by (simp add: Cons.IH)
qed

lemma feature_loop_store_length: "length (snd (feature_loop xs st)) = length st + 6 * length xs"
proof (induction xs arbitrary: st)
  case Nil
  show ?case by simp
next
  case (Cons x xs)
  obtain j a b c where x: "x = (j, a, b, c)" by (cases x) auto
  show ?case unfolding x feature_loop_Cons by (simp add: Cons.IH)
qed

lemma feature_loop_nth:
  "i < length xs \<Longrightarrow>
   fst (feature_loop xs st) ! i =
     (case xs ! i of (j, a, b, c) \<Rightarrow>
        Sequential [Conv2d a c 1 1 0 1 (length st + 6 * i) None,
                    BatchNorm2d c True (length st + 6 * i + 1) (length st + 6 * i + 2), ReLU,
                    Conv2d c b 3 (if j < 3 then 2 else 1) (if j < 3 then 1 else 0) 1
                      (length st + 6 * i + 3) None,
                    BatchNorm2d b True (length st + 6 * i + 4) (length st + 6 * i + 5), ReLU])"
proof (induction xs arbitrary: st i)
  case Nil
  then show ?case by simp
next
  case (Cons x xs)
  obtain j a b c where x: "x = (j, a, b, c)" by (cases x) auto
  show ?case
  proof (cases i)
    case 0
    then show ?thesis unfolding x feature_loop_Cons by simp
  next
    case (Suc k)
    with Cons.prems have k: "k < length xs" by simp
    obtain j' a' b' c' where e: "xs ! k = (j', a', b', c')" by (cases "xs ! k") auto
    show ?thesis
      unfolding x feature_loop_Cons Suc by (simp add: Cons.IH [OF k] e)
  qed
qed

lemma head_loop_Cons:
  "head_loop nc ((nd, oc) # rest) st =
     ((Conv2d oc (nd * 4) 3 1 1 1 (length st) (Some (length st + 1))
         # fst (fst (head_loop nc rest
             (st @ [new_parameter [nd * 4, oc, 3, 3], new_parameter [nd * 4],
                    new_parameter [nd * nc, oc, 3, 3], new_parameter [nd * nc]]))),
       Conv2d oc (nd * nc) 3 1 1 1 (length st + 2) (Some (length st + 3))
         # snd (fst (head_loop nc rest
             (st @ [new_parameter [nd * 4, oc, 3, 3], new_parameter [nd * 4],
                    new_parameter [nd * nc, oc, 3, 3], new_parameter [nd * nc]])))),
      snd (head_loop nc rest
             (st @ [new_parameter [nd * 4, oc, 3, 3], new_parameter [nd * 4],
                    new_parameter [nd * nc, oc, 3, 3], new_parameter [nd * nc]])))"
  by (simp add: split_beta nn_Conv2d_eq)

lemma head_loop_length:
  "length (fst (fst (head_loop nc xs st))) = length xs \<and>
   length (snd (fst (head_loop nc xs st))) = length xs"
proof (induction xs arbitrary: st)
  case Nil
  show ?case by simp
next
  case (Cons x xs)
  obtain nd oc where x: "x = (nd, oc)" by (cases x) auto
  show ?case unfolding x head_loop_Cons by (simp add: Cons.IH)
qed

lemma head_loop_store:
  "snd (head_loop nc xs st) =
     st @ concat (map (\<lambda>(nd, oc).
            [new_parameter [nd * 4, oc, 3, 3], new_parameter [nd * 4],
             new_parameter [nd * nc, oc, 3, 3], new_parameter [nd * nc]]) xs)"
proof (induction xs arbitrary: st)
  case Nil
  show ?case by simp
next
  case (Cons x xs)
  obtain nd oc where x: "x = (nd, oc)" by (cases x) auto
  show ?case unfolding x head_loop_Cons by (simp add: Cons.IH)
qed

lemma head_loop_store_length: "length (snd (head_loop nc xs st)) = length st + 4 * length xs"
proof (induction xs arbitrary: st)
  case Nil
  show ?case by simp
next
  case (Cons x xs)
  obtain nd oc where x: "x = (nd, oc)" by (cases x) auto
  show ?case unfolding x head_loop_Cons by (simp add: Cons.IH)
qed

lemma head_loop_nth:
  "i < length xs \<Longrightarrow>
   fst (fst (head_loop nc xs st)) ! i =
     (case xs ! i of (nd, oc) \<Rightarrow>
        Conv2d oc (nd * 4) 3 1 1 1 (length st + 4 * i) (Some (length st + 4 * i + 1))) \<and>
   snd (fst (head_loop nc xs st)) ! i =
     (case xs ! i of (nd, oc) \<Rightarrow>
        Conv2d oc (nd * nc) 3 1 1 1 (length st + 4 * i + 2) (Some (length st + 4 * i + 3)))"
proof (induction xs arbitrary: st i)
  case Nil
  then show ?case by simp
next
  case (Cons x xs)
  obtain nd oc where x: "x = (nd, oc)" by (cases x) auto
  show ?case
  proof (cases i)
    case 0
    then show ?thesis unfolding x head_loop_Cons by simp
  next
    case (Suc k)
    with Cons.prems have k: "k < length xs" by simp
    obtain nd' oc' where e: "xs ! k = (nd', oc')" by (cases "xs ! k") auto
    show ?thesis
      unfolding x head_loop_Cons Suc by (simp add: Cons.IH [OF k] e)
  qed
qed

lemma build_items_length:
  "length (enumerate 0 (zip (butlast oc) (zip (tl oc) [256, 256, 128, 128, 128::nat]))) =
     min (length oc - 1) 5"
  by simp

lemma build_items_nth:
  assumes "i < min (length oc - 1) 5"
  shows "enumerate 0 (zip (butlast oc) (zip (tl oc) [256, 256, 128, 128, 128::nat])) ! i =
     (i, oc ! i, oc ! Suc i, [256, 256, 128, 128, 128] ! i)"
  using assms by (simp add: nth_enumerate_eq nth_butlast nth_tl)

lemma feature_blocks_length:
  "length (feature_blocks (fst (SSD300 d b nc st))) =
     min (length (out_channels (case b of None \<Rightarrow> d | Some x \<Rightarrow> x)) - 1) 5"
  unfolding SSD300_fields build_feature_layers_def feature_loop_length by simp

lemma feature_blocks_nth:
  assumes "i < min (length (out_channels (case b of None \<Rightarrow> d | Some x \<Rightarrow> x)) - 1) 5"
  shows "feature_blocks (fst (SSD300 d b nc st)) ! i =
     Sequential
       [Conv2d (out_channels (case b of None \<Rightarrow> d | Some x \<Rightarrow> x) ! i)
          ([256, 256, 128, 128, 128] ! i) 1 1 0 1 (length st + 6 * i) None,
        BatchNorm2d ([256, 256, 128, 128, 128] ! i) True
          (length st + 6 * i + 1) (length st + 6 * i + 2),
        ReLU,
        Conv2d ([256, 256, 128, 128, 128] ! i)
          (out_channels (case b of None \<Rightarrow> d | Some x \<Rightarrow> x) ! Suc i) 3
          (if i < 3 then 2 else 1) (if i < 3 then 1 else 0) 1 (length st + 6 * i + 3) None,
        BatchNorm2d (out_channels (case b of None \<Rightarrow> d | Some x \<Rightarrow> x) ! Suc i) True
          (length st + 6 * i + 4) (length st + 6 * i + 5),
        ReLU]"
proof -
  let ?xs = "enumerate 0 (zip (butlast (out_channels (case b of None \<Rightarrow> d | Some x \<Rightarrow> x)))
               (zip (tl (out_channels (case b of None \<Rightarrow> d | Some x \<Rightarrow> x)))
                  [256, 256, 128, 128, 128::nat]))"
  from assms have i: "i < length ?xs" by simp
  show ?thesis
    unfolding SSD300_fields build_feature_layers_def feature_loop_nth [OF i]
      build_items_nth [OF assms]
    by simp
qed

lemma heads_length:
  "length (loc (fst (SSD300 d b nc st))) =
     min 6 (length (out_channels (case b of None \<Rightarrow> d | Some x \<Rightarrow> x)))"
  "length (conf (fst (SSD300 d b nc st))) =
     min 6 (length (out_channels (case b of None \<Rightarrow> d | Some x \<Rightarrow> x)))"
  unfolding SSD300_fields by (simp_all add: head_loop_length)

lemma heads_nth:
  assumes "i < min 6 (length (out_channels (case b of None \<Rightarrow> d | Some x \<Rightarrow> x)))"
  shows "loc (fst (SSD300 d b nc st)) ! i =
     Conv2d (out_channels (case b of None \<Rightarrow> d | Some x \<Rightarrow> x) ! i) ([4, 6, 6, 6, 4, 4] ! i * 4)
       3 1 1 1
       (length st + 6 * min (length (out_channels (case b of None \<Rightarrow> d | Some x \<Rightarrow> x)) - 1) 5
          + 4 * i)
       (Some (length st
          + 6 * min (length (out_channels (case b of None \<Rightarrow> d | Some x \<Rightarrow> x)) - 1) 5
          + 4 * i + 1))"
    and "conf (fst (SSD300 d b nc st)) ! i =
     Conv2d (out_channels (case b of None \<Rightarrow> d | Some x \<Rightarrow> x) ! i) ([4, 6, 6, 6, 4, 4] ! i * nc)
       3 1 1 1
       (length st + 6 * min (length (out_channels (case b of None \<Rightarrow> d | Some x \<Rightarrow> x)) - 1) 5
          + 4 * i + 2)
       (Some (length st
          + 6 * min (length (out_channels (case b of None \<Rightarrow> d | Some x \<Rightarrow> x)) - 1) 5
          + 4 * i + 3))"
proof -
  let ?oc = "out_channels (case b of None \<Rightarrow> d | Some x \<Rightarrow> x)"
  from assms have i: "i < length (zip [4, 6, 6, 6, 4, 4::nat] ?oc)" by simp
  have len: "length (snd (build_feature_layers ?oc st)) = length st + 6 * min (length ?oc - 1) 5"
    unfolding build_feature_layers_def feature_loop_store_length by simp
  from assms have z: "zip [4, 6, 6, 6, 4, 4::nat] ?oc ! i = ([4, 6, 6, 6, 4, 4] ! i, ?oc ! i)"
    by simp
  show "loc (fst (SSD300 d b nc st)) ! i =
     Conv2d (?oc ! i) ([4, 6, 6, 6, 4, 4] ! i * 4) 3 1 1 1
       (length st + 6 * min (length ?oc - 1) 5 + 4 * i)
       (Some (length st + 6 * min (length ?oc - 1) 5 + 4 * i + 1))"
    unfolding SSD300_fields using head_loop_nth [OF i, of nc "snd (build_feature_layers ?oc st)"]
    unfolding len z by simp
  show "conf (fst (SSD300 d b nc st)) ! i =
     Conv2d (?oc ! i) ([4, 6, 6, 6, 4, 4] ! i * nc) 3 1 1 1
       (length st + 6 * min (length ?oc - 1) 5 + 4 * i + 2)
       (Some (length st + 6 * min (length ?oc - 1) 5 + 4 * i + 3))"
    unfolding SSD300_fields using head_loop_nth [OF i, of nc "snd (build_feature_layers ?oc st)"]
    unfolding len z by simp
qed


lemma strided_shape:
  assumes "1 \<le> H" "1 \<le> W" "N * H * W \<noteq> 1" "N * ((H + 1) div 2) * ((W + 1) div 2) \<noteq> 1"
  shows "layer_shape (Sequential [Conv2d a c 1 1 0 1 w1 None, BatchNorm2d c True w2 w3, ReLU,
            Conv2d c b 3 2 1 1 w4 None, BatchNorm2d b True w5 w6, ReLU]) [N, a, H, W] =
         Inr [N, b, (H + 1) div 2, (W + 1) div 2]"
proof -
  have h: "(H + 2 - 3) div 2 + 1 = (H + 1) div 2" "(W + 2 - 3) div 2 + 1 = (W + 1) div 2"
    using assms by arith+
  show ?thesis
    using assms h by simp
qed

lemma unpadded_shape:
  assumes "3 \<le> H" "3 \<le> W" "N * H * W \<noteq> 1" "N * (H - 2) * (W - 2) \<noteq> 1"
  shows "layer_shape (Sequential [Conv2d a c 1 1 0 1 w1 None, BatchNorm2d c True w2 w3, ReLU,
            Conv2d c b 3 1 0 1 w4 None, BatchNorm2d b True w5 w6, ReLU]) [N, a, H, W] =
         Inr [N, b, H - 2, W - 2]"
proof -
  have h: "H - 3 + 1 = H - 2" "W - 3 + 1 = W - 2" using assms by arith+
  show ?thesis
    using assms h by simp
qed

lemma strided_eval_shape:
  assumes "1 \<le> H" "1 \<le> W"
  shows "layer_shape (Sequential [Conv2d a c 1 1 0 1 w1 None, BatchNorm2d c False w2 w3, ReLU,
            Conv2d c b 3 2 1 1 w4 None, BatchNorm2d b False w5 w6, ReLU]) [N, a, H, W] =
         Inr [N, b, (H + 1) div 2, (W + 1) div 2]"
proof -
  have h: "(H + 2 - 3) div 2 + 1 = (H + 1) div 2" "(W + 2 - 3) div 2 + 1 = (W + 1) div 2"
    using assms by arith+
  show ?thesis
    using assms h by simp
qed

lemma unpadded_eval_shape:
  assumes "3 \<le> H" "3 \<le> W"
  shows "layer_shape (Sequential [Conv2d a c 1 1 0 1 w1 None, BatchNorm2d c False w2 w3, ReLU,
            Conv2d c b 3 1 0 1 w4 None, BatchNorm2d b False w5 w6, ReLU]) [N, a, H, W] =
         Inr [N, b, H - 2, W - 2]"
proof -
  have h: "H - 3 + 1 = H - 2" "W - 3 + 1 = W - 2" using assms by arith+
  show ?thesis
    using assms h by simp
qed

lemma eval_layers_nth: "i < length ls \<Longrightarrow> eval_layers ls ! i = eval_layer (ls ! i)"
  by (induction ls arbitrary: i) (simp_all add: nth_Cons split: nat.splits)

lemma lt5: "i < (5::nat) \<longleftrightarrow> i = 0 \<or> i = 1 \<or> i = 2 \<or> i = 3 \<or> i = 4"
  by arith

lemma lt6: "i < (6::nat) \<longleftrightarrow> i = 0 \<or> i = 1 \<or> i = 2 \<or> i = 3 \<or> i = 4 \<or> i = 5"
  by arith

lemma default_blocks_nth:
  assumes "i < 5"
  shows "feature_blocks (fst (SSD300 (fst (SSD300_class st0)) None nc st)) ! i =
     Sequential
       [Conv2d ([32, 512, 512, 256, 256, 256] ! i) ([256, 256, 128, 128, 128] ! i) 1 1 0 1
          (length st + 6 * i) None,
        BatchNorm2d ([256, 256, 128, 128, 128] ! i) True
          (length st + 6 * i + 1) (length st + 6 * i + 2),
        ReLU,
        Conv2d ([256, 256, 128, 128, 128] ! i) ([32, 512, 512, 256, 256, 256] ! Suc i) 3
          (if i < 3 then 2 else 1) (if i < 3 then 1 else 0) 1 (length st + 6 * i + 3) None,
        BatchNorm2d ([32, 512, 512, 256, 256, 256] ! Suc i) True
          (length st + 6 * i + 4) (length st + 6 * i + 5),
        ReLU]"
proof -
  have "i < min (length (out_channels (case None of None \<Rightarrow> fst (SSD300_class st0) | Some x \<Rightarrow> x)) - 1) 5"
    using assms by (simp add: SSD300_default_channels)
  from feature_blocks_nth [OF this, of nc st] show ?thesis
    by (simp add: SSD300_default_channels)
qed

lemma default_blocks_length: "length (feature_blocks (fst (SSD300 (fst (SSD300_class st0)) None nc st))) = 5"
  by (simp add: feature_blocks_length SSD300_default_channels)

lemma default_eval_blocks_nth:
  assumes "i < 5"
  shows "feature_blocks (ssd300_eval (fst (SSD300 (fst (SSD300_class st0)) None nc st))) ! i =
     Sequential
       [Conv2d ([32, 512, 512, 256, 256, 256] ! i) ([256, 256, 128, 128, 128] ! i) 1 1 0 1
          (length st + 6 * i) None,
        BatchNorm2d ([256, 256, 128, 128, 128] ! i) False
          (length st + 6 * i + 1) (length st + 6 * i + 2),
        ReLU,
        Conv2d ([256, 256, 128, 128, 128] ! i) ([32, 512, 512, 256, 256, 256] ! Suc i) 3
          (if i < 3 then 2 else 1) (if i < 3 then 1 else 0) 1 (length st + 6 * i + 3) None,
        BatchNorm2d ([32, 512, 512, 256, 256, 256] ! Suc i) False
          (length st + 6 * i + 4) (length st + 6 * i + 5),
        ReLU]"
proof -
  from assms have i: "i < length (feature_blocks (fst (SSD300 (fst (SSD300_class st0)) None nc st)))"
    unfolding default_blocks_length .
  have "feature_blocks (ssd300_eval (fst (SSD300 (fst (SSD300_class st0)) None nc st))) ! i = eval_layer (feature_blocks (fst (SSD300 (fst (SSD300_class st0)) None nc st)) ! i)"
    using eval_layers_nth [OF i] by (simp add: ssd300_eval_def)
  then show ?thesis unfolding default_blocks_nth [OF assms] by simp
qed

text \<open>
  C5, as stated, fails for a batch of one on a freshly constructed model, which is in
  training mode: block 4 takes the 3x3 map to 1x1, and its last batch normalisation
  refuses an input of shape \<open>(1, 256, 1, 1)\<close>, so the block returns no feature map and the
  six feature maps of a \<open>(1, 3, 300, 300)\<close> input are never produced.
\<close>

theorem SSD300_feature_blocks_batch_of_one:
  "layer_shape (feature_blocks (fst (SSD300 (fst (SSD300_class [])) None 81 (snd (SSD300_class [])))) ! 4) [1, 256, 3, 3] = Inl OneValuePerChannel \<and>
   detection_feed shapes (fst (SSD300 (fst (SSD300_class [])) None 81 (snd (SSD300_class [])))) [1, 3, 300, 300] = Inl OneValuePerChannel"
proof
  have i: "(4::nat) < 5" by simp
  show "layer_shape (feature_blocks (fst (SSD300 (fst (SSD300_class [])) None 81 (snd (SSD300_class [])))) ! 4) [1, 256, 3, 3] = Inl OneValuePerChannel"
    unfolding default_blocks_nth [OF i] by simp
  show "detection_feed shapes (fst (SSD300 (fst (SSD300_class [])) None 81 (snd (SSD300_class [])))) [1, 3, 300, 300] = Inl OneValuePerChannel"
    by (rule default_feed_one)
qed

text \<open>
  C5, amended.  \<open>_build_feature_layers\<close> builds five feature blocks on the six channel
  counts of the backbone, one fewer than there are channel counts.  Each is a 1x1
  convolution, batch normalisation, ReLU, a 3x3 convolution, batch normalisation, ReLU; the
  3x3 convolution has stride 2 and padding 1 in blocks 0 to 2 and stride 1 and no padding
  in blocks 3 and 4.  Blocks 0 to 2 halve height and width rounding up, and blocks 3 and 4
  take 2 off each, in evaluation mode on every batch, and in training mode on every batch
  that gives the block's batch normalisations more than one value per channel
  (\<open>N * H * W \<noteq> 1\<close> before and after the 3x3 convolution).  After the 38x38 output of the
  backbone on a 300x300 input, the feature maps have sizes 38, 19, 10, 5, 3, 1 and channel
  counts 32, 512, 512, 256, 256, 256, for every batch of at least two in training mode and
  every batch of at least one in evaluation mode.
\<close>

theorem SSD300_feature_blocks:
  "length (feature_blocks (fst (SSD300 (fst (SSD300_class st0)) None nc st))) = 5 \<and>
   length (feature_blocks (fst (SSD300 (fst (SSD300_class st0)) None nc st))) =
     length (out_channels (ssd_feature_extractor (fst (SSD300 (fst (SSD300_class st0)) None nc st)))) - 1 \<and>
   (\<forall>i<5. feature_blocks (fst (SSD300 (fst (SSD300_class st0)) None nc st)) ! i =
      Sequential
        [Conv2d ([32, 512, 512, 256, 256, 256] ! i) ([256, 256, 128, 128, 128] ! i) 1 1 0 1
           (length st + 6 * i) None,
         BatchNorm2d ([256, 256, 128, 128, 128] ! i) True
           (length st + 6 * i + 1) (length st + 6 * i + 2),
         ReLU,
         Conv2d ([256, 256, 128, 128, 128] ! i) ([32, 512, 512, 256, 256, 256] ! Suc i) 3
           (if i < 3 then 2 else 1) (if i < 3 then 1 else 0) 1 (length st + 6 * i + 3) None,
         BatchNorm2d ([32, 512, 512, 256, 256, 256] ! Suc i) True
           (length st + 6 * i + 4) (length st + 6 * i + 5),
         ReLU]) \<and>
   (\<forall>i<3. \<forall>N H W. 1 \<le> N \<and> 1 \<le> H \<and> 1 \<le> W \<and> N * H * W \<noteq> 1 \<and>
        N * ((H + 1) div 2) * ((W + 1) div 2) \<noteq> 1 \<longrightarrow>
      layer_shape (feature_blocks (fst (SSD300 (fst (SSD300_class st0)) None nc st)) ! i) [N, [32, 512, 512, 256, 256, 256] ! i, H, W] =
      Inr [N, [32, 512, 512, 256, 256, 256] ! Suc i, (H + 1) div 2, (W + 1) div 2]) \<and>
   (\<forall>i\<in>{3, 4}. \<forall>N H W. 1 \<le> N \<and> 3 \<le> H \<and> 3 \<le> W \<and> N * (H - 2) * (W - 2) \<noteq> 1 \<longrightarrow>
      layer_shape (feature_blocks (fst (SSD300 (fst (SSD300_class st0)) None nc st)) ! i) [N, [32, 512, 512, 256, 256, 256] ! i, H, W] =
      Inr [N, [32, 512, 512, 256, 256, 256] ! Suc i, H - 2, W - 2]) \<and>
   (\<forall>i<3. \<forall>N H W. 1 \<le> N \<and> 1 \<le> H \<and> 1 \<le> W \<longrightarrow>
      layer_shape (feature_blocks (ssd300_eval (fst (SSD300 (fst (SSD300_class st0)) None nc st))) ! i) [N, [32, 512, 512, 256, 256, 256] ! i, H, W] =
      Inr [N, [32, 512, 512, 256, 256, 256] ! Suc i, (H + 1) div 2, (W + 1) div 2]) \<and>
   (\<forall>i\<in>{3, 4}. \<forall>N H W. 1 \<le> N \<and> 3 \<le> H \<and> 3 \<le> W \<longrightarrow>
      layer_shape (feature_blocks (ssd300_eval (fst (SSD300 (fst (SSD300_class st0)) None nc st))) ! i) [N, [32, 512, 512, 256, 256, 256] ! i, H, W] =
      Inr [N, [32, 512, 512, 256, 256, 256] ! Suc i, H - 2, W - 2]) \<and>
   (\<forall>N\<ge>2. detection_feed shapes (fst (SSD300 (fst (SSD300_class st0)) None nc st)) [N, 3, 300, 300] =
      Inr [[N, 32, 38, 38], [N, 512, 19, 19], [N, 512, 10, 10],
           [N, 256, 5, 5], [N, 256, 3, 3], [N, 256, 1, 1]]) \<and>
   (\<forall>N\<ge>1. detection_feed shapes (ssd300_eval (fst (SSD300 (fst (SSD300_class st0)) None nc st))) [N, 3, 300, 300] =
      Inr [[N, 32, 38, 38], [N, 512, 19, 19], [N, 512, 10, 10],
           [N, 256, 5, 5], [N, 256, 3, 3], [N, 256, 1, 1]])"
proof (intro conjI allI impI ballI)
  show len: "length (feature_blocks (fst (SSD300 (fst (SSD300_class st0)) None nc st))) = 5"
    by (rule default_blocks_length)
  show "length (feature_blocks (fst (SSD300 (fst (SSD300_class st0)) None nc st))) =
     length (out_channels (ssd_feature_extractor (fst (SSD300 (fst (SSD300_class st0)) None nc st)))) - 1"
    unfolding len by (simp add: SSD300_fields SSD300_default_channels)
next
  fix i :: nat assume "i < 5"
  then show "feature_blocks (fst (SSD300 (fst (SSD300_class st0)) None nc st)) ! i =
      Sequential
        [Conv2d ([32, 512, 512, 256, 256, 256] ! i) ([256, 256, 128, 128, 128] ! i) 1 1 0 1
           (length st + 6 * i) None,
         BatchNorm2d ([256, 256, 128, 128, 128] ! i) True
           (length st + 6 * i + 1) (length st + 6 * i + 2),
         ReLU,
         Conv2d ([256, 256, 128, 128, 128] ! i) ([32, 512, 512, 256, 256, 256] ! Suc i) 3
           (if i < 3 then 2 else 1) (if i < 3 then 1 else 0) 1 (length st + 6 * i + 3) None,
         BatchNorm2d ([32, 512, 512, 256, 256, 256] ! Suc i) True
           (length st + 6 * i + 4) (length st + 6 * i + 5),
         ReLU]"
    by (rule default_blocks_nth)
next
  fix i N H W :: nat
  assume i: "i < 3" and h: "1 \<le> N \<and> 1 \<le> H \<and> 1 \<le> W \<and> N * H * W \<noteq> 1 \<and>
        N * ((H + 1) div 2) * ((W + 1) div 2) \<noteq> 1"
  from i have i5: "i < 5" by simp
  from h have a: "1 \<le> H" "1 \<le> W" "N * H * W \<noteq> 1"
    "N * ((H + 1) div 2) * ((W + 1) div 2) \<noteq> 1" by blast+
  show "layer_shape (feature_blocks (fst (SSD300 (fst (SSD300_class st0)) None nc st)) ! i) [N, [32, 512, 512, 256, 256, 256] ! i, H, W] =
      Inr [N, [32, 512, 512, 256, 256, 256] ! Suc i, (H + 1) div 2, (W + 1) div 2]"
    unfolding default_blocks_nth [OF i5] using i strided_shape [OF a] by simp
next
  fix i N H W :: nat
  assume i: "i \<in> {3, 4}" and h: "1 \<le> N \<and> 3 \<le> H \<and> 3 \<le> W \<and> N * (H - 2) * (W - 2) \<noteq> 1"
  from i have i5: "i < 5" by auto
  from i have i3: "\<not> i < 3" by auto
  from h have "N * H * W \<noteq> 1" by auto
  with h have a: "3 \<le> H" "3 \<le> W" "N * H * W \<noteq> 1" "N * (H - 2) * (W - 2) \<noteq> 1" by blast+
  show "layer_shape (feature_blocks (fst (SSD300 (fst (SSD300_class st0)) None nc st)) ! i) [N, [32, 512, 512, 256, 256, 256] ! i, H, W] =
      Inr [N, [32, 512, 512, 256, 256, 256] ! Suc i, H - 2, W - 2]"
    unfolding default_blocks_nth [OF i5] using i3 unpadded_shape [OF a] by simp
next
  fix i N H W :: nat
  assume i: "i < 3" and h: "1 \<le> N \<and> 1 \<le> H \<and> 1 \<le> W"
  from i have i5: "i < 5" by simp
  from h have a: "1 \<le> H" "1 \<le> W" by simp_all
  show "layer_shape (feature_blocks (ssd300_eval (fst (SSD300 (fst (SSD300_class st0)) None nc st))) ! i) [N, [32, 512, 512, 256, 256, 256] ! i, H, W] =
      Inr [N, [32, 512, 512, 256, 256, 256] ! Suc i, (H + 1) div 2, (W + 1) div 2]"
    unfolding default_eval_blocks_nth [OF i5] using i strided_eval_shape [OF a] by simp
next
  fix i N H W :: nat
  assume i: "i \<in> {3, 4}" and h: "1 \<le> N \<and> 3 \<le> H \<and> 3 \<le> W"
  from i have i5: "i < 5" by auto
  from i have i3: "\<not> i < 3" by auto
  from h have a: "3 \<le> H" "3 \<le> W" by simp_all
  show "layer_shape (feature_blocks (ssd300_eval (fst (SSD300 (fst (SSD300_class st0)) None nc st))) ! i) [N, [32, 512, 512, 256, 256, 256] ! i, H, W] =
      Inr [N, [32, 512, 512, 256, 256, 256] ! Suc i, H - 2, W - 2]"
    unfolding default_eval_blocks_nth [OF i5] using i3 unpadded_eval_shape [OF a] by simp
next
  fix N :: nat assume "2 \<le> N"
  then show "detection_feed shapes (fst (SSD300 (fst (SSD300_class st0)) None nc st)) [N, 3, 300, 300] =
      Inr [[N, 32, 38, 38], [N, 512, 19, 19], [N, 512, 10, 10],
           [N, 256, 5, 5], [N, 256, 3, 3], [N, 256, 1, 1]]"
    by (rule default_feed)
next
  fix N :: nat
  show "detection_feed shapes (ssd300_eval (fst (SSD300 (fst (SSD300_class st0)) None nc st))) [N, 3, 300, 300] =
      Inr [[N, 32, 38, 38], [N, 512, 19, 19], [N, 512, 10, 10],
           [N, 256, 5, 5], [N, 256, 3, 3], [N, 256, 1, 1]]"
    by (rule default_eval_feed)
qed

theorem SSD300_feature_blocks_witness:
  "length (feature_blocks (fst (SSD300 (fst (SSD300_class [])) None 81 (snd (SSD300_class []))))) = 5 \<and>
   layer_shape (feature_blocks (fst (SSD300 (fst (SSD300_class [])) None 81 (snd (SSD300_class [])))) ! 0) [1, 32, 38, 38] = Inr [1, 512, 19, 19] \<and>
   layer_shape (feature_blocks (fst (SSD300 (fst (SSD300_class [])) None 81 (snd (SSD300_class [])))) ! 1) [2, 512, 19, 19] = Inr [2, 512, 10, 10] \<and>
   layer_shape (feature_blocks (fst (SSD300 (fst (SSD300_class [])) None 81 (snd (SSD300_class [])))) ! 3) [2, 256, 5, 5] = Inr [2, 256, 3, 3] \<and>
   layer_shape (feature_blocks (ssd300_eval (fst (SSD300 (fst (SSD300_class [])) None 81 (snd (SSD300_class []))))) ! 2) [1, 512, 10, 10] = Inr [1, 256, 5, 5] \<and>
   layer_shape (feature_blocks (ssd300_eval (fst (SSD300 (fst (SSD300_class [])) None 81 (snd (SSD300_class []))))) ! 4) [1, 256, 3, 3] = Inr [1, 256, 1, 1] \<and>
   detection_feed shapes (fst (SSD300 (fst (SSD300_class [])) None 81 (snd (SSD300_class [])))) [2, 3, 300, 300] =
     Inr [[2, 32, 38, 38], [2, 512, 19, 19], [2, 512, 10, 10],
          [2, 256, 5, 5], [2, 256, 3, 3], [2, 256, 1, 1]] \<and>
   detection_feed shapes (ssd300_eval (fst (SSD300 (fst (SSD300_class [])) None 81 (snd (SSD300_class []))))) [1, 3, 300, 300] =
     Inr [[1, 32, 38, 38], [1, 512, 19, 19], [1, 512, 10, 10],
          [1, 256, 5, 5], [1, 256, 3, 3], [1, 256, 1, 1]]"
proof -
  let ?m = "(fst (SSD300 (fst (SSD300_class [])) None 81 (snd (SSD300_class []))))"
  note t = SSD300_feature_blocks [of "[]" 81 "snd (SSD300_class [])"]
  note l = t [THEN conjunct1]
  note a = t [THEN conjunct2, THEN conjunct2, THEN conjunct2, THEN conjunct1]
  note b = t [THEN conjunct2, THEN conjunct2, THEN conjunct2, THEN conjunct2, THEN conjunct1]
  note ea = t [THEN conjunct2, THEN conjunct2, THEN conjunct2, THEN conjunct2, THEN conjunct2, THEN conjunct1]
  note eb = t [THEN conjunct2, THEN conjunct2, THEN conjunct2, THEN conjunct2, THEN conjunct2, THEN conjunct2, THEN conjunct1]
  note c = t [THEN conjunct2, THEN conjunct2, THEN conjunct2, THEN conjunct2, THEN conjunct2, THEN conjunct2, THEN conjunct2, THEN conjunct1]
  note ec = t [THEN conjunct2, THEN conjunct2, THEN conjunct2, THEN conjunct2, THEN conjunct2, THEN conjunct2, THEN conjunct2, THEN conjunct2]
  have w1: "layer_shape (feature_blocks ?m ! 0) [1, 32, 38, 38] = Inr [1, 512, 19, 19]"
    using a [rule_format, of 0 1 38 38] by simp
  have w2: "layer_shape (feature_blocks ?m ! 1) [2, 512, 19, 19] = Inr [2, 512, 10, 10]"
    using a [rule_format, of 1 2 19 19] by simp
  have w3: "layer_shape (feature_blocks ?m ! 3) [2, 256, 5, 5] = Inr [2, 256, 3, 3]"
    using b [rule_format, of 3 2 5 5] by simp
  have w4: "layer_shape (feature_blocks (ssd300_eval ?m) ! 2) [1, 512, 10, 10] =
      Inr [1, 256, 5, 5]"
    using ea [rule_format, of 2 1 10 10] by simp
  have w5: "layer_shape (feature_blocks (ssd300_eval ?m) ! 4) [1, 256, 3, 3] =
      Inr [1, 256, 1, 1]"
    using eb [rule_format, of 4 1 3 3] by simp
  have w6: "detection_feed shapes ?m [2, 3, 300, 300] =
     Inr [[2, 32, 38, 38], [2, 512, 19, 19], [2, 512, 10, 10],
          [2, 256, 5, 5], [2, 256, 3, 3], [2, 256, 1, 1]]"
    using c [rule_format, of 2] by simp
  have w7: "detection_feed shapes (ssd300_eval ?m) [1, 3, 300, 300] =
     Inr [[1, 32, 38, 38], [1, 512, 19, 19], [1, 512, 10, 10],
          [1, 256, 5, 5], [1, 256, 3, 3], [1, 256, 1, 1]]"
    using ec [rule_format, of 1] by simp
  from l w1 w2 w3 w4 w5 w6 w7 show ?thesis by (intro conjI)
qed

subsection \<open>The prediction heads\<close>

lemma dataflow_simps [simp]:
  "call (dataflow n) l x = Inr (Call l x)" "shape0 (dataflow n) x = Inr n"
  "view (dataflow n) x a b = Inr (View x a b)" "cat (dataflow n) xs d = Inr (Cat xs d)"
  "contiguous (dataflow n) = Contiguous"
  by (simp_all add: dataflow_def)

lemma list5: "length xs = 5 \<Longrightarrow> xs = [xs ! 0, xs ! 1, xs ! 2, xs ! 3, xs ! 4]"
  by (auto simp add: list_eq_iff_nth_eq lt5)

lemma list6: "length xs = 6 \<Longrightarrow> xs = [xs ! 0, xs ! 1, xs ! 2, xs ! 3, xs ! 4, xs ! 5]"
  by (auto simp add: list_eq_iff_nth_eq lt6)

lemma forward_dataflow:
  assumes "feature_blocks m = [b0, b1, b2, b3, b4]"
    and "loc m = [l0, l1, l2, l3, l4, l5]" and "conf m = [c0, c1, c2, c3, c4, c5]"
  shows "forward (dataflow n) m x =
     (let f0 = Call (feature_extractor (ssd_feature_extractor m)) x;
          f1 = Call b0 f0; f2 = Call b1 f1; f3 = Call b2 f2; f4 = Call b3 f3; f5 = Call b4 f4
      in Inr (Contiguous (Cat [View (Call l0 f0) n 4, View (Call l1 f1) n 4,
                              View (Call l2 f2) n 4, View (Call l3 f3) n 4,
                              View (Call l4 f4) n 4, View (Call l5 f5) n 4] 2),
              Contiguous (Cat [View (Call c0 f0) n (num_classes m),
                              View (Call c1 f1) n (num_classes m),
                              View (Call c2 f2) n (num_classes m),
                              View (Call c3 f3) n (num_classes m),
                              View (Call c4 f4) n (num_classes m),
                              View (Call c5 f5) n (num_classes m)] 2)))"
  by (simp add: forward_def detection_feed_def extractor_forward_def bbox_view_def bbox_item_def
      assms Let_def)

lemma head_shape:
  assumes "1 \<le> H" "1 \<le> W"
  shows "layer_shape (Conv2d ci co 3 1 1 1 a b) [N, ci, H, W] = Inr [N, co, H, W]"
  using assms by simp

lemma bbox_item_shape:
  assumes "1 \<le> N" "1 \<le> nc" "1 \<le> H" "1 \<le> W"
  shows "bbox_item shapes nc
           ([N, ci, H, W], Conv2d ci (nd * 4) 3 1 1 1 a1 b1, Conv2d ci (nd * nc) 3 1 1 1 a2 b2) =
         Inr ([N, 4, nd * H * W], [N, nc, nd * H * W])"
  using assms by (simp add: bbox_item_def shape_first_def view_loc)

lemma cat6:
  "cat_shape [[N, k, a0], [N, k, a1], [N, k, a2], [N, k, a3], [N, k, a4], [N, k, a5]] 2 =
     Inr [N, k, a0 + a1 + a2 + a3 + a4 + a5]"
  by (simp add: cat_shape_def)

text \<open>
  C7.  For a backbone with (at least) six channel counts, \<open>SSD300\<close> has six \<open>loc\<close> and
  six \<open>conf\<close> convolutions; the ones of scale \<open>i\<close> are 3x3 with padding 1 on
  \<open>out_channels[i]\<close> channels, with \<open>num_defaults[i] * 4\<close> and
  \<open>num_defaults[i] * num_classes\<close> output channels, and keep height and width.  On a
  feature map of shape \<open>(N, out_channels[i], H, W)\<close>, \<open>bbox_view\<close> reshapes their outputs to
  \<open>(N, 4, num_defaults[i] * H * W)\<close> and \<open>(N, num_classes, num_defaults[i] * H * W)\<close>; on six
  feature maps it returns the concatenation along dimension 2, whose length is the sum
  over the scales.  In the data-flow graph of \<open>forward\<close>, each scale's feature map goes
  through exactly one \<open>loc\<close> and one \<open>conf\<close> convolution and one \<open>view\<close>, and the six
  results are concatenated along dimension 2 in scale order.
\<close>

theorem SSD300_heads:
  assumes "6 \<le> length (out_channels (case b of None \<Rightarrow> d | Some x \<Rightarrow> x))"
  shows "num_defaults (fst (SSD300 d b nc st)) = [4, 6, 6, 6, 4, 4] \<and>
   length (loc (fst (SSD300 d b nc st))) = 6 \<and>
   length (conf (fst (SSD300 d b nc st))) = 6 \<and>
   (\<forall>i<6. (\<exists>w bi. loc (fst (SSD300 d b nc st)) ! i =
               Conv2d ((out_channels (case b of None \<Rightarrow> d | Some x \<Rightarrow> x)) ! i) (num_defaults (fst (SSD300 d b nc st)) ! i * 4) 3 1 1 1 w (Some bi)) \<and>
           (\<exists>w bi. conf (fst (SSD300 d b nc st)) ! i =
               Conv2d ((out_channels (case b of None \<Rightarrow> d | Some x \<Rightarrow> x)) ! i) (num_defaults (fst (SSD300 d b nc st)) ! i * nc) 3 1 1 1 w (Some bi))) \<and>
   (\<forall>i<6. \<forall>N H W. 1 \<le> N \<and> 1 \<le> nc \<and> 1 \<le> H \<and> 1 \<le> W \<longrightarrow>
      layer_shape (loc (fst (SSD300 d b nc st)) ! i) [N, (out_channels (case b of None \<Rightarrow> d | Some x \<Rightarrow> x)) ! i, H, W] =
        Inr [N, num_defaults (fst (SSD300 d b nc st)) ! i * 4, H, W] \<and>
      layer_shape (conf (fst (SSD300 d b nc st)) ! i) [N, (out_channels (case b of None \<Rightarrow> d | Some x \<Rightarrow> x)) ! i, H, W] =
        Inr [N, num_defaults (fst (SSD300 d b nc st)) ! i * nc, H, W] \<and>
      bbox_item shapes nc
        ([N, (out_channels (case b of None \<Rightarrow> d | Some x \<Rightarrow> x)) ! i, H, W], loc (fst (SSD300 d b nc st)) ! i, conf (fst (SSD300 d b nc st)) ! i) =
        Inr ([N, 4, num_defaults (fst (SSD300 d b nc st)) ! i * H * W],
             [N, nc, num_defaults (fst (SSD300 d b nc st)) ! i * H * W])) \<and>
   (\<forall>N h0 h1 h2 h3 h4 h5 w0 w1 w2 w3 w4 w5.
      1 \<le> N \<and> 1 \<le> nc \<and> (\<forall>x \<in> set [h0, h1, h2, h3, h4, h5, w0, w1, w2, w3, w4, w5]. 1 \<le> x) \<longrightarrow>
      bbox_view shapes (fst (SSD300 d b nc st))
        [[N, (out_channels (case b of None \<Rightarrow> d | Some x \<Rightarrow> x)) ! 0, h0, w0], [N, (out_channels (case b of None \<Rightarrow> d | Some x \<Rightarrow> x)) ! 1, h1, w1], [N, (out_channels (case b of None \<Rightarrow> d | Some x \<Rightarrow> x)) ! 2, h2, w2],
         [N, (out_channels (case b of None \<Rightarrow> d | Some x \<Rightarrow> x)) ! 3, h3, w3], [N, (out_channels (case b of None \<Rightarrow> d | Some x \<Rightarrow> x)) ! 4, h4, w4], [N, (out_channels (case b of None \<Rightarrow> d | Some x \<Rightarrow> x)) ! 5, h5, w5]]
        (loc (fst (SSD300 d b nc st))) (conf (fst (SSD300 d b nc st))) =
      Inr ([N, 4, 4 * h0 * w0 + 6 * h1 * w1 + 6 * h2 * w2 + 6 * h3 * w3 + 4 * h4 * w4 + 4 * h5 * w5],
           [N, nc, 4 * h0 * w0 + 6 * h1 * w1 + 6 * h2 * w2 + 6 * h3 * w3 + 4 * h4 * w4 + 4 * h5 * w5])) \<and>
   (\<forall>n x. forward (dataflow n) (fst (SSD300 d b nc st)) x =
      (let f0 = Call (feature_extractor (ssd_feature_extractor (fst (SSD300 d b nc st)))) x;
           f1 = Call (feature_blocks (fst (SSD300 d b nc st)) ! 0) f0;
           f2 = Call (feature_blocks (fst (SSD300 d b nc st)) ! 1) f1;
           f3 = Call (feature_blocks (fst (SSD300 d b nc st)) ! 2) f2;
           f4 = Call (feature_blocks (fst (SSD300 d b nc st)) ! 3) f3;
           f5 = Call (feature_blocks (fst (SSD300 d b nc st)) ! 4) f4
       in Inr (Contiguous (Cat [View (Call (loc (fst (SSD300 d b nc st)) ! 0) f0) n 4,
                               View (Call (loc (fst (SSD300 d b nc st)) ! 1) f1) n 4,
                               View (Call (loc (fst (SSD300 d b nc st)) ! 2) f2) n 4,
                               View (Call (loc (fst (SSD300 d b nc st)) ! 3) f3) n 4,
                               View (Call (loc (fst (SSD300 d b nc st)) ! 4) f4) n 4,
                               View (Call (loc (fst (SSD300 d b nc st)) ! 5) f5) n 4] 2),
               Contiguous (Cat [View (Call (conf (fst (SSD300 d b nc st)) ! 0) f0) n nc,
                               View (Call (conf (fst (SSD300 d b nc st)) ! 1) f1) n nc,
                               View (Call (conf (fst (SSD300 d b nc st)) ! 2) f2) n nc,
                               View (Call (conf (fst (SSD300 d b nc st)) ! 3) f3) n nc,
                               View (Call (conf (fst (SSD300 d b nc st)) ! 4) f4) n nc,
                               View (Call (conf (fst (SSD300 d b nc st)) ! 5) f5) n nc] 2))))"
proof -
  let ?m = "fst (SSD300 d b nc st)"
  let ?base = "length st + 6 * min (length (out_channels (case b of None \<Rightarrow> d | Some x \<Rightarrow> x)) - 1) 5"
  have nd: "num_defaults ?m = [4, 6, 6, 6, 4, 4]" by (simp add: SSD300_fields)
  have ncm: "num_classes ?m = nc" by (simp add: SSD300_fields)
  from assms have ll: "length (loc ?m) = 6" and lc: "length (conf ?m) = 6"
    by (simp_all add: heads_length)
  from assms have lb: "length (feature_blocks ?m) = 5"
    by (simp add: feature_blocks_length)
  have hn: "loc ?m ! i = Conv2d ((out_channels (case b of None \<Rightarrow> d | Some x \<Rightarrow> x)) ! i) (num_defaults ?m ! i * 4) 3 1 1 1
                (?base + 4 * i) (Some (?base + 4 * i + 1))"
      "conf ?m ! i = Conv2d ((out_channels (case b of None \<Rightarrow> d | Some x \<Rightarrow> x)) ! i) (num_defaults ?m ! i * nc) 3 1 1 1
                (?base + 4 * i + 2) (Some (?base + 4 * i + 3))"
    if "i < 6" for i
  proof -
    from that assms have i: "i < min 6 (length (out_channels (case b of None \<Rightarrow> d | Some x \<Rightarrow> x)))" by simp
    show "loc ?m ! i = Conv2d ((out_channels (case b of None \<Rightarrow> d | Some x \<Rightarrow> x)) ! i) (num_defaults ?m ! i * 4) 3 1 1 1
                (?base + 4 * i) (Some (?base + 4 * i + 1))"
      unfolding nd by (rule heads_nth(1) [OF i])
    show "conf ?m ! i = Conv2d ((out_channels (case b of None \<Rightarrow> d | Some x \<Rightarrow> x)) ! i) (num_defaults ?m ! i * nc) 3 1 1 1
                (?base + 4 * i + 2) (Some (?base + 4 * i + 3))"
      unfolding nd by (rule heads_nth(2) [OF i])
  qed
  have items: "bbox_item shapes nc ([N, (out_channels (case b of None \<Rightarrow> d | Some x \<Rightarrow> x)) ! i, H, W], loc ?m ! i, conf ?m ! i) =
        Inr ([N, 4, num_defaults ?m ! i * H * W], [N, nc, num_defaults ?m ! i * H * W])"
    if "i < 6" "1 \<le> N" "1 \<le> nc" "1 \<le> H" "1 \<le> W" for i N H W
    unfolding hn [OF that(1)] by (rule bbox_item_shape [OF that(2-5)])
  have p2: "\<forall>i<6. (\<exists>w bi. loc ?m ! i =
               Conv2d ((out_channels (case b of None \<Rightarrow> d | Some x \<Rightarrow> x)) ! i) (num_defaults ?m ! i * 4) 3 1 1 1 w (Some bi)) \<and>
           (\<exists>w bi. conf ?m ! i =
               Conv2d ((out_channels (case b of None \<Rightarrow> d | Some x \<Rightarrow> x)) ! i) (num_defaults ?m ! i * nc) 3 1 1 1 w (Some bi))"
    using hn by blast
  have p3: "\<forall>i<6. \<forall>N H W. 1 \<le> N \<and> 1 \<le> nc \<and> 1 \<le> H \<and> 1 \<le> W \<longrightarrow>
      layer_shape (loc ?m ! i) [N, (out_channels (case b of None \<Rightarrow> d | Some x \<Rightarrow> x)) ! i, H, W] = Inr [N, num_defaults ?m ! i * 4, H, W] \<and>
      layer_shape (conf ?m ! i) [N, (out_channels (case b of None \<Rightarrow> d | Some x \<Rightarrow> x)) ! i, H, W] = Inr [N, num_defaults ?m ! i * nc, H, W] \<and>
      bbox_item shapes nc ([N, (out_channels (case b of None \<Rightarrow> d | Some x \<Rightarrow> x)) ! i, H, W], loc ?m ! i, conf ?m ! i) =
        Inr ([N, 4, num_defaults ?m ! i * H * W], [N, nc, num_defaults ?m ! i * H * W])"
  proof (intro allI impI conjI)
    fix i N H W :: nat
    assume i: "i < 6" and h: "1 \<le> N \<and> 1 \<le> nc \<and> 1 \<le> H \<and> 1 \<le> W"
    then have hw: "1 \<le> H" "1 \<le> W" by simp_all
    show "layer_shape (loc ?m ! i) [N, (out_channels (case b of None \<Rightarrow> d | Some x \<Rightarrow> x)) ! i, H, W] = Inr [N, num_defaults ?m ! i * 4, H, W]"
      unfolding hn [OF i] by (rule head_shape [OF hw])
    show "layer_shape (conf ?m ! i) [N, (out_channels (case b of None \<Rightarrow> d | Some x \<Rightarrow> x)) ! i, H, W] = Inr [N, num_defaults ?m ! i * nc, H, W]"
      unfolding hn [OF i] by (rule head_shape [OF hw])
    from h show "bbox_item shapes nc ([N, (out_channels (case b of None \<Rightarrow> d | Some x \<Rightarrow> x)) ! i, H, W], loc ?m ! i, conf ?m ! i) =
        Inr ([N, 4, num_defaults ?m ! i * H * W], [N, nc, num_defaults ?m ! i * H * W])"
      by (intro items [OF i]) simp_all
  qed
  have p4: "\<forall>N h0 h1 h2 h3 h4 h5 w0 w1 w2 w3 w4 w5.
      1 \<le> N \<and> 1 \<le> nc \<and> (\<forall>x \<in> set [h0, h1, h2, h3, h4, h5, w0, w1, w2, w3, w4, w5]. 1 \<le> x) \<longrightarrow>
      bbox_view shapes ?m
        [[N, (out_channels (case b of None \<Rightarrow> d | Some x \<Rightarrow> x)) ! 0, h0, w0], [N, (out_channels (case b of None \<Rightarrow> d | Some x \<Rightarrow> x)) ! 1, h1, w1], [N, (out_channels (case b of None \<Rightarrow> d | Some x \<Rightarrow> x)) ! 2, h2, w2],
         [N, (out_channels (case b of None \<Rightarrow> d | Some x \<Rightarrow> x)) ! 3, h3, w3], [N, (out_channels (case b of None \<Rightarrow> d | Some x \<Rightarrow> x)) ! 4, h4, w4], [N, (out_channels (case b of None \<Rightarrow> d | Some x \<Rightarrow> x)) ! 5, h5, w5]]
        (loc ?m) (conf ?m) =
      Inr ([N, 4, 4 * h0 * w0 + 6 * h1 * w1 + 6 * h2 * w2 + 6 * h3 * w3 + 4 * h4 * w4 + 4 * h5 * w5],
           [N, nc, 4 * h0 * w0 + 6 * h1 * w1 + 6 * h2 * w2 + 6 * h3 * w3 + 4 * h4 * w4 + 4 * h5 * w5])"
  proof (intro allI impI)
    fix N h0 h1 h2 h3 h4 h5 w0 w1 w2 w3 w4 w5 :: nat
    assume h: "1 \<le> N \<and> 1 \<le> nc \<and> (\<forall>x \<in> set [h0, h1, h2, h3, h4, h5, w0, w1, w2, w3, w4, w5]. 1 \<le> x)"
    then have n: "1 \<le> N" "1 \<le> nc" by simp_all
    from h have i0: "bbox_item shapes nc ([N, (out_channels (case b of None \<Rightarrow> d | Some x \<Rightarrow> x)) ! 0, h0, w0], loc ?m ! 0, conf ?m ! 0) =
        Inr ([N, 4, num_defaults ?m ! 0 * h0 * w0], [N, nc, num_defaults ?m ! 0 * h0 * w0])"
      by (intro items) simp_all
    from h have i1: "bbox_item shapes nc ([N, (out_channels (case b of None \<Rightarrow> d | Some x \<Rightarrow> x)) ! 1, h1, w1], loc ?m ! 1, conf ?m ! 1) =
        Inr ([N, 4, num_defaults ?m ! 1 * h1 * w1], [N, nc, num_defaults ?m ! 1 * h1 * w1])"
      by (intro items) simp_all
    from h have i2: "bbox_item shapes nc ([N, (out_channels (case b of None \<Rightarrow> d | Some x \<Rightarrow> x)) ! 2, h2, w2], loc ?m ! 2, conf ?m ! 2) =
        Inr ([N, 4, num_defaults ?m ! 2 * h2 * w2], [N, nc, num_defaults ?m ! 2 * h2 * w2])"
      by (intro items) simp_all
    from h have i3: "bbox_item shapes nc ([N, (out_channels (case b of None \<Rightarrow> d | Some x \<Rightarrow> x)) ! 3, h3, w3], loc ?m ! 3, conf ?m ! 3) =
        Inr ([N, 4, num_defaults ?m ! 3 * h3 * w3], [N, nc, num_defaults ?m ! 3 * h3 * w3])"
      by (intro items) simp_all
    from h have i4: "bbox_item shapes nc ([N, (out_channels (case b of None \<Rightarrow> d | Some x \<Rightarrow> x)) ! 4, h4, w4], loc ?m ! 4, conf ?m ! 4) =
        Inr ([N, 4, num_defaults ?m ! 4 * h4 * w4], [N, nc, num_defaults ?m ! 4 * h4 * w4])"
      by (intro items) simp_all
    from h have i5: "bbox_item shapes nc ([N, (out_channels (case b of None \<Rightarrow> d | Some x \<Rightarrow> x)) ! 5, h5, w5], loc ?m ! 5, conf ?m ! 5) =
        Inr ([N, 4, num_defaults ?m ! 5 * h5 * w5], [N, nc, num_defaults ?m ! 5 * h5 * w5])"
      by (intro items) simp_all
    show "bbox_view shapes ?m
        [[N, (out_channels (case b of None \<Rightarrow> d | Some x \<Rightarrow> x)) ! 0, h0, w0], [N, (out_channels (case b of None \<Rightarrow> d | Some x \<Rightarrow> x)) ! 1, h1, w1], [N, (out_channels (case b of None \<Rightarrow> d | Some x \<Rightarrow> x)) ! 2, h2, w2],
         [N, (out_channels (case b of None \<Rightarrow> d | Some x \<Rightarrow> x)) ! 3, h3, w3], [N, (out_channels (case b of None \<Rightarrow> d | Some x \<Rightarrow> x)) ! 4, h4, w4], [N, (out_channels (case b of None \<Rightarrow> d | Some x \<Rightarrow> x)) ! 5, h5, w5]]
        (loc ?m) (conf ?m) =
      Inr ([N, 4, 4 * h0 * w0 + 6 * h1 * w1 + 6 * h2 * w2 + 6 * h3 * w3 + 4 * h4 * w4 + 4 * h5 * w5],
           [N, nc, 4 * h0 * w0 + 6 * h1 * w1 + 6 * h2 * w2 + 6 * h3 * w3 + 4 * h4 * w4 + 4 * h5 * w5])"
      unfolding bbox_view_def ncm
      apply (subst list6 [OF ll])
      apply (subst list6 [OF lc])
      apply (simp only: zip_Cons_Cons zip_Nil emap.simps i0 i1 i2 i3 i4 i5 ebind_simps)
      apply (simp add: nd cat6)
      done
  qed
  have p5: "\<forall>n x. forward (dataflow n) ?m x =
      (let f0 = Call (feature_extractor (ssd_feature_extractor ?m)) x;
           f1 = Call (feature_blocks ?m ! 0) f0;
           f2 = Call (feature_blocks ?m ! 1) f1;
           f3 = Call (feature_blocks ?m ! 2) f2;
           f4 = Call (feature_blocks ?m ! 3) f3;
           f5 = Call (feature_blocks ?m ! 4) f4
       in Inr (Contiguous (Cat [View (Call (loc ?m ! 0) f0) n 4,
                               View (Call (loc ?m ! 1) f1) n 4,
                               View (Call (loc ?m ! 2) f2) n 4,
                               View (Call (loc ?m ! 3) f3) n 4,
                               View (Call (loc ?m ! 4) f4) n 4,
                               View (Call (loc ?m ! 5) f5) n 4] 2),
               Contiguous (Cat [View (Call (conf ?m ! 0) f0) n nc,
                               View (Call (conf ?m ! 1) f1) n nc,
                               View (Call (conf ?m ! 2) f2) n nc,
                               View (Call (conf ?m ! 3) f3) n nc,
                               View (Call (conf ?m ! 4) f4) n nc,
                               View (Call (conf ?m ! 5) f5) n nc] 2)))"
    using forward_dataflow [OF list5 [OF lb] list6 [OF ll] list6 [OF lc]]
    unfolding ncm by blast
  from nd ll lc p2 p3 p4 p5 show ?thesis by blast
qed


theorem SSD300_heads_witness:
  "6 \<le> length (out_channels (case None of None \<Rightarrow> fst (SSD300_class []) | Some x \<Rightarrow> x)) \<and>
   length (loc (fst (SSD300 (fst (SSD300_class [])) None 81 (snd (SSD300_class []))))) = 6 \<and>
   layer_shape (loc (fst (SSD300 (fst (SSD300_class [])) None 81 (snd (SSD300_class [])))) ! 1)
     [2, 512, 19, 19] = Inr [2, 24, 19, 19] \<and>
   layer_shape (conf (fst (SSD300 (fst (SSD300_class [])) None 81 (snd (SSD300_class [])))) ! 1)
     [2, 512, 19, 19] = Inr [2, 486, 19, 19] \<and>
   bbox_view shapes (fst (SSD300 (fst (SSD300_class [])) None 81 (snd (SSD300_class []))))
     [[2, 32, 38, 38], [2, 512, 19, 19], [2, 512, 10, 10], [2, 256, 5, 5], [2, 256, 3, 3],
      [2, 256, 1, 1]]
     (loc (fst (SSD300 (fst (SSD300_class [])) None 81 (snd (SSD300_class [])))))
     (conf (fst (SSD300 (fst (SSD300_class [])) None 81 (snd (SSD300_class []))))) =
     Inr ([2, 4, 8732], [2, 81, 8732])"
proof -
  let ?m = "fst (SSD300 (fst (SSD300_class [])) None 81 (snd (SSD300_class [])))"
  let ?oc = "out_channels (case None of None \<Rightarrow> fst (SSD300_class []) | Some x \<Rightarrow> x)"
  have oc: "?oc = [32, 512, 512, 256, 256, 256]" by (simp add: SSD300_default_channels)
  then have h: "6 \<le> length ?oc" by simp
  note t = SSD300_heads [OF h, of 81 "snd (SSD300_class [])"]
  from t have nd: "num_defaults ?m = [4, 6, 6, 6, 4, 4]" and l: "length (loc ?m) = 6" by blast+
  from t have a: "\<forall>i<6. \<forall>N H W. 1 \<le> N \<and> 1 \<le> (81::nat) \<and> 1 \<le> H \<and> 1 \<le> W \<longrightarrow>
      layer_shape (loc ?m ! i) [N, ?oc ! i, H, W] = Inr [N, num_defaults ?m ! i * 4, H, W] \<and>
      layer_shape (conf ?m ! i) [N, ?oc ! i, H, W] = Inr [N, num_defaults ?m ! i * 81, H, W] \<and>
      bbox_item shapes 81 ([N, ?oc ! i, H, W], loc ?m ! i, conf ?m ! i) =
        Inr ([N, 4, num_defaults ?m ! i * H * W], [N, 81, num_defaults ?m ! i * H * W])"
    by blast
  from t have b: "\<forall>N h0 h1 h2 h3 h4 h5 w0 w1 w2 w3 w4 w5.
      1 \<le> N \<and> 1 \<le> (81::nat) \<and> (\<forall>x \<in> set [h0, h1, h2, h3, h4, h5, w0, w1, w2, w3, w4, w5]. 1 \<le> x) \<longrightarrow>
      bbox_view shapes ?m
        [[N, ?oc ! 0, h0, w0], [N, ?oc ! 1, h1, w1], [N, ?oc ! 2, h2, w2],
         [N, ?oc ! 3, h3, w3], [N, ?oc ! 4, h4, w4], [N, ?oc ! 5, h5, w5]]
        (loc ?m) (conf ?m) =
      Inr ([N, 4, 4 * h0 * w0 + 6 * h1 * w1 + 6 * h2 * w2 + 6 * h3 * w3 + 4 * h4 * w4 + 4 * h5 * w5],
           [N, 81, 4 * h0 * w0 + 6 * h1 * w1 + 6 * h2 * w2 + 6 * h3 * w3 + 4 * h4 * w4 + 4 * h5 * w5])"
    by blast
  from a [rule_format, of 1 2 19 19] b [rule_format, of 2 38 19 10 5 3 1 38 19 10 5 3 1] h l
  show ?thesis unfolding oc nd by simp
qed

subsection \<open>Arguments that are stored and never read\<close>

lemma init_weights_backbone:
  "init_weights (m\<lparr>ssd_feature_extractor := e\<rparr>) st = init_weights m st"
  by (simp add: init_weights_def)

text \<open>
  C8.  \<open>is_training\<close> and \<open>num_layers\<close> are stored and never read: changing them in an
  extractor, or in the extractor of a model, changes no forward pass, whatever the
  framework computes; extractors constructed with different values differ in these two
  fields only and leave the same store; models constructed on them have the same forward
  function, six \<open>loc\<close> and six \<open>conf\<close> convolutions and five feature blocks, whatever
  \<open>num_layers\<close> is.
\<close>

theorem SSD300_ignores_is_training_and_num_layers:
  "extractor_forward fw (e\<lparr>is_training := t, num_layers := n\<rparr>) x = extractor_forward fw e x \<and>
   forward fw (m\<lparr>ssd_feature_extractor :=
                  (ssd_feature_extractor m)\<lparr>is_training := t, num_layers := n\<rparr>\<rparr>) x =
     forward fw m x \<and>
   fst (SSDMobileNetV2FeatureExtractor t n st0) =
     (fst (SSDMobileNetV2FeatureExtractor t' n' st0))\<lparr>is_training := t, num_layers := n\<rparr> \<and>
   snd (SSDMobileNetV2FeatureExtractor t n st0) = snd (SSDMobileNetV2FeatureExtractor t' n' st0) \<and>
   fst (SSD300 d (Some (e\<lparr>is_training := t, num_layers := n\<rparr>)) nc st) =
     (fst (SSD300 d (Some e) nc st))
       \<lparr>ssd_feature_extractor := e\<lparr>is_training := t, num_layers := n\<rparr>\<rparr> \<and>
   snd (SSD300 d (Some (e\<lparr>is_training := t, num_layers := n\<rparr>)) nc st) =
     snd (SSD300 d (Some e) nc st) \<and>
   forward fw (fst (SSD300 d (Some (fst (SSDMobileNetV2FeatureExtractor t n st0))) nc st)) x =
     forward fw (fst (SSD300 d (Some (fst (SSDMobileNetV2FeatureExtractor t' n' st0))) nc st)) x \<and>
   length (loc (fst (SSD300 d (Some (fst (SSDMobileNetV2FeatureExtractor t n st0))) nc st))) = 6 \<and>
   length (conf (fst (SSD300 d (Some (fst (SSDMobileNetV2FeatureExtractor t n st0))) nc st))) = 6 \<and>
   length (feature_blocks
     (fst (SSD300 d (Some (fst (SSDMobileNetV2FeatureExtractor t n st0))) nc st))) = 5"
proof -
  have e1: "extractor_forward fw (e\<lparr>is_training := t, num_layers := n\<rparr>) x = extractor_forward fw e x"
    for e by (simp add: extractor_forward_def)
  have f1: "forward fw (m\<lparr>ssd_feature_extractor := e'\<lparr>is_training := t, num_layers := n\<rparr>\<rparr>) x =
     forward fw (m\<lparr>ssd_feature_extractor := e'\<rparr>) x" for m :: ssd300 and e'
    by (simp add: forward_def detection_feed_def bbox_view_def e1)
  have f0: "forward fw (m\<lparr>ssd_feature_extractor :=
                  (ssd_feature_extractor m)\<lparr>is_training := t, num_layers := n\<rparr>\<rparr>) x =
     forward fw m x"
    by (simp add: forward_def detection_feed_def bbox_view_def e1)
  have c1: "fst (SSDMobileNetV2FeatureExtractor t n st0) =
     (fst (SSDMobileNetV2FeatureExtractor t' n' st0))\<lparr>is_training := t, num_layers := n\<rparr>"
    by (simp add: SSDMobileNetV2FeatureExtractor_def split_beta)
  have c2: "snd (SSDMobileNetV2FeatureExtractor t n st0) = snd (SSDMobileNetV2FeatureExtractor t' n' st0)"
    by (simp add: SSDMobileNetV2FeatureExtractor_def split_beta)
  have s1: "fst (SSD300 d (Some (e\<lparr>is_training := t, num_layers := n\<rparr>)) nc st) =
     (fst (SSD300 d (Some e) nc st))
       \<lparr>ssd_feature_extractor := e\<lparr>is_training := t, num_layers := n\<rparr>\<rparr>" for e
    by (simp add: SSD300_def split_beta Let_def)
  have s2: "snd (SSD300 d (Some (e\<lparr>is_training := t, num_layers := n\<rparr>)) nc st) =
     snd (SSD300 d (Some e) nc st)" for e
    by (simp add: SSD300_def split_beta Let_def init_weights_def)
  have k: "ssd_feature_extractor (fst (SSD300 d (Some e) nc st)) = e" for e
    by (simp add: SSD300_fields)
  have f2: "forward fw (fst (SSD300 d (Some (fst (SSDMobileNetV2FeatureExtractor t n st0))) nc st)) x =
     forward fw (fst (SSD300 d (Some (fst (SSDMobileNetV2FeatureExtractor t' n' st0))) nc st)) x"
    apply (subst c1)
    apply (subst s1)
    apply (subst f1)
    apply (subst k [symmetric])
    apply simp
    done
  have oc: "out_channels (case Some (fst (SSDMobileNetV2FeatureExtractor t n st0)) of
              None \<Rightarrow> d | Some x \<Rightarrow> x) = [32, 512, 512, 256, 256, 256]"
    by (simp add: extractor_out_channels)
  have l: "length (loc (fst (SSD300 d (Some (fst (SSDMobileNetV2FeatureExtractor t n st0))) nc st))) = 6"
    "length (conf (fst (SSD300 d (Some (fst (SSDMobileNetV2FeatureExtractor t n st0))) nc st))) = 6"
    "length (feature_blocks
       (fst (SSD300 d (Some (fst (SSDMobileNetV2FeatureExtractor t n st0))) nc st))) = 5"
    unfolding heads_length feature_blocks_length oc by simp_all
  from e1 [of e] f0 c1 c2 s1 [of e] s2 [of e] f2 l
  show ?thesis by blast
qed


subsection \<open>What the initialisation writes\<close>

lemma fold_fold_concat:
  "fold (\<lambda>l st. fold f (g l) st) ls st = fold f (concat (map g ls)) st"
  by (induction ls arbitrary: st) simp_all

lemma init_weights_flat:
  "init_weights m st =
     fold (\<lambda>param st. if dim_param (st ! param) > 1 then inplace xavier_uniform param st else st)
       (concat (map parameters (feature_blocks m @ loc m @ conf m))) st"
  unfolding init_weights_def by (rule fold_fold_concat)

lemma dim_xavier [simp]: "dim_param (xavier_uniform p) = dim_param p"
  by (simp add: dim_param_def xavier_uniform_def)

lemma xavier_fold_length [simp]:
  "length (fold (\<lambda>param st. if dim_param (st ! param) > 1 then inplace xavier_uniform param st else st)
             xs st) = length st"
  by (induction xs arbitrary: st) (simp_all add: inplace_def)

lemma xavier_fold_frame:
  "a \<notin> set xs \<Longrightarrow>
   fold (\<lambda>param st. if dim_param (st ! param) > 1 then inplace xavier_uniform param st else st)
     xs st ! a = st ! a"
  by (induction xs arbitrary: st) (auto simp add: inplace_def)

lemma xavier_fold_dim:
  "dim_param (fold (\<lambda>param st. if dim_param (st ! param) > 1 then inplace xavier_uniform param st else st)
          xs st ! a) = dim_param (st ! a)"
proof (induction xs arbitrary: st)
  case Nil
  show ?case by simp
next
  case (Cons x xs)
  have "dim_param (inplace xavier_uniform x st ! a) = dim_param (st ! a)"
    by (cases "x < length st"; cases "x = a") (simp_all add: inplace_def list_update_beyond)
  with Cons.IH [of st] Cons.IH [of "inplace xavier_uniform x st"] show ?case by simp
qed

lemma xavier_fold_low_dim:
  "dim_param (st ! a) \<le> 1 \<Longrightarrow>
   fold (\<lambda>param st. if dim_param (st ! param) > 1 then inplace xavier_uniform param st else st)
     xs st ! a = st ! a"
proof (induction xs arbitrary: st)
  case Nil
  show ?case by simp
next
  case (Cons x xs)
  show ?case
  proof (cases "dim_param (st ! x) > 1")
    case True
    with Cons.prems have ne: "x \<noteq> a" by auto
    then have same: "inplace xavier_uniform x st ! a = st ! a" by (simp add: inplace_def)
    with Cons.prems have "dim_param (inplace xavier_uniform x st ! a) \<le> 1" by simp
    from Cons.IH [OF this] True same show ?thesis by simp
  next
    case False
    with Cons.IH [OF Cons.prems] show ?thesis by simp
  qed
qed

lemma xavier_fold_hit:
  assumes "distinct xs" "a \<in> set xs" "a < length st" "1 < dim_param (st ! a)"
  shows "fold (\<lambda>param st. if dim_param (st ! param) > 1 then inplace xavier_uniform param st else st)
     xs st ! a = xavier_uniform (st ! a)"
  using assms
proof (induction xs arbitrary: st)
  case Nil
  then show ?case by simp
next
  case (Cons x xs)
  show ?case
  proof (cases "x = a")
    case True
    with Cons.prems have "a \<notin> set xs" by simp
    from xavier_fold_frame [OF this] True Cons.prems show ?thesis
      by (simp add: inplace_def)
  next
    case False
    with Cons.prems have in_xs: "a \<in> set xs" and d: "distinct xs" by simp_all
    show ?thesis
    proof (cases "dim_param (st ! x) > 1")
      case True
      from False have same: "inplace xavier_uniform x st ! a = st ! a" by (simp add: inplace_def)
      have "fold (\<lambda>param st. if dim_param (st ! param) > 1 then inplace xavier_uniform param st else st)
              xs (inplace xavier_uniform x st) ! a = xavier_uniform (inplace xavier_uniform x st ! a)"
        using Cons.prems same by (intro Cons.IH [OF d in_xs]) (simp_all add: inplace_def)
      with True same show ?thesis by simp
    next
      case False
      with Cons.IH [OF d in_xs Cons.prems(3,4)] show ?thesis by simp
    qed
  qed
qed

lemma first_occurrences_distinct: "distinct xs \<Longrightarrow> first_occurrences xs = xs"
  by (simp add: first_occurrences_def distinct_remdups_id)

lemma set_parameters [simp]: "set (parameters l) = set (params_raw l)"
  by (simp add: parameters_def first_occurrences_def)

lemma params_list_append: "params_list (xs @ ys) = params_list xs @ params_list ys"
  by (induction xs) simp_all

lemma concat_parameters:
  "distinct (params_list ls) \<Longrightarrow> concat (map parameters ls) = params_list ls"
  by (induction ls) (simp_all add: parameters_def first_occurrences_distinct)

lemma upt6: "[n ..< n + 6] = [n, n + 1, n + 2, n + 3, n + 4, n + 5]"
  by (simp add: upt_conv_Cons)

lemma feature_loop_params:
  "params_list (fst (feature_loop xs st)) = [length st ..< length st + 6 * length xs]"
proof (induction xs arbitrary: st)
  case Nil
  show ?case by simp
next
  case (Cons x xs)
  obtain j a b c where x: "x = (j, a, b, c)" by (cases x) auto
  let ?st = "st @ [new_parameter [c, a, 1, 1], new_parameter [c], new_parameter [c],
                   new_parameter [b, c, 3, 3], new_parameter [b], new_parameter [b]]"
  have len: "length ?st = length st + 6" by simp
  have "[length st ..< length st + 6 * length (x # xs)] =
     [length st ..< length st + 6] @ [length st + 6 ..< length st + 6 + 6 * length xs]"
    using upt_add_eq_append [of "length st" "length st + 6" "6 * length xs"]
    by (simp add: add.assoc)
  then have u: "[length st ..< length st + 6 * length (x # xs)] =
     [length st, length st + 1, length st + 2, length st + 3, length st + 4, length st + 5] @
     [length st + 6 ..< length st + 6 + 6 * length xs]"
    unfolding upt6 .
  have "params_list (fst (feature_loop (x # xs) st)) =
     [length st, length st + 1, length st + 2, length st + 3, length st + 4, length st + 5] @
       params_list (fst (feature_loop xs ?st))"
    unfolding x feature_loop_Cons by simp
  then show ?case unfolding u Cons.IH [of ?st] len .
qed

lemma head_loop_params:
  "distinct (params_list (fst (fst (head_loop nc xs st))) @
             params_list (snd (fst (head_loop nc xs st)))) \<and>
   set (params_list (fst (fst (head_loop nc xs st))) @
        params_list (snd (fst (head_loop nc xs st)))) =
     {length st ..< length st + 4 * length xs}"
proof (induction xs arbitrary: st)
  case Nil
  show ?case by simp
next
  case (Cons x xs)
  obtain nd oc where x: "x = (nd, oc)" by (cases x) auto
  let ?st = "st @ [new_parameter [nd * 4, oc, 3, 3], new_parameter [nd * 4],
                    new_parameter [nd * nc, oc, 3, 3], new_parameter [nd * nc]]"
  let ?A = "params_list (fst (fst (head_loop nc xs ?st)))"
  let ?B = "params_list (snd (fst (head_loop nc xs ?st)))"
  have len: "length ?st = length st + 4" by simp
  note ih = Cons.IH [of ?st, unfolded len]
  from ih have s: "set ?A \<union> set ?B = {length st + 4 ..< length st + 4 + 4 * length xs}"
    by (simp only: set_append)
  from ih have d: "distinct ?A" "distinct ?B" "set ?A \<inter> set ?B = {}"
    by (simp_all only: distinct_append)
  from s have lo: "a \<in> set ?A \<Longrightarrow> length st + 4 \<le> a" "a \<in> set ?B \<Longrightarrow> length st + 4 \<le> a" for a
    by auto
  have un: "params_list (fst (fst (head_loop nc (x # xs) st))) =
              [length st, length st + 1] @ ?A"
    "params_list (snd (fst (head_loop nc (x # xs) st))) =
              [length st + 2, length st + 3] @ ?B"
    unfolding x head_loop_Cons by simp_all
  have dist: "distinct (params_list (fst (fst (head_loop nc (x # xs) st))) @
             params_list (snd (fst (head_loop nc (x # xs) st))))"
    unfolding un using d lo by fastforce
  have "set (params_list (fst (fst (head_loop nc (x # xs) st))) @
        params_list (snd (fst (head_loop nc (x # xs) st)))) =
     {length st, length st + 1, length st + 2, length st + 3} \<union> (set ?A \<union> set ?B)"
    unfolding un by auto
  also have "\<dots> = {length st ..< length st + 4 * length (x # xs)}"
    unfolding s by auto
  finally show ?case using dist by blast
qed

lemma SSD300_snd:
  "snd (SSD300 d b nc st) =
     init_weights (fst (SSD300 d b nc st))
       (snd (head_loop nc (zip [4, 6, 6, 6, 4, 4] (out_channels (case b of None \<Rightarrow> d | Some x \<Rightarrow> x)))
          (snd (build_feature_layers (out_channels (case b of None \<Rightarrow> d | Some x \<Rightarrow> x)) st))))"
  by (simp add: SSD300_def split_beta Let_def)

lemma new_parameter_fields [simp]:
  "pinit (new_parameter s) = DefaultInit" "pversion (new_parameter s) = 0"
  "pshape (new_parameter s) = s"
  by (simp_all add: new_parameter_def)

lemma SSD300_targets:
  "distinct (params_list (feature_blocks (fst (SSD300 d b nc st)) @ loc (fst (SSD300 d b nc st)) @
     conf (fst (SSD300 d b nc st)))) \<and>
   set (params_list (feature_blocks (fst (SSD300 d b nc st)) @ loc (fst (SSD300 d b nc st)) @
     conf (fst (SSD300 d b nc st)))) =
     {length st ..< length st + 6 * min (length (out_channels (case b of None \<Rightarrow> d | Some x \<Rightarrow> x)) - 1) 5
        + 4 * min 6 (length (out_channels (case b of None \<Rightarrow> d | Some x \<Rightarrow> x)))}"
proof -
  let ?oc = "out_channels (case b of None \<Rightarrow> d | Some x \<Rightarrow> x)"
  let ?xs = "enumerate 0 (zip (butlast ?oc) (zip (tl ?oc) [256, 256, 128, 128, 128::nat]))"
  let ?hs = "zip [4, 6, 6, 6, 4, 4::nat] ?oc"
  let ?st1 = "snd (feature_loop ?xs st)"
  let ?PL = "params_list (fst (fst (head_loop nc ?hs ?st1)))"
  let ?PC = "params_list (snd (fst (head_loop nc ?hs ?st1)))"
  have nb: "length ?xs = min (length ?oc - 1) 5" by simp
  have nh: "length ?hs = min 6 (length ?oc)" by simp
  have l1: "length ?st1 = length st + 6 * min (length ?oc - 1) 5"
    unfolding feature_loop_store_length nb ..
  have pb: "params_list (fst (feature_loop ?xs st)) =
     [length st ..< length st + 6 * min (length ?oc - 1) 5]"
    unfolding feature_loop_params nb ..
  note h = head_loop_params [of nc ?hs ?st1, unfolded l1 nh]
  from h have hd: "distinct (?PL @ ?PC)" by (rule conjunct1)
  from h have hs: "set (?PL @ ?PC) =
     {length st + 6 * min (length ?oc - 1) 5 ..<
      length st + 6 * min (length ?oc - 1) 5 + 4 * min 6 (length ?oc)}"
    by (rule conjunct2)
  have T: "params_list (feature_blocks (fst (SSD300 d b nc st)) @ loc (fst (SSD300 d b nc st)) @
     conf (fst (SSD300 d b nc st))) =
     [length st ..< length st + 6 * min (length ?oc - 1) 5] @ (?PL @ ?PC)"
    unfolding SSD300_fields build_feature_layers_def params_list_append pb by simp
  have d: "distinct ([length st ..< length st + 6 * min (length ?oc - 1) 5] @ (?PL @ ?PC))"
    unfolding distinct_append [of "[length st ..< length st + 6 * min (length ?oc - 1) 5]"]
    using hd hs by auto
  have s: "set ([length st ..< length st + 6 * min (length ?oc - 1) 5] @ (?PL @ ?PC)) =
     {length st ..< length st + 6 * min (length ?oc - 1) 5 + 4 * min 6 (length ?oc)}"
    unfolding set_append [of "[length st ..< length st + 6 * min (length ?oc - 1) 5]"] hs
    by auto
  from d s show ?thesis unfolding T by blast
qed

lemma SSD300_pre_store:
  "\<exists>news. snd (head_loop nc (zip [4, 6, 6, 6, 4, 4] (out_channels (case b of None \<Rightarrow> d | Some x \<Rightarrow> x)))
          (snd (build_feature_layers (out_channels (case b of None \<Rightarrow> d | Some x \<Rightarrow> x)) st))) = st @ news \<and>
      length news = 6 * min (length (out_channels (case b of None \<Rightarrow> d | Some x \<Rightarrow> x)) - 1) 5
        + 4 * min 6 (length (out_channels (case b of None \<Rightarrow> d | Some x \<Rightarrow> x))) \<and>
      (\<forall>p \<in> set news. pinit p = DefaultInit \<and> pversion p = 0)"
proof -
  let ?oc = "out_channels (case b of None \<Rightarrow> d | Some x \<Rightarrow> x)"
  let ?xs = "enumerate 0 (zip (butlast ?oc) (zip (tl ?oc) [256, 256, 128, 128, 128::nat]))"
  let ?hs = "zip [4, 6, 6, 6, 4, 4::nat] ?oc"
  let ?N1 = "concat (map (\<lambda>(j, a, b, c).
            [new_parameter [c, a, 1, 1], new_parameter [c], new_parameter [c],
             new_parameter [b, c, 3, 3], new_parameter [b], new_parameter [b]]) ?xs)"
  let ?N2 = "concat (map (\<lambda>(nd, oc).
            [new_parameter [nd * 4, oc, 3, 3], new_parameter [nd * 4],
             new_parameter [nd * nc, oc, 3, 3], new_parameter [nd * nc]]) ?hs)"
  have e: "snd (head_loop nc ?hs (snd (build_feature_layers ?oc st))) = st @ (?N1 @ ?N2)"
    unfolding build_feature_layers_def head_loop_store feature_loop_store by simp
  have "length (snd (head_loop nc ?hs (snd (build_feature_layers ?oc st)))) =
     length st + 6 * min (length ?oc - 1) 5 + 4 * min 6 (length ?oc)"
    unfolding build_feature_layers_def head_loop_store_length feature_loop_store_length by simp
  then have l: "length (?N1 @ ?N2) = 6 * min (length ?oc - 1) 5 + 4 * min 6 (length ?oc)"
    unfolding e by simp
  have p: "\<forall>p \<in> set (?N1 @ ?N2). pinit p = DefaultInit \<and> pversion p = 0"
    by auto
  from e l p show ?thesis by blast
qed

lemma tiny_SSD300_store:
  "snd (SSD300 \<lparr>is_training = False, num_layers = 6, feature_extractor = Sequential [Conv2d 3 8 3 1 1 1 0 None], out_channels = [8, 16]\<rparr> None 2
          [\<lparr>pshape = [8, 3, 3, 3], pinit = Pretrained, pversion = 1\<rparr>]) =
     [\<lparr>pshape = [8, 3, 3, 3], pinit = Pretrained, pversion = 1\<rparr>,
      \<lparr>pshape = [256, 8, 1, 1], pinit = XavierUniform, pversion = 1\<rparr>,
      \<lparr>pshape = [256], pinit = DefaultInit, pversion = 0\<rparr>,
      \<lparr>pshape = [256], pinit = DefaultInit, pversion = 0\<rparr>,
      \<lparr>pshape = [16, 256, 3, 3], pinit = XavierUniform, pversion = 1\<rparr>,
      \<lparr>pshape = [16], pinit = DefaultInit, pversion = 0\<rparr>,
      \<lparr>pshape = [16], pinit = DefaultInit, pversion = 0\<rparr>,
      \<lparr>pshape = [16, 8, 3, 3], pinit = XavierUniform, pversion = 1\<rparr>,
      \<lparr>pshape = [16], pinit = DefaultInit, pversion = 0\<rparr>,
      \<lparr>pshape = [8, 8, 3, 3], pinit = XavierUniform, pversion = 1\<rparr>,
      \<lparr>pshape = [8], pinit = DefaultInit, pversion = 0\<rparr>,
      \<lparr>pshape = [24, 16, 3, 3], pinit = XavierUniform, pversion = 1\<rparr>,
      \<lparr>pshape = [24], pinit = DefaultInit, pversion = 0\<rparr>,
      \<lparr>pshape = [12, 16, 3, 3], pinit = XavierUniform, pversion = 1\<rparr>,
      \<lparr>pshape = [12], pinit = DefaultInit, pversion = 0\<rparr>]"
  by (simp add: SSD300_def build_feature_layers_def enumerate_eq_zip strided_block_eq
      nn_Conv2d_eq init_weights_def parameters_def first_occurrences_def inplace_def dim_param_def
      new_parameter_def xavier_uniform_def)

text \<open>
  C9.  \<open>_init_weights\<close> changes a parameter only if it belongs to \<open>feature_blocks\<close>,
  \<open>loc\<close> or \<open>conf\<close> and has more than one dimension, and it changes no other entry of the
  store.  In the constructor, the layers it visits own exactly the parameters allocated by
  the constructor, so every parameter that existed before, the backbone's among them, is
  left as it was; of the new parameters, those with more than one dimension have been
  written once by Xavier-uniform initialisation, and the one-dimensional ones (convolution
  biases, batch-normalisation weights and biases) still hold their default initialisation.
\<close>

theorem SSD300_init_weights_frame:
  "(\<forall>a. init_weights m st ! a \<noteq> st ! a \<longrightarrow>
      a \<in> set (concat (map parameters (feature_blocks m @ loc m @ conf m))) \<and> 1 < dim_param (st ! a)) \<and>
   length (init_weights m st) = length st \<and>
   (\<forall>a<length pre. snd (SSD300 d b nc pre) ! a = pre ! a) \<and>
   (\<forall>a \<in> set (parameters (feature_extractor (ssd_feature_extractor (fst (SSD300 d b nc pre))))).
      a < length pre \<longrightarrow>
      a \<notin> set (concat (map parameters
        (feature_blocks (fst (SSD300 d b nc pre)) @ loc (fst (SSD300 d b nc pre)) @
         conf (fst (SSD300 d b nc pre))))) \<and>
      snd (SSD300 d b nc pre) ! a = pre ! a) \<and>
   (\<forall>a. length pre \<le> a \<and> a < length (snd (SSD300 d b nc pre)) \<longrightarrow>
      a \<in> set (concat (map parameters
        (feature_blocks (fst (SSD300 d b nc pre)) @ loc (fst (SSD300 d b nc pre)) @
         conf (fst (SSD300 d b nc pre))))) \<and>
      (if 1 < dim_param (snd (SSD300 d b nc pre) ! a)
       then pinit (snd (SSD300 d b nc pre) ! a) = XavierUniform \<and>
            pversion (snd (SSD300 d b nc pre) ! a) = 1
       else pinit (snd (SSD300 d b nc pre) ! a) = DefaultInit \<and>
            pversion (snd (SSD300 d b nc pre) ! a) = 0))"
proof -
  let ?M = "fst (SSD300 d b nc pre)"
  let ?S = "snd (SSD300 d b nc pre)"
  let ?step = "\<lambda>param st. if dim_param (st ! param) > 1 then inplace xavier_uniform param st else st"
  let ?T = "concat (map parameters (feature_blocks ?M @ loc ?M @ conf ?M))"
  let ?n = "6 * min (length (out_channels (case b of None \<Rightarrow> d | Some x \<Rightarrow> x)) - 1) 5 + 4 * min 6 (length (out_channels (case b of None \<Rightarrow> d | Some x \<Rightarrow> x)))"
  have g1: "\<forall>a. init_weights m st ! a \<noteq> st ! a \<longrightarrow>
      a \<in> set (concat (map parameters (feature_blocks m @ loc m @ conf m))) \<and> 1 < dim_param (st ! a)"
  proof (intro allI impI)
    fix a assume ne: "init_weights m st ! a \<noteq> st ! a"
    have "a \<in> set (concat (map parameters (feature_blocks m @ loc m @ conf m)))"
    proof (rule ccontr)
      assume "a \<notin> set (concat (map parameters (feature_blocks m @ loc m @ conf m)))"
      from xavier_fold_frame [OF this, of st]
      have "init_weights m st ! a = st ! a" unfolding init_weights_flat .
      with ne show False by contradiction
    qed
    moreover have "1 < dim_param (st ! a)"
    proof (rule ccontr)
      assume "\<not> 1 < dim_param (st ! a)"
      then have "dim_param (st ! a) \<le> 1" by simp
      from xavier_fold_low_dim [OF this,
          of "concat (map parameters (feature_blocks m @ loc m @ conf m))"]
      have "init_weights m st ! a = st ! a" unfolding init_weights_flat .
      with ne show False by contradiction
    qed
    ultimately show "a \<in> set (concat (map parameters (feature_blocks m @ loc m @ conf m))) \<and>
      1 < dim_param (st ! a)" ..
  qed
  have g2: "length (init_weights m st) = length st"
    unfolding init_weights_flat by (rule xavier_fold_length)
  from SSD300_pre_store [of nc d b pre] obtain news where
    pre: "snd (head_loop nc (zip [4, 6, 6, 6, 4, 4] (out_channels (case b of None \<Rightarrow> d | Some x \<Rightarrow> x)))
            (snd (build_feature_layers (out_channels (case b of None \<Rightarrow> d | Some x \<Rightarrow> x)) pre))) = pre @ news"
    and ln: "length news = ?n"
    and fresh: "\<forall>p \<in> set news. pinit p = DefaultInit \<and> pversion p = 0"
    by blast
  note tg = SSD300_targets [of d b nc pre]
  from tg have dT: "distinct (params_list (feature_blocks ?M @ loc ?M @ conf ?M))"
    by (rule conjunct1)
  have T: "?T = params_list (feature_blocks ?M @ loc ?M @ conf ?M)"
    by (rule concat_parameters [OF dT])
  from tg have sT: "set ?T = {length pre ..< length pre + ?n}"
    unfolding T by (simp add: add.assoc)
  from dT have dT': "distinct ?T" unfolding T .
  have S: "?S = fold ?step ?T (pre @ news)"
    unfolding SSD300_snd pre init_weights_flat ..
  have lenS: "length ?S = length pre + ?n"
    unfolding S xavier_fold_length using ln by simp
  have old: "?S ! a = pre ! a" if "a < length pre" for a
  proof -
    from that have "a \<notin> set ?T" unfolding sT by simp
    from xavier_fold_frame [OF this, of "pre @ news"] that show ?thesis
      unfolding S by (simp add: nth_append)
  qed
  have g3: "\<forall>a<length pre. ?S ! a = pre ! a" using old by blast
  have g4: "\<forall>a \<in> set (parameters (feature_extractor (ssd_feature_extractor ?M))).
      a < length pre \<longrightarrow> a \<notin> set ?T \<and> ?S ! a = pre ! a"
    using old unfolding sT by simp
  have g5: "\<forall>a. length pre \<le> a \<and> a < length ?S \<longrightarrow>
      a \<in> set ?T \<and>
      (if 1 < dim_param (?S ! a)
       then pinit (?S ! a) = XavierUniform \<and> pversion (?S ! a) = 1
       else pinit (?S ! a) = DefaultInit \<and> pversion (?S ! a) = 0)"
  proof (intro allI impI)
    fix a assume r: "length pre \<le> a \<and> a < length ?S"
    then have inT: "a \<in> set ?T" unfolding sT lenS by simp
    from r have al: "a < length (pre @ news)" unfolding lenS using ln by simp
    from r have "(pre @ news) ! a = news ! (a - length pre)" by (simp add: nth_append)
    moreover from r ln have "a - length pre < length news" unfolding lenS by arith
    ultimately have "(pre @ news) ! a \<in> set news" by simp
    with fresh have f: "pinit ((pre @ news) ! a) = DefaultInit" "pversion ((pre @ news) ! a) = 0"
      by simp_all
    have dm: "dim_param (?S ! a) = dim_param ((pre @ news) ! a)"
      unfolding S by (rule xavier_fold_dim)
    show "a \<in> set ?T \<and>
      (if 1 < dim_param (?S ! a)
       then pinit (?S ! a) = XavierUniform \<and> pversion (?S ! a) = 1
       else pinit (?S ! a) = DefaultInit \<and> pversion (?S ! a) = 0)"
    proof (cases "1 < dim_param (?S ! a)")
      case True
      then have "1 < dim_param ((pre @ news) ! a)" unfolding dm .
      from xavier_fold_hit [OF dT' inT al this]
      have "?S ! a = xavier_uniform ((pre @ news) ! a)" unfolding S .
      with True f inT show ?thesis by (simp add: xavier_uniform_def)
    next
      case False
      then have "dim_param ((pre @ news) ! a) \<le> 1" unfolding dm by simp
      from xavier_fold_low_dim [OF this, of ?T]
      have "?S ! a = (pre @ news) ! a" unfolding S .
      with False f inT show ?thesis by simp
    qed
  qed
  from g1 g2 g3 g4 g5 show ?thesis by blast
qed


theorem SSD300_init_weights_frame_witness:
  "0 \<in> set (parameters (feature_extractor (ssd_feature_extractor
      (fst (SSD300 \<lparr>is_training = False, num_layers = 6, feature_extractor = Sequential [Conv2d 3 8 3 1 1 1 0 None], out_channels = [8, 16]\<rparr> None 2
              [\<lparr>pshape = [8, 3, 3, 3], pinit = Pretrained, pversion = 1\<rparr>]))))) \<and>
   0 < length [\<lparr>pshape = [8, 3, 3, 3], pinit = Pretrained, pversion = 1\<rparr>] \<and>
   snd (SSD300 \<lparr>is_training = False, num_layers = 6, feature_extractor = Sequential [Conv2d 3 8 3 1 1 1 0 None], out_channels = [8, 16]\<rparr> None 2
          [\<lparr>pshape = [8, 3, 3, 3], pinit = Pretrained, pversion = 1\<rparr>]) ! 0 =
     [\<lparr>pshape = [8, 3, 3, 3], pinit = Pretrained, pversion = 1\<rparr>] ! 0 \<and>
   1 < length (snd (SSD300 \<lparr>is_training = False, num_layers = 6, feature_extractor = Sequential [Conv2d 3 8 3 1 1 1 0 None], out_channels = [8, 16]\<rparr> None 2
                      [\<lparr>pshape = [8, 3, 3, 3], pinit = Pretrained, pversion = 1\<rparr>])) \<and>
   pinit (snd (SSD300 \<lparr>is_training = False, num_layers = 6, feature_extractor = Sequential [Conv2d 3 8 3 1 1 1 0 None], out_channels = [8, 16]\<rparr> None 2
                 [\<lparr>pshape = [8, 3, 3, 3], pinit = Pretrained, pversion = 1\<rparr>]) ! 1) = XavierUniform \<and>
   pinit (snd (SSD300 \<lparr>is_training = False, num_layers = 6, feature_extractor = Sequential [Conv2d 3 8 3 1 1 1 0 None], out_channels = [8, 16]\<rparr> None 2
                 [\<lparr>pshape = [8, 3, 3, 3], pinit = Pretrained, pversion = 1\<rparr>]) ! 2) = DefaultInit"
proof -
  let ?E = "\<lparr>is_training = False, num_layers = 6, feature_extractor = Sequential [Conv2d 3 8 3 1 1 1 0 None], out_channels = [8, 16]\<rparr>"
  let ?old = "[\<lparr>pshape = [8, 3, 3, 3], pinit = Pretrained, pversion = 1\<rparr>]"
  let ?new = "snd (SSD300 ?E None 2 ?old)"
  let ?M = "fst (SSD300 ?E None 2 ?old)"
  note t = SSD300_init_weights_frame [where d = ?E and b = None and nc = 2 and pre = ?old]
  have p: "0 \<in> set (parameters (feature_extractor (ssd_feature_extractor ?M)))"
    by (simp add: SSD300_fields)
  from t have "\<forall>a \<in> set (parameters (feature_extractor (ssd_feature_extractor ?M))).
      a < length ?old \<longrightarrow> ?new ! a = ?old ! a"
    by blast
  with p have u: "?new ! 0 = ?old ! 0" by simp
  from t have g: "\<forall>a. length ?old \<le> a \<and> a < length ?new \<longrightarrow>
      (if 1 < dim_param (?new ! a)
       then pinit (?new ! a) = XavierUniform \<and> pversion (?new ! a) = 1
       else pinit (?new ! a) = DefaultInit \<and> pversion (?new ! a) = 0)"
    by blast
  have l: "length ?new = 15" unfolding tiny_SSD300_store by simp
  have d1: "1 < dim_param (?new ! 1)" unfolding tiny_SSD300_store by (simp add: dim_param_def)
  have d2: "\<not> 1 < dim_param (?new ! 2)" unfolding tiny_SSD300_store by (simp add: dim_param_def)
  from g [rule_format, of 1] g [rule_format, of 2] l d1 d2 p u show ?thesis by simp
qed

subsection \<open>The default backbone\<close>

lemma ConvBNReLU_len: "length (snd (ConvBNReLU ci co k s g st)) = length st + 3"
  by (simp add: ConvBNReLU_def nn_Conv2d_eq nn_BatchNorm2d_eq)

lemma IR_len:
  "length (snd (new_InvertedResidual inp oup s t st)) = length st + (if t = 1 then 6 else 9)"
  by (simp add: new_InvertedResidual_def nn_Conv2d_eq nn_BatchNorm2d_eq split_beta
      ConvBNReLU_len Let_def)

lemma ConvBNReLU_params:
  "params_raw (fst (ConvBNReLU ci co k s g st)) = [length st, length st + 1, length st + 2]"
  by (simp add: ConvBNReLU_fst)

lemma IR_params:
  "params_raw (fst (new_InvertedResidual inp oup s t st)) =
     [length st ..< length st + (if t = 1 then 6 else 9)]"
  by (simp add: IR_fst ConvBNReLU_fst ConvBNReLU_len upt_conv_Cons)

lemma stage_len:
  "length (snd (stage inp oup t s n st)) = length st + n * (if t = 1 then 6 else 9)"
  by (induction n arbitrary: inp s st) (simp_all add: split_beta IR_len)

lemma stage_params:
  "params_list (fst (stage inp oup t s n st)) =
     [length st ..< length st + n * (if t = 1 then 6 else 9)]"
proof (induction n arbitrary: inp s st)
  case 0
  show ?case by simp
next
  case (Suc n)
  let ?k = "if t = 1 then 6 else 9 :: nat"
  have "[length st ..< length st + Suc n * ?k] =
     [length st ..< length st + ?k] @ [length st + ?k ..< length st + ?k + n * ?k]"
    using upt_add_eq_append [of "length st" "length st + ?k" "n * ?k"]
    by (simp add: add.assoc)
  then show ?case
    by (simp add: split_beta IR_params IR_len Suc.IH)
qed

lemma stage_length: "length (fst (stage inp oup t s n st)) = n"
  by (induction n arbitrary: inp s st) (simp_all add: split_beta)

lemma extractor_params:
  "params_raw (feature_extractor (fst (SSDMobileNetV2FeatureExtractor t n st))) =
     [length st ..< length st + 54]"
  by (simp add: SSDMobileNetV2FeatureExtractor_def mobilenet_v2_def split_beta Let_def
      inverted_residual_setting_def stage_length params_list_append ConvBNReLU_params
      ConvBNReLU_len stage_params stage_len IR_params IR_len upt_conv_Cons)

lemma stages_len_setting:
  "length (snd (stages 32 inverted_residual_setting st)) = length st + 150"
  by (simp add: inverted_residual_setting_def split_beta stage_len IR_len)

lemma inplace_fold_length [simp]: "length (fold (inplace f) xs st) = length st"
  by (induction xs arbitrary: st) (simp_all add: inplace_def)

lemma extractor_store_length:
  "length (snd (SSDMobileNetV2FeatureExtractor t n st)) = length st + 156"
  by (simp add: SSDMobileNetV2FeatureExtractor_def mobilenet_v2_def split_beta Let_def
      load_state_dict_def ConvBNReLU_len stages_len_setting)


lemma mobilenet_params:
  "params_list (fst (mobilenet_v2 p st)) = [length st ..< length st + 156]"
  by (simp add: mobilenet_v2_def split_beta Let_def
      inverted_residual_setting_def params_list_append ConvBNReLU_params
      ConvBNReLU_len stage_params stage_len IR_params IR_len upt_conv_Cons)

lemma inplace_fold_frame:
  "a \<notin> set xs \<Longrightarrow> fold (inplace f) xs st ! a = st ! a"
  by (induction xs arbitrary: st) (auto simp add: inplace_def)

lemma inplace_fold_hit:
  assumes "distinct xs" "a \<in> set xs" "a < length st"
  shows "fold (inplace f) xs st ! a = f (st ! a)"
  using assms
proof (induction xs arbitrary: st)
  case Nil
  then show ?case by simp
next
  case (Cons x xs)
  show ?case
  proof (cases "x = a")
    case True
    with Cons.prems have n: "a \<notin> set xs" by simp
    have "fold (inplace f) (x # xs) st ! a = fold (inplace f) xs (inplace f a st) ! a"
      unfolding True by simp
    also have "\<dots> = inplace f a st ! a"
      using n by (rule inplace_fold_frame)
    also have "\<dots> = f (st ! a)"
      using Cons.prems(3) by (simp add: inplace_def)
    finally show ?thesis .
  next
    case False
    with Cons.prems have p: "distinct xs" "a \<in> set xs" "a < length (inplace f x st)"
      by (simp_all add: inplace_def)
    have "fold (inplace f) (x # xs) st ! a = fold (inplace f) xs (inplace f x st) ! a"
      by simp
    also have "\<dots> = f (inplace f x st ! a)"
      by (rule Cons.IH [OF p])
    also have "\<dots> = f (st ! a)"
      using False by (simp add: inplace_def)
    finally show ?thesis .
  qed
qed

lemma extractor_pretrained:
  assumes "length st \<le> a" "a < length st + 156"
  shows "pinit (snd (SSDMobileNetV2FeatureExtractor t n st) ! a) = Pretrained"
proof -
  let ?fs = "fst (mobilenet_v2 True st)"
  let ?st3 = "snd (ConvBNReLU 320 1280 1 1 1
     (snd (stages 32 inverted_residual_setting (snd (ConvBNReLU 3 32 3 2 1 st)))))"
  have d: "distinct (params_raw (Sequential ?fs))" by (simp add: mobilenet_params)
  have ps: "parameters (Sequential ?fs) = [length st ..< length st + 156]"
    unfolding parameters_def first_occurrences_distinct [OF d] by (simp add: mobilenet_params)
  have l3: "length ?st3 = length st + 156"
    by (simp add: ConvBNReLU_len stages_len_setting)
  have e: "snd (SSDMobileNetV2FeatureExtractor t n st) =
     fold (inplace load_pretrained) [length st ..< length st + 156] ?st3"
    unfolding ps [symmetric]
    by (simp add: SSDMobileNetV2FeatureExtractor_def mobilenet_v2_def split_beta Let_def
        load_state_dict_def)
  from assms have "a \<in> set [length st ..< length st + 156]" "a < length ?st3"
    unfolding l3 by simp_all
  from inplace_fold_hit [OF distinct_upt this, of load_pretrained]
  show ?thesis unfolding e by (simp add: load_pretrained_def)
qed

lemma xavier_changes: "xavier_uniform p \<noteq> p"
proof
  assume "xavier_uniform p = p"
  then have "pversion (xavier_uniform p) = pversion p" by simp
  then show False by (simp add: xavier_uniform_def)
qed

lemma state_dict_inplace:
  assumes "a < length st"
  shows "state_dict l (inplace f a st) =
     map (\<lambda>b. if b = a then f (st ! a) else st ! b) (parameters l)"
  using assms by (auto simp add: state_dict_def inplace_def nth_list_update)
lemma default_backbone_parameters:
  "parameters (feature_extractor (fst (SSD300_class st0))) = [length st0 ..< length st0 + 54]"
proof -
  have d: "distinct (params_raw (feature_extractor (fst (SSD300_class st0))))"
    unfolding SSD300_class_def extractor_params by simp
  show ?thesis
    unfolding parameters_def first_occurrences_distinct [OF d]
    unfolding SSD300_class_def by (rule extractor_params)
qed

text \<open>
  C10.  The default value of \<open>backbone\<close> is the one extractor that the class statement
  creates.  Every \<open>SSD300\<close> constructed without a backbone holds that same extractor,
  whatever the store is when it is constructed: two such models have the same backbone
  parameter tensors (the 54 pretrained tensors allocated by the class statement), so an
  in-place write to one of them through the first model is what the second model reads,
  and it changes the second model's view of its backbone whenever it changes the tensor.
  The layers the constructor creates itself are not shared between two models
  constructed one after the other.
\<close>

theorem SSD300_default_backbone_shared:
  "ssd_feature_extractor (fst (SSD300 (fst (SSD300_class cls)) None na sa)) = (fst (SSD300_class cls)) \<and>
   ssd_feature_extractor (fst (SSD300 (fst (SSD300_class cls)) None nb sb)) = (fst (SSD300_class cls)) \<and>
   parameters (feature_extractor (ssd_feature_extractor (fst (SSD300 (fst (SSD300_class cls)) None na sa)))) =
     parameters (feature_extractor (ssd_feature_extractor (fst (SSD300 (fst (SSD300_class cls)) None nb sb)))) \<and>
   set (parameters (feature_extractor (ssd_feature_extractor (fst (SSD300 (fst (SSD300_class cls)) None na sa))))) =
     {length cls ..< length cls + 54} \<and>
   (\<forall>a \<in> set (parameters
        (feature_extractor (ssd_feature_extractor (fst (SSD300 (fst (SSD300_class cls)) None na sa))))).
      a < length (snd (SSD300_class cls)) \<and> pinit (snd (SSD300_class cls) ! a) = Pretrained) \<and>
   (\<forall>a \<in> set (parameters
        (feature_extractor (ssd_feature_extractor (fst (SSD300 (fst (SSD300_class cls)) None na sa))))).
      \<forall>st f. a < length st \<longrightarrow>
        state_dict (feature_extractor (ssd_feature_extractor (fst (SSD300 (fst (SSD300_class cls)) None nb sb))))
          (inplace f a st) =
        map (\<lambda>b. if b = a then f (st ! a) else st ! b)
          (parameters
            (feature_extractor (ssd_feature_extractor (fst (SSD300 (fst (SSD300_class cls)) None nb sb))))) \<and>
        (f (st ! a) \<noteq> st ! a \<longrightarrow>
           state_dict (feature_extractor (ssd_feature_extractor (fst (SSD300 (fst (SSD300_class cls)) None nb sb))))
             (inplace f a st) \<noteq>
           state_dict (feature_extractor (ssd_feature_extractor (fst (SSD300 (fst (SSD300_class cls)) None nb sb))))
             st)) \<and>
   set (params_list (feature_blocks (fst (SSD300 (fst (SSD300_class cls)) None na sa)) @
          loc (fst (SSD300 (fst (SSD300_class cls)) None na sa)) @ conf (fst (SSD300 (fst (SSD300_class cls)) None na sa)))) \<inter>
   set (params_list
          (feature_blocks (fst (SSD300 (fst (SSD300_class cls)) None nb (snd (SSD300 (fst (SSD300_class cls)) None na sa)))) @
           loc (fst (SSD300 (fst (SSD300_class cls)) None nb (snd (SSD300 (fst (SSD300_class cls)) None na sa)))) @
           conf (fst (SSD300 (fst (SSD300_class cls)) None nb (snd (SSD300 (fst (SSD300_class cls)) None na sa)))))) = {}"
proof -
  let ?d = "(fst (SSD300_class cls))"
  let ?m1 = "fst (SSD300 ?d None na sa)"
  let ?m2 = "fst (SSD300 ?d None nb sb)"
  let ?fe = "feature_extractor ?d"
  have e1: "ssd_feature_extractor ?m1 = ?d" and e2: "ssd_feature_extractor ?m2 = ?d"
    by (simp_all add: SSD300_fields)
  have ps: "parameters ?fe = [length cls ..< length cls + 54]"
    by (rule default_backbone_parameters)
  have g4: "set (parameters ?fe) = {length cls ..< length cls + 54}"
    unfolding ps by simp
  have g5: "\<forall>a \<in> set (parameters ?fe).
      a < length (snd (SSD300_class cls)) \<and> pinit (snd (SSD300_class cls) ! a) = Pretrained"
  proof
    fix a assume "a \<in> set (parameters ?fe)"
    then have r: "length cls \<le> a" "a < length cls + 156" unfolding g4 by simp_all
    from extractor_pretrained [OF r] r(2)
    show "a < length (snd (SSD300_class cls)) \<and> pinit (snd (SSD300_class cls) ! a) = Pretrained"
      unfolding SSD300_class_def extractor_store_length by simp
  qed
  have g6: "\<forall>a \<in> set (parameters ?fe). \<forall>st f. a < length st \<longrightarrow>
        state_dict ?fe (inplace f a st) =
          map (\<lambda>b. if b = a then f (st ! a) else st ! b) (parameters ?fe) \<and>
        (f (st ! a) \<noteq> st ! a \<longrightarrow> state_dict ?fe (inplace f a st) \<noteq> state_dict ?fe st)"
  proof (intro ballI allI impI conjI)
    fix a :: nat and st :: store and f :: "parameter \<Rightarrow> parameter"
    assume a: "a \<in> set (parameters ?fe)" and l: "a < length st"
    show sd: "state_dict ?fe (inplace f a st) =
          map (\<lambda>b. if b = a then f (st ! a) else st ! b) (parameters ?fe)"
      by (rule state_dict_inplace [OF l])
    assume ne: "f (st ! a) \<noteq> st ! a"
    show "state_dict ?fe (inplace f a st) \<noteq> state_dict ?fe st"
    proof
      assume "state_dict ?fe (inplace f a st) = state_dict ?fe st"
      then have "map (\<lambda>b. if b = a then f (st ! a) else st ! b) (parameters ?fe) =
                 map (\<lambda>b. st ! b) (parameters ?fe)"
        unfolding sd by (simp add: state_dict_def)
      then have "\<forall>b \<in> set (parameters ?fe). (if b = a then f (st ! a) else st ! b) = st ! b"
        unfolding map_eq_conv .
      with a have "f (st ! a) = st ! a" by auto
      with ne show False by contradiction
    qed
  qed
  let ?s1 = "snd (SSD300 ?d None na sa)"
  let ?m2' = "fst (SSD300 ?d None nb ?s1)"
  let ?n = "6 * min (length (out_channels (case None of None \<Rightarrow> ?d | Some x \<Rightarrow> x)) - 1) 5
        + 4 * min 6 (length (out_channels (case None of None \<Rightarrow> ?d | Some x \<Rightarrow> x)))"
  from SSD300_targets [of ?d None na sa]
  have t1: "set (params_list (feature_blocks ?m1 @ loc ?m1 @ conf ?m1)) =
     {length sa ..< length sa + ?n}"
    by (simp add: add.assoc)
  from SSD300_targets [of ?d None nb ?s1]
  have t2: "set (params_list (feature_blocks ?m2' @ loc ?m2' @ conf ?m2')) =
     {length ?s1 ..< length ?s1 + ?n}"
    by (simp add: add.assoc)
  from SSD300_pre_store [of na ?d None sa]
  have l1: "length ?s1 = length sa + ?n"
    unfolding SSD300_snd init_weights_flat xavier_fold_length by auto
  have g7: "set (params_list (feature_blocks ?m1 @ loc ?m1 @ conf ?m1)) \<inter>
     set (params_list (feature_blocks ?m2' @ loc ?m2' @ conf ?m2')) = {}"
    unfolding t1 t2 l1 by auto
  from g4 g5 g6 g7 show ?thesis unfolding e1 e2 by blast
qed

theorem SSD300_default_backbone_shared_witness:
  "0 \<in> set (parameters (feature_extractor (ssd_feature_extractor
      (fst (SSD300 (fst (SSD300_class [])) None 81 (snd (SSD300_class []))))))) \<and>
   0 < length (snd (SSD300_class [])) \<and>
   pinit (snd (SSD300_class []) ! 0) = Pretrained \<and>
   xavier_uniform (snd (SSD300_class []) ! 0) \<noteq> snd (SSD300_class []) ! 0 \<and>
   state_dict (feature_extractor (ssd_feature_extractor
       (fst (SSD300 (fst (SSD300_class [])) None 21
          (snd (SSD300 (fst (SSD300_class [])) None 81 (snd (SSD300_class []))))))))
     (inplace xavier_uniform 0 (snd (SSD300_class []))) \<noteq>
   state_dict (feature_extractor (ssd_feature_extractor
       (fst (SSD300 (fst (SSD300_class [])) None 21
          (snd (SSD300 (fst (SSD300_class [])) None 81 (snd (SSD300_class []))))))))
     (snd (SSD300_class []))"
proof -
  let ?old = "snd (SSD300_class [])"
  let ?d = "fst (SSD300_class [])"
  let ?m1 = "fst (SSD300 ?d None 81 ?old)"
  let ?m2 = "fst (SSD300 ?d None 21 (snd (SSD300 ?d None 81 ?old)))"
  note t = SSD300_default_backbone_shared [where cls = "[]" and na = 81 and nb = 21
      and sa = ?old and sb = "snd (SSD300 ?d None 81 ?old)"]
  from t have "set (parameters (feature_extractor (ssd_feature_extractor ?m1))) =
     {length ([] :: store) ..< length ([] :: store) + 54}"
    by blast
  then have m: "0 \<in> set (parameters (feature_extractor (ssd_feature_extractor ?m1)))"
    by simp
  from t have "\<forall>a \<in> set (parameters (feature_extractor (ssd_feature_extractor ?m1))).
      a < length ?old \<and> pinit (?old ! a) = Pretrained"
    by blast
  with m have p: "0 < length ?old" "pinit (?old ! 0) = Pretrained" by blast+
  from t have "\<forall>a \<in> set (parameters (feature_extractor (ssd_feature_extractor ?m1))).
      \<forall>st f. a < length st \<longrightarrow>
        (f (st ! a) \<noteq> st ! a \<longrightarrow>
           state_dict (feature_extractor (ssd_feature_extractor ?m2)) (inplace f a st) \<noteq>
           state_dict (feature_extractor (ssd_feature_extractor ?m2)) st)"
    by blast
  with m have "\<forall>st f. 0 < length st \<longrightarrow>
        (f (st ! 0) \<noteq> st ! 0 \<longrightarrow>
           state_dict (feature_extractor (ssd_feature_extractor ?m2)) (inplace f 0 st) \<noteq>
           state_dict (feature_extractor (ssd_feature_extractor ?m2)) st)"
    by blast
  from this [rule_format, of ?old xavier_uniform, OF p(1) xavier_changes] m p xavier_changes
  show ?thesis by blast
qed

subsection \<open>Channel counts along the forward pass\<close>

lemma mc_conv: "maps_channels (Conv2d ci co k s p g w b) ci co"
  by (simp add: maps_channels_def)

lemma mc_bn: "maps_channels (BatchNorm2d c t w b) c c"
  by (simp add: maps_channels_def)

lemma mc_relu: "maps_channels ReLU c c"
  by (simp add: maps_channels_def)

lemma mc_relu6: "maps_channels ReLU6 c c"
  by (simp add: maps_channels_def)

lemma mc_seq_nil: "maps_channels (Sequential []) c c"
  by (simp add: maps_channels_def)

lemma mc_seq_cons:
  assumes "maps_channels l a b" "maps_channels (Sequential ls) b c"
  shows "maps_channels (Sequential (l # ls)) a c"
  unfolding maps_channels_def
proof (intro allI conjI impI)
  fix n h w
  show "layer_shape (Sequential (l # ls)) [n, a, h, w] \<noteq> Inl ChannelMismatch"
  proof (cases "layer_shape l [n, a, h, w]")
    case (Inl e)
    with assms(1) have "e \<noteq> ChannelMismatch" unfolding maps_channels_def by auto
    with Inl show ?thesis by simp
  next
    case (Inr y)
    with assms(1) obtain h' w' where y: "y = [n, b, h', w']"
      unfolding maps_channels_def by blast
    from assms(2) have "layer_shape (Sequential ls) [n, b, h', w'] \<noteq> Inl ChannelMismatch"
      unfolding maps_channels_def by blast
    with Inr y show ?thesis by simp
  qed
next
  fix n h w y
  assume r: "layer_shape (Sequential (l # ls)) [n, a, h, w] = Inr y"
  then obtain z where z: "layer_shape l [n, a, h, w] = Inr z" and s: "seq_shape ls z = Inr y"
    by (auto simp add: ebind_Inr_iff)
  from z assms(1) obtain h' w' where z': "z = [n, b, h', w']"
    unfolding maps_channels_def by blast
  from s assms(2) show "\<exists>h' w'. y = [n, c, h', w']"
    unfolding maps_channels_def z' by simp
qed

lemma mc_ir_plain:
  "maps_channels l a b \<Longrightarrow> maps_channels (InvertedResidual False l) a b"
  by (simp add: maps_channels_def)

lemma mc_ir_res:
  assumes "maps_channels l a b"
  shows "maps_channels (InvertedResidual True l) a a"
  unfolding maps_channels_def
proof (intro allI conjI impI)
  fix n h w
  show "layer_shape (InvertedResidual True l) [n, a, h, w] \<noteq> Inl ChannelMismatch"
  proof (cases "layer_shape l [n, a, h, w]")
    case (Inl e)
    with assms have "e \<noteq> ChannelMismatch" unfolding maps_channels_def by auto
    with Inl show ?thesis by simp
  next
    case (Inr y)
    then show ?thesis by simp
  qed
next
  fix n h w y
  assume "layer_shape (InvertedResidual True l) [n, a, h, w] = Inr y"
  then have "y = [n, a, h, w]"
    by (auto simp add: ebind_Inr_iff split: if_splits)
  then show "\<exists>h' w'. y = [n, a, h', w']" by blast
qed

lemmas mc_rules = mc_seq_cons mc_seq_nil mc_conv mc_bn mc_relu mc_relu6 mc_ir_plain mc_ir_res

lemma extractor_channels:
  "maps_channels (feature_extractor (fst (SSDMobileNetV2FeatureExtractor t n st))) 3 32"
  apply (simp add: SSDMobileNetV2FeatureExtractor_def mobilenet_v2_def split_beta Let_def irs_Suc
     IR_fst ConvBNReLU_fst)
  apply (rule mc_rules)+
  done

lemma block_channels:
  "maps_channels
     (Sequential [Conv2d a c 1 1 0 1 w1 None, BatchNorm2d c True w2 w3, ReLU,
                  Conv2d c b 3 s p 1 w4 None, BatchNorm2d b True w5 w6, ReLU]) a b"
  by (rule mc_rules)+

lemma emap_not_Inl:
  "(\<And>x. x \<in> set xs \<Longrightarrow> f x \<noteq> Inl e) \<Longrightarrow> emap f xs \<noteq> Inl e"
proof (induction xs)
  case Nil
  show ?case by simp
next
  case (Cons x xs)
  from Cons.prems have hd: "f x \<noteq> Inl e" by simp
  from Cons.prems have "emap f xs \<noteq> Inl e" by (intro Cons.IH) simp
  with hd show ?case
    by (cases "f x"; cases "emap f xs") simp_all
qed

lemma view_shape_cases: "view_shape x a b = Inl ViewError \<or> (\<exists>y. view_shape x a b = Inr y)"
  by (simp add: view_shape_def)

lemma cat_shape_cases: "cat_shape xs k = Inl CatError \<or> (\<exists>y. cat_shape xs k = Inr y)"
  by (simp add: cat_shape_def split: list.splits)

lemma bbox_item_no_mismatch:
  assumes "maps_channels l ci a" "maps_channels c ci b"
  shows "bbox_item shapes nc ([n, ci, h, w], l, c) \<noteq> Inl ChannelMismatch"
proof -
  from assms(1) have l: "layer_shape l [n, ci, h, w] \<noteq> Inl ChannelMismatch"
    unfolding maps_channels_def by blast
  from assms(2) have c: "layer_shape c [n, ci, h, w] \<noteq> Inl ChannelMismatch"
    unfolding maps_channels_def by blast
  show ?thesis
  proof (cases "layer_shape l [n, ci, h, w]")
    case (Inl e)
    with l show ?thesis by (simp add: bbox_item_def)
  next
    case lr: (Inr ly)
    show ?thesis
    proof (cases "layer_shape c [n, ci, h, w]")
      case (Inl e)
      with c lr view_shape_cases [of ly n 4] show ?thesis
        by (auto simp add: bbox_item_def shape_first_def)
    next
      case (Inr cy)
      with lr view_shape_cases [of ly n 4] view_shape_cases [of cy n nc] show ?thesis
        by (auto simp add: bbox_item_def shape_first_def)
    qed
  qed
qed

lemma bbox_view_no_mismatch:
  assumes "\<And>x. x \<in> set (zip src (zip ls cs)) \<Longrightarrow>
             bbox_item shapes (num_classes m) x \<noteq> Inl ChannelMismatch"
  shows "bbox_view shapes m src ls cs \<noteq> Inl ChannelMismatch"
proof (cases "emap (bbox_item shapes (num_classes m)) (zip src (zip ls cs))")
  case (Inl e)
  with emap_not_Inl [of "zip src (zip ls cs)" "bbox_item shapes (num_classes m)" ChannelMismatch]
    assms
  have "e \<noteq> ChannelMismatch" by auto
  with Inl show ?thesis by (simp add: bbox_view_def)
next
  case (Inr ret)
  with cat_shape_cases [of "map fst ret" 2] cat_shape_cases [of "map snd ret" 2]
  show ?thesis by (auto simp add: bbox_view_def)
qed


lemma feed_loop_channels:
  assumes "length ls < length cs"
    and "\<And>i. i < length ls \<Longrightarrow> maps_channels (ls ! i) (cs ! i) (cs ! Suc i)"
  shows "feed_loop shapes ls [n, cs ! 0, h, w] \<noteq> Inl ChannelMismatch \<and>
     (\<forall>ys. feed_loop shapes ls [n, cs ! 0, h, w] = Inr ys \<longrightarrow>
        length ys = length ls \<and> (\<forall>i<length ls. \<exists>h' w'. ys ! i = [n, cs ! Suc i, h', w']))"
  using assms
proof (induction ls arbitrary: cs h w)
  case Nil
  show ?case by simp
next
  case (Cons l ls)
  from Cons.prems(1) obtain c0 cs' where cs: "cs = c0 # cs'" by (cases cs) auto
  from Cons.prems(1) have len: "length ls < length cs'" unfolding cs by simp
  from Cons.prems(2) [of 0] have l: "maps_channels l c0 (cs' ! 0)" unfolding cs by simp
  have rest: "maps_channels (ls ! i) (cs' ! i) (cs' ! Suc i)" if "i < length ls" for i
    using Cons.prems(2) [of "Suc i"] that unfolding cs by simp
  note ih = Cons.IH [OF len rest]
  show ?case
  proof (cases "layer_shape l [n, c0, h, w]")
    case (Inl e)
    with l have "e \<noteq> ChannelMismatch" unfolding maps_channels_def by auto
    with Inl show ?thesis unfolding cs by simp
  next
    case (Inr y)
    with l obtain h' w' where y: "y = [n, cs' ! 0, h', w']"
      unfolding maps_channels_def by blast
    note ih' = ih [of h' w']
    show ?thesis
    proof (cases "feed_loop shapes ls [n, cs' ! 0, h', w']")
      case (Inl e)
      with ih' have "e \<noteq> ChannelMismatch" by auto
      with Inl Inr y show ?thesis unfolding cs by simp
    next
      case r: (Inr ys)
      with ih' have ly: "length ys = length ls"
        and ny: "\<forall>i<length ls. \<exists>h' w'. ys ! i = [n, cs' ! Suc i, h', w']"
        by blast+
      have "\<exists>h'' w''. (y # ys) ! i = [n, cs ! Suc i, h'', w'']" if "i < length (l # ls)" for i
      proof (cases i)
        case 0
        then show ?thesis unfolding cs y by simp
      next
        case (Suc j)
        with that have "j < length ls" by simp
        with ny Suc show ?thesis unfolding cs by simp
      qed
      with r Inr y ly show ?thesis unfolding cs by simp
    qed
  qed
qed

lemma forward_no_mismatch:
  assumes fe: "maps_channels (feature_extractor (ssd_feature_extractor m)) ci (cs ! 0)"
    and len: "length (feature_blocks m) < length cs"
    and blocks: "\<And>i. i < length (feature_blocks m) \<Longrightarrow>
                   maps_channels (feature_blocks m ! i) (cs ! i) (cs ! Suc i)"
    and locs: "\<And>i. i < length (loc m) \<Longrightarrow> \<exists>co. maps_channels (loc m ! i) (cs ! i) co"
    and confs: "\<And>i. i < length (conf m) \<Longrightarrow> \<exists>co. maps_channels (conf m ! i) (cs ! i) co"
  shows "forward shapes m [N, ci, H, W] \<noteq> Inl ChannelMismatch"
proof (cases "layer_shape (feature_extractor (ssd_feature_extractor m)) [N, ci, H, W]")
  case (Inl e)
  with fe have "e \<noteq> ChannelMismatch" unfolding maps_channels_def by auto
  with Inl show ?thesis
    by (simp add: forward_def detection_feed_def extractor_forward_def)
next
  case (Inr x1)
  with fe obtain h w where x1: "x1 = [N, cs ! 0, h, w]"
    unfolding maps_channels_def by blast
  note fl = feed_loop_channels [OF len blocks, of N h w]
  show ?thesis
  proof (cases "feed_loop shapes (feature_blocks m) [N, cs ! 0, h, w]")
    case (Inl e)
    with fl have "e \<noteq> ChannelMismatch" by auto
    with Inl Inr x1 show ?thesis
      by (simp add: forward_def detection_feed_def extractor_forward_def)
  next
    case r: (Inr ys)
    with fl have ly: "length ys = length (feature_blocks m)"
      and ny: "\<forall>i<length (feature_blocks m). \<exists>h' w'. ys ! i = [N, cs ! Suc i, h', w']"
      by blast+
    have feed: "\<exists>h' w'. (x1 # ys) ! i = [N, cs ! i, h', w']" if "i < length (x1 # ys)" for i
    proof (cases i)
      case 0
      then show ?thesis unfolding x1 by simp
    next
      case (Suc j)
      with that ly have "j < length (feature_blocks m)" by simp
      with ny Suc show ?thesis by simp
    qed
    have "bbox_view shapes m (x1 # ys) (loc m) (conf m) \<noteq> Inl ChannelMismatch"
    proof (rule bbox_view_no_mismatch)
      fix x assume "x \<in> set (zip (x1 # ys) (zip (loc m) (conf m)))"
      then obtain i where i: "i < length (x1 # ys)" "i < length (loc m)" "i < length (conf m)"
        and x: "x = ((x1 # ys) ! i, loc m ! i, conf m ! i)"
        by (auto simp add: set_zip)
      from feed [OF i(1)] obtain h' w' where f: "(x1 # ys) ! i = [N, cs ! i, h', w']" by blast
      from locs [OF i(2)] obtain a where a: "maps_channels (loc m ! i) (cs ! i) a" by blast
      from confs [OF i(3)] obtain b where b: "maps_channels (conf m ! i) (cs ! i) b" by blast
      show "bbox_item shapes (num_classes m) x \<noteq> Inl ChannelMismatch"
        unfolding x f by (rule bbox_item_no_mismatch [OF a b])
    qed
    with r Inr x1 show ?thesis
      by (simp add: forward_def detection_feed_def extractor_forward_def)
  qed
qed
lemma SSD300_channels:
  "length (feature_blocks (fst (SSD300 d b nc st))) = min (length (out_channels (case b of None \<Rightarrow> d | Some x \<Rightarrow> x)) - 1) 5 \<and>
   length (loc (fst (SSD300 d b nc st))) = min 6 (length (out_channels (case b of None \<Rightarrow> d | Some x \<Rightarrow> x))) \<and>
   length (conf (fst (SSD300 d b nc st))) = min 6 (length (out_channels (case b of None \<Rightarrow> d | Some x \<Rightarrow> x))) \<and>
   (\<forall>i<length (feature_blocks (fst (SSD300 d b nc st))).
      maps_channels (feature_blocks (fst (SSD300 d b nc st)) ! i)
        (out_channels (case b of None \<Rightarrow> d | Some x \<Rightarrow> x) ! i) (out_channels (case b of None \<Rightarrow> d | Some x \<Rightarrow> x) ! Suc i) \<and>
      (\<forall>n c h w. c \<noteq> out_channels (case b of None \<Rightarrow> d | Some x \<Rightarrow> x) ! i \<longrightarrow>
         layer_shape (feature_blocks (fst (SSD300 d b nc st)) ! i) [n, c, h, w] =
           Inl ChannelMismatch)) \<and>
   (\<forall>i<length (loc (fst (SSD300 d b nc st))).
      maps_channels (loc (fst (SSD300 d b nc st)) ! i)
        (out_channels (case b of None \<Rightarrow> d | Some x \<Rightarrow> x) ! i) (num_defaults (fst (SSD300 d b nc st)) ! i * 4) \<and>
      maps_channels (conf (fst (SSD300 d b nc st)) ! i)
        (out_channels (case b of None \<Rightarrow> d | Some x \<Rightarrow> x) ! i) (num_defaults (fst (SSD300 d b nc st)) ! i * nc) \<and>
      (\<forall>n c h w. c \<noteq> out_channels (case b of None \<Rightarrow> d | Some x \<Rightarrow> x) ! i \<longrightarrow>
         layer_shape (loc (fst (SSD300 d b nc st)) ! i) [n, c, h, w] = Inl ChannelMismatch \<and>
         layer_shape (conf (fst (SSD300 d b nc st)) ! i) [n, c, h, w] = Inl ChannelMismatch)) \<and>
   (\<forall>ci. out_channels (case b of None \<Rightarrow> d | Some x \<Rightarrow> x) \<noteq> [] \<and>
      maps_channels (feature_extractor (case b of None \<Rightarrow> d | Some x \<Rightarrow> x)) ci (out_channels (case b of None \<Rightarrow> d | Some x \<Rightarrow> x) ! 0) \<longrightarrow>
      (\<forall>N H W. forward shapes (fst (SSD300 d b nc st)) [N, ci, H, W] \<noteq> Inl ChannelMismatch))"
proof -
  let ?m = "fst (SSD300 d b nc st)"
  let ?oc = "out_channels (case b of None \<Rightarrow> d | Some x \<Rightarrow> x)"
  have nd: "num_defaults ?m = [4, 6, 6, 6, 4, 4]" by (simp add: SSD300_fields)
  have lb: "length (feature_blocks ?m) = min (length ?oc - 1) 5"
    by (rule feature_blocks_length)
  have ll: "length (loc ?m) = min 6 (length ?oc)" and lc: "length (conf ?m) = min 6 (length ?oc)"
    by (rule heads_length)+
  have bl: "maps_channels (feature_blocks ?m ! i) (?oc ! i) (?oc ! Suc i)"
    and blr: "c \<noteq> ?oc ! i \<Longrightarrow>
      layer_shape (feature_blocks ?m ! i) [n', c, h, w] = Inl ChannelMismatch"
    if "i < length (feature_blocks ?m)" for i n' c h w
  proof -
    from that have i: "i < min (length ?oc - 1) 5" unfolding lb .
    show "maps_channels (feature_blocks ?m ! i) (?oc ! i) (?oc ! Suc i)"
      unfolding feature_blocks_nth [OF i] by (rule block_channels)
    show "c \<noteq> ?oc ! i \<Longrightarrow>
      layer_shape (feature_blocks ?m ! i) [n', c, h, w] = Inl ChannelMismatch"
      unfolding feature_blocks_nth [OF i] by simp
  qed
  have hd: "maps_channels (loc ?m ! i) (?oc ! i) (num_defaults ?m ! i * 4)"
      "maps_channels (conf ?m ! i) (?oc ! i) (num_defaults ?m ! i * nc)"
      "c \<noteq> ?oc ! i \<Longrightarrow> layer_shape (loc ?m ! i) [n', c, h, w] = Inl ChannelMismatch"
      "c \<noteq> ?oc ! i \<Longrightarrow> layer_shape (conf ?m ! i) [n', c, h, w] = Inl ChannelMismatch"
    if "i < length (loc ?m)" for i n' c h w
  proof -
    from that have i: "i < min 6 (length ?oc)" unfolding ll .
    show "maps_channels (loc ?m ! i) (?oc ! i) (num_defaults ?m ! i * 4)"
      unfolding heads_nth(1) [OF i] nd by (rule mc_conv)
    show "maps_channels (conf ?m ! i) (?oc ! i) (num_defaults ?m ! i * nc)"
      unfolding heads_nth(2) [OF i] nd by (rule mc_conv)
    show "c \<noteq> ?oc ! i \<Longrightarrow> layer_shape (loc ?m ! i) [n', c, h, w] = Inl ChannelMismatch"
      unfolding heads_nth(1) [OF i] by simp
    show "c \<noteq> ?oc ! i \<Longrightarrow> layer_shape (conf ?m ! i) [n', c, h, w] = Inl ChannelMismatch"
      unfolding heads_nth(2) [OF i] by simp
  qed
  have fw: "forward shapes ?m [N, ci, H, W] \<noteq> Inl ChannelMismatch"
    if "?oc \<noteq> []" "maps_channels (feature_extractor (case b of None \<Rightarrow> d | Some x \<Rightarrow> x)) ci (?oc ! 0)" for ci N H W
  proof (rule forward_no_mismatch [where cs = ?oc])
    show "maps_channels (feature_extractor (ssd_feature_extractor ?m)) ci (?oc ! 0)"
      using that(2) by (simp add: SSD300_fields)
    from that(1) have "0 < length ?oc" by simp
    then show "length (feature_blocks ?m) < length ?oc" unfolding lb by arith
    show "maps_channels (feature_blocks ?m ! i) (?oc ! i) (?oc ! Suc i)"
      if "i < length (feature_blocks ?m)" for i
      using that by (rule bl)
    show "\<exists>co. maps_channels (loc ?m ! i) (?oc ! i) co" if "i < length (loc ?m)" for i
      using hd(1) [OF that] by blast
    show "\<exists>co. maps_channels (conf ?m ! i) (?oc ! i) co" if "i < length (conf ?m)" for i
    proof -
      from that have "i < length (loc ?m)" unfolding ll lc .
      from hd(2) [OF this] show ?thesis by blast
    qed
  qed
  have g1: "\<forall>i<length (feature_blocks ?m).
      maps_channels (feature_blocks ?m ! i) (?oc ! i) (?oc ! Suc i) \<and>
      (\<forall>n c h w. c \<noteq> ?oc ! i \<longrightarrow>
         layer_shape (feature_blocks ?m ! i) [n, c, h, w] = Inl ChannelMismatch)"
    using bl blr by blast
  have g2: "\<forall>i<length (loc ?m).
      maps_channels (loc ?m ! i) (?oc ! i) (num_defaults ?m ! i * 4) \<and>
      maps_channels (conf ?m ! i) (?oc ! i) (num_defaults ?m ! i * nc) \<and>
      (\<forall>n c h w. c \<noteq> ?oc ! i \<longrightarrow>
         layer_shape (loc ?m ! i) [n, c, h, w] = Inl ChannelMismatch \<and>
         layer_shape (conf ?m ! i) [n, c, h, w] = Inl ChannelMismatch)"
    using hd by blast
  have g3: "\<forall>ci. ?oc \<noteq> [] \<and> maps_channels (feature_extractor (case b of None \<Rightarrow> d | Some x \<Rightarrow> x)) ci (?oc ! 0) \<longrightarrow>
      (\<forall>N H W. forward shapes ?m [N, ci, H, W] \<noteq> Inl ChannelMismatch)"
    using fw by blast
  from lb ll lc g1 g2 g3 show ?thesis by blast
qed

text \<open>
  C6.  For every backbone, feature block \<open>i\<close> accepts exactly the inputs with
  \<open>out_channels[i]\<close> channels and returns \<open>out_channels[i+1]\<close> channels, and \<open>loc[i]\<close>
  and \<open>conf[i]\<close> accept exactly the inputs with \<open>out_channels[i]\<close> channels.  Hence, when
  the backbone returns \<open>out_channels[0]\<close> channels, no layer of \<open>forward\<close> is handed a
  tensor with a channel count it does not expect.  The extractor of the source returns
  \<open>out_channels[0] = 32\<close> channels on an image with three channels, so \<open>forward\<close> of the
  default model never fails on a channel count, whatever the batch size, height and width
  of the input.
\<close>

theorem SSD300_channel_compatibility:
  "length (feature_blocks (fst (SSD300 d b nc st))) = min (length (out_channels (case b of None \<Rightarrow> d | Some x \<Rightarrow> x)) - 1) 5 \<and>
   length (loc (fst (SSD300 d b nc st))) = min 6 (length (out_channels (case b of None \<Rightarrow> d | Some x \<Rightarrow> x))) \<and>
   length (conf (fst (SSD300 d b nc st))) = min 6 (length (out_channels (case b of None \<Rightarrow> d | Some x \<Rightarrow> x))) \<and>
   (\<forall>i<length (feature_blocks (fst (SSD300 d b nc st))).
      maps_channels (feature_blocks (fst (SSD300 d b nc st)) ! i)
        (out_channels (case b of None \<Rightarrow> d | Some x \<Rightarrow> x) ! i) (out_channels (case b of None \<Rightarrow> d | Some x \<Rightarrow> x) ! Suc i) \<and>
      (\<forall>n c h w. c \<noteq> out_channels (case b of None \<Rightarrow> d | Some x \<Rightarrow> x) ! i \<longrightarrow>
         layer_shape (feature_blocks (fst (SSD300 d b nc st)) ! i) [n, c, h, w] =
           Inl ChannelMismatch)) \<and>
   (\<forall>i<length (loc (fst (SSD300 d b nc st))).
      maps_channels (loc (fst (SSD300 d b nc st)) ! i)
        (out_channels (case b of None \<Rightarrow> d | Some x \<Rightarrow> x) ! i) (num_defaults (fst (SSD300 d b nc st)) ! i * 4) \<and>
      maps_channels (conf (fst (SSD300 d b nc st)) ! i)
        (out_channels (case b of None \<Rightarrow> d | Some x \<Rightarrow> x) ! i) (num_defaults (fst (SSD300 d b nc st)) ! i * nc) \<and>
      (\<forall>n c h w. c \<noteq> out_channels (case b of None \<Rightarrow> d | Some x \<Rightarrow> x) ! i \<longrightarrow>
         layer_shape (loc (fst (SSD300 d b nc st)) ! i) [n, c, h, w] = Inl ChannelMismatch \<and>
         layer_shape (conf (fst (SSD300 d b nc st)) ! i) [n, c, h, w] = Inl ChannelMismatch)) \<and>
   (\<forall>ci. out_channels (case b of None \<Rightarrow> d | Some x \<Rightarrow> x) \<noteq> [] \<and>
      maps_channels (feature_extractor (case b of None \<Rightarrow> d | Some x \<Rightarrow> x)) ci (out_channels (case b of None \<Rightarrow> d | Some x \<Rightarrow> x) ! 0) \<longrightarrow>
      (\<forall>N H W. forward shapes (fst (SSD300 d b nc st)) [N, ci, H, W] \<noteq> Inl ChannelMismatch)) \<and>
   maps_channels (feature_extractor (fst (SSDMobileNetV2FeatureExtractor t n cls))) 3
     (out_channels (fst (SSDMobileNetV2FeatureExtractor t n cls)) ! 0) \<and>
   (\<forall>N H W. forward shapes (fst (SSD300 (fst (SSD300_class cls)) None nc st)) [N, 3, H, W] \<noteq>
      Inl ChannelMismatch)"
proof -
  have ex: "maps_channels (feature_extractor (fst (SSDMobileNetV2FeatureExtractor t n cls))) 3
     (out_channels (fst (SSDMobileNetV2FeatureExtractor t n cls)) ! 0)"
    unfolding extractor_out_channels using extractor_channels [of t n cls] by simp
  have oc: "out_channels (case None of None \<Rightarrow> fst (SSD300_class cls) | Some x \<Rightarrow> x) =
     [32, 512, 512, 256, 256, 256]"
    by (simp add: SSD300_default_channels)
  have fe: "maps_channels
     (feature_extractor (case None of None \<Rightarrow> fst (SSD300_class cls) | Some x \<Rightarrow> x)) 3
     (out_channels (case None of None \<Rightarrow> fst (SSD300_class cls) | Some x \<Rightarrow> x) ! 0)"
    unfolding oc using extractor_channels [of False 6 cls] by (simp add: SSD300_class_def)
  from SSD300_channels [of "fst (SSD300_class cls)" None nc st]
  have "\<forall>ci. out_channels (case None of None \<Rightarrow> fst (SSD300_class cls) | Some x \<Rightarrow> x) \<noteq> [] \<and>
      maps_channels (feature_extractor (case None of None \<Rightarrow> fst (SSD300_class cls) | Some x \<Rightarrow> x))
        ci (out_channels (case None of None \<Rightarrow> fst (SSD300_class cls) | Some x \<Rightarrow> x) ! 0) \<longrightarrow>
      (\<forall>N H W. forward shapes (fst (SSD300 (fst (SSD300_class cls)) None nc st)) [N, ci, H, W] \<noteq>
         Inl ChannelMismatch)"
    by blast
  with fe oc have dflt: "\<forall>N H W. forward shapes (fst (SSD300 (fst (SSD300_class cls)) None nc st))
      [N, 3, H, W] \<noteq> Inl ChannelMismatch"
    by (metis list.distinct(1))
  from SSD300_channels [of d b nc st] ex dflt show ?thesis by blast
qed

theorem SSD300_channel_compatibility_witness:
  "length (feature_blocks (fst (SSD300 (fst (SSD300_class [])) None 81 (snd (SSD300_class []))))) = 5 \<and>
   maps_channels (feature_blocks (fst (SSD300 (fst (SSD300_class [])) None 81 (snd (SSD300_class [])))) ! 0) 32 512 \<and>
   maps_channels (loc (fst (SSD300 (fst (SSD300_class [])) None 81 (snd (SSD300_class [])))) ! 0) 32 16 \<and>
   maps_channels (conf (fst (SSD300 (fst (SSD300_class [])) None 81 (snd (SSD300_class [])))) ! 0) 32 324 \<and>
   (31::nat) \<noteq> 32 \<and>
   layer_shape (feature_blocks (fst (SSD300 (fst (SSD300_class [])) None 81 (snd (SSD300_class [])))) ! 0) [2, 31, 38, 38] = Inl ChannelMismatch \<and>
   layer_shape (loc (fst (SSD300 (fst (SSD300_class [])) None 81 (snd (SSD300_class [])))) ! 0) [2, 31, 38, 38] = Inl ChannelMismatch \<and>
   forward shapes (fst (SSD300 (fst (SSD300_class [])) None 81 (snd (SSD300_class [])))) [2, 3, 300, 300] \<noteq> Inl ChannelMismatch"
proof -
  let ?d = "fst (SSD300_class [])"
  let ?m = "(fst (SSD300 (fst (SSD300_class [])) None 81 (snd (SSD300_class []))))"
  let ?oc = "out_channels (case None of None \<Rightarrow> ?d | Some x \<Rightarrow> x)"
  note t = SSD300_channel_compatibility [where d = ?d and b = None and nc = 81
      and st = "snd (SSD300_class [])" and cls = "[]"]
  have oc: "?oc = [32, 512, 512, 256, 256, 256]" by (simp add: SSD300_default_channels)
  have nd: "num_defaults ?m = [4, 6, 6, 6, 4, 4]" by (simp add: SSD300_fields)
  from t have lb: "length (feature_blocks ?m) = 5" and ll: "length (loc ?m) = 6"
    unfolding oc by simp_all
  from t have "\<forall>i<length (feature_blocks ?m).
      maps_channels (feature_blocks ?m ! i) (?oc ! i) (?oc ! Suc i) \<and>
      (\<forall>n c h w. c \<noteq> ?oc ! i \<longrightarrow>
         layer_shape (feature_blocks ?m ! i) [n, c, h, w] = Inl ChannelMismatch)"
    by blast
  from this [rule_format, of 0] lb
  have b0: "maps_channels (feature_blocks ?m ! 0) 32 512"
    and b1: "\<forall>n c h w. c \<noteq> 32 \<longrightarrow>
         layer_shape (feature_blocks ?m ! 0) [n, c, h, w] = Inl ChannelMismatch"
    unfolding oc by simp_all
  from t have "\<forall>i<length (loc ?m).
      maps_channels (loc ?m ! i) (?oc ! i) (num_defaults ?m ! i * 4) \<and>
      maps_channels (conf ?m ! i) (?oc ! i) (num_defaults ?m ! i * 81) \<and>
      (\<forall>n c h w. c \<noteq> ?oc ! i \<longrightarrow>
         layer_shape (loc ?m ! i) [n, c, h, w] = Inl ChannelMismatch \<and>
         layer_shape (conf ?m ! i) [n, c, h, w] = Inl ChannelMismatch)"
    by blast
  from this [rule_format, of 0] ll
  have l0: "maps_channels (loc ?m ! 0) 32 16" and c0: "maps_channels (conf ?m ! 0) 32 324"
    and l1: "\<forall>n c h w. c \<noteq> 32 \<longrightarrow>
         layer_shape (loc ?m ! 0) [n, c, h, w] = Inl ChannelMismatch"
    unfolding oc nd by simp_all
  from t have f: "\<forall>N H W. forward shapes ?m [N, 3, H, W] \<noteq> Inl ChannelMismatch"
    by blast
  have ne: "(31::nat) \<noteq> 32" by simp
  from lb b0 l0 c0 ne b1 [rule_format, of 31 2 38 38, OF ne] l1 [rule_format, of 31 2 38 38, OF ne]
    f [rule_format, of 2 300 300]
  show ?thesis by blast
qed

end
